theory Spec2Isabelle
  imports Main "HOL-Library.Monad_Syntax"
begin

section \<open>Errors and JavaScript helpers\<close>

text \<open>
  Every \<open>throw\<close> of the sources and every run-time exception of the platform is a value
  of \<open>error\<close>; a function that can throw returns \<open>error + 'a\<close> with \<open>Inl\<close> the error.
\<close>

datatype error =
    NotFound            \<comment> \<open>\<open>get\<close> on a collection with an absent key\<close>
  | TypeError           \<comment> \<open>a property read or a call on \<open>undefined\<close>, \<open>new\<close> on a non-constructor\<close>
  | SyntaxError         \<comment> \<open>\<open>JSON.parse\<close> on text that is not JSON\<close>
  | DriverError string  \<comment> \<open>a rejection of the database driver or of the SQL file loader\<close>
  | NamingError         \<comment> \<open>naming-function.js on a value that is no naming strategy\<close>
  | ArgumentsRequired   \<comment> \<open>legacy \<open>Constraint\<close>: 'constraint arguments are required.'\<close>
  | ValidationError     \<comment> \<open>legacy \<open>Constraint\<close>: 'Error in function arguments while trying to create ...'\<close>

type_synonym oid = nat

definition squote :: char where
  "squote = CHR 0x27"

definition backslash :: char where
  "backslash = CHR 0x5C"

text \<open>Decimal rendering of a non-negative integer, as a template literal does it.\<close>

definition digit_char :: "nat \<Rightarrow> char" where
  "digit_char d = char_of (48 + d)"

fun show_nat :: "nat \<Rightarrow> string" where
  "show_nat n = (if n < 10 then [digit_char n] else show_nat (n div 10) @ [digit_char (n mod 10)])"

declare show_nat.simps [simp del]

text \<open>\<open>Array.prototype.join\<close> on an array of strings.\<close>

fun join :: "string \<Rightarrow> string list \<Rightarrow> string" where
  "join sep [] = []"
| "join sep [x] = x"
| "join sep (x # y # ys) = x @ sep @ join sep (y # ys)"

section \<open>Schema discovery: \<open>getSchemas\<close> (main.js, lines 65-85)\<close>

definition systemPatterns :: "string list" where
  "systemPatterns = [''information'' @ [backslash] @ ''_schema'', ''pg'' @ [backslash] @ ''_%'']"

definition includedPatterns :: "string list \<Rightarrow> bool \<Rightarrow> string list" where
  "includedPatterns include system =
     include @ (if system \<and> length include > 0 then systemPatterns else [])"

definition excludedPatterns :: "string list \<Rightarrow> bool \<Rightarrow> string list" where
  "excludedPatterns exclude system = exclude @ (if system then [] else systemPatterns)"

text \<open>The first \<open>forEach\<close>: one \<open>nspname LIKE $(i + 1)\<close> for the pattern at index \<open>i\<close>.\<close>

definition whereInclude :: "string list \<Rightarrow> bool \<Rightarrow> string list" where
  "whereInclude include system =
     map (\<lambda>i. ''nspname LIKE $'' @ show_nat (i + 1)) [0 ..< length (includedPatterns include system)]"

text \<open>
  The second \<open>forEach\<close>: one \<open>nspname NOT LIKE $(i + include.length + 1)\<close> for the
  excluded pattern at index \<open>i\<close>. The offset is the length of \<open>include\<close>, the caller's
  list, as the source writes it.
\<close>

definition whereExclude :: "string list \<Rightarrow> string list \<Rightarrow> bool \<Rightarrow> string list" where
  "whereExclude include exclude system =
     map (\<lambda>i. ''nspname NOT LIKE $'' @ show_nat (i + length include + 1))
       [0 ..< length (excludedPatterns exclude system)]"

definition getSchemas_where :: "string list \<Rightarrow> string list \<Rightarrow> bool \<Rightarrow> string list" where
  "getSchemas_where include exclude system =
     [''NOT pg_is_other_temp_schema(oid)'', ''nspname <> '' @ [squote] @ ''pg_toast'' @ [squote]]
     @ (if length (whereInclude include system) > 0
        then [''('' @ join '' OR '' (whereInclude include system) @ '')''] else [])
     @ whereExclude include exclude system"

definition getSchemas_parameters :: "string list \<Rightarrow> string list \<Rightarrow> bool \<Rightarrow> string list" where
  "getSchemas_parameters include exclude system =
     includedPatterns include system @ excludedPatterns exclude system"

definition getSchemas_sql :: "string list \<Rightarrow> string list \<Rightarrow> bool \<Rightarrow> string" where
  "getSchemas_sql include exclude system =
     ''SELECT oid, nspname AS name, obj_description(oid, '' @ [squote] @ ''pg_namespace'' @ [squote]
       @ '') AS comment FROM pg_namespace ''
       @ (''WHERE '' @ join '' AND '' (getSchemas_where include exclude system))
       @ '' ORDER BY nspname''"

text \<open>
  What the query means to the server: \<open>$n\<close> denotes the \<open>n\<close>-th element of the parameter
  array (counted from one). \<open>likeArgument\<close> and \<open>notLikeArgument\<close> give the pattern that
  the \<open>i\<close>-th \<open>LIKE\<close> and the \<open>i\<close>-th \<open>NOT LIKE\<close> predicate of the query is evaluated with.
\<close>

definition likeArgument :: "string list \<Rightarrow> string list \<Rightarrow> bool \<Rightarrow> nat \<Rightarrow> string" where
  "likeArgument include exclude system i =
     getSchemas_parameters include exclude system ! ((i + 1) - 1)"

definition notLikeArgument :: "string list \<Rightarrow> string list \<Rightarrow> bool \<Rightarrow> nat \<Rightarrow> string" where
  "notLikeArgument include exclude system i =
     getSchemas_parameters include exclude system ! ((i + length include + 1) - 1)"

section \<open>Catalog rows\<close>

text \<open>
  The rows of the nine catalog queries, with the columns that main.js reads. The kind
  letters are values of the catalog's one-byte \<open>"char"\<close> type (typtype, relkind, contype,
  confupdtype, confdeltype, confmatchtype, prokind), hence \<open>char\<close>. Attribute numbers and
  positions are JavaScript numbers holding integers.
\<close>

record schema_row =
  sr_oid :: oid
  sr_name :: string
  sr_comment :: "string option"

record type_row =
  tr_oid :: oid
  tr_classOid :: oid
  tr_schemaOid :: oid
  tr_name :: string
  tr_kind :: char
  tr_sqlType :: "string option"

record entity_row =
  er_oid :: oid
  er_schemaOid :: oid
  er_kind :: char
  er_name :: string

record column_row =
  cr_parentKind :: char
  cr_parentOid :: oid
  cr_attributeNumber :: int
  cr_name :: string

record index_row =
  ir_oid :: oid
  ir_tableOid :: oid
  ir_name :: string
  ir_columnPositions :: "int list"
  ir_indexExpressions :: "string list"

record constraint_row =
  kr_oid :: oid
  kr_name :: string
  kr_kind :: char
  kr_tableOid :: oid
  kr_indexOid :: oid
  kr_typeOid :: oid
  kr_constrainedColumnPositions :: "int list"
  kr_onUpdate :: char
  kr_onDelete :: char
  kr_matchType :: char
  kr_checkConstraintExpression :: "string option"

record function_row =
  fr_oid :: oid
  fr_schemaOid :: oid
  fr_kind :: char
  fr_name :: string

record trigger_row =
  gr_name :: string
  gr_entityOid :: oid
  gr_functionOid :: oid

text \<open>The 9-tuple \<open>queryResults\<close>, in the order \<open>addObjects\<close> indexes it (0 to 8).\<close>

record queryResults =
  qr_schemas :: "schema_row list"
  qr_systemSchemas :: "schema_row list"
  qr_types :: "type_row list"
  qr_entities :: "entity_row list"
  qr_columns :: "column_row list"
  qr_indexes :: "index_row list"
  qr_constraints :: "constraint_row list"
  qr_functions :: "function_row list"
  qr_triggers :: "trigger_row list"

section \<open>The object graph\<close>

text \<open>
  Objects whose collections grow after their creation (schemas, types, entities) live in
  stores and are referred to by their position there: the store is the heap, a position
  is the object's identity, and a \<open>push\<close> on the object updates the store in place.
  Objects that nothing changes once they are built (columns, indexes, constraints,
  functions, triggers) are values; they refer to a mutable object by its position.

  Modelled from the spec: the model classes (db.js, schema.js, base/type.js,
  base/entity.js, column.js, index.js, the constraint classes but unique-constraint.js,
  the function classes, trigger.js) are not in the sources. Each object keeps the
  constructor arguments that main.js passes (the spread row and the resolved
  references) and starts with empty collections. The collections that a class owns
  are those of the spec's data model: every entity owns \<open>columns\<close>; tables and
  materialized views own \<open>indexes\<close>, \<open>constraints\<close> and \<open>triggers\<close>; a table owns
  \<open>foreignKeysToThis\<close>; a composite type owns \<open>columns\<close>; a domain owns check
  constraints. A \<open>push\<close> on a collection that the object does not own is a
  \<open>TypeError\<close> (the property is \<open>undefined\<close>).
\<close>

datatype typeKind =
  Domain | EnumType | BaseType | CompositeType | RangeType | PseudoType | MultiRangeType

datatype entityKind = Table | View | MaterializedView | Sequence

datatype functionKind = NormalFunction | Procedure | AggregateFunction | WindowFunction

datatype schema_ref = SystemSchema nat | UserSchema nat

datatype parent_ref = EntityParent nat | TypeParent nat

text \<open>Modelled from the spec: \<open>MatchType\<close> of types/index.js, not in the sources.\<close>

datatype MatchType = Full | Partial | Simple

record column =
  c_row :: column_row
  c_parent :: parent_ref

text \<open>
  An element of \<open>index.columnsAndExpressions\<close>: a column, an expression, or
  \<open>undefined\<close> (what \<open>find\<close> returns on no match and \<open>shift\<close> on an empty array).
\<close>

datatype columnOrExpression = Col column | Expr string | Undefined

record index =
  i_row :: index_row
  i_parent :: nat
  i_columnsAndExpressions :: "columnOrExpression list"

datatype constraint_parent = OfTable nat | OfDomain nat

text \<open>
  The unique constraint of unique-constraint.js: its constructor keeps \<open>args.index\<close> and
  \<open>args.table\<close> beside what the base class keeps of the row. \<open>index\<close> is what
  \<open>getMaybe\<close> returned, so it may be \<open>undefined\<close>. The object has no field for its
  columns.
\<close>

record uniqueConstraint =
  uc_row :: constraint_row
  uc_index :: "index option"
  uc_table :: nat

datatype "constraint" =
    PrimaryKey constraint_row "index option" nat
  | UniqueConstraint uniqueConstraint
  | ExclusionConstraint constraint_row "index option" nat
  | CheckConstraint constraint_row constraint_parent "string option"
  | ForeignKey (fk_row: constraint_row) (fk_table: nat) (fk_index: index)
      (fk_columns: "column list") (fk_onUpdate: "string option") (fk_onDelete: "string option")
      (fk_matchType: "MatchType option")

record func =
  f_row :: function_row
  f_kind :: functionKind
  f_schema :: nat

record trigger =
  g_row :: trigger_row
  g_function :: func
  g_parent :: nat

record builtinTypeData =
  bt_name :: "string option"
  bt_shortName :: "string option"
  bt_internalName :: "string option"
  bt_hasLength :: "bool option"
  bt_hasPrecision :: "bool option"
  bt_hasScale :: "bool option"

record pgtype =
  t_row :: type_row
  t_builtin :: builtinTypeData
  t_kind :: typeKind
  t_schema :: schema_ref
  t_sqlType :: "string option"
  t_columns :: "column list"
  t_checkConstraints :: "constraint list"

record entity =
  e_row :: entity_row
  e_kind :: entityKind
  e_schema :: nat
  e_columns :: "column list"
  e_indexes :: "index list"
  e_constraints :: "constraint list"
  e_triggers :: "trigger list"
  e_foreignKeysToThis :: "constraint list"

record schema =
  s_row :: schema_row
  s_tables :: "nat list"
  s_views :: "nat list"
  s_materializedViews :: "nat list"
  s_sequences :: "nat list"
  s_typesIncludingEntities :: "nat list"
  s_normalFunctions :: "func list"
  s_procedures :: "func list"
  s_aggregateFunctions :: "func list"
  s_windowFunctions :: "func list"

text \<open>
  \<open>relationNameFunctions\<close> is a name (a built-in strategy or a module) or an object of
  functions supplied by the caller; the number stands for the object's identity.
  \<open>PlainObject\<close> is an object that carries no function, which is what is left of an
  object of functions once it has been written as JSON.
\<close>

datatype relationNameFunctions = Named string | CustomFunctions nat | PlainObject

record config =
  cfg_commentDataToken :: string
  cfg_relationNameFunctions :: relationNameFunctions
  cfg_foreignKeyAliasSeparator :: string
  cfg_foreignKeyAliasTargetFirst :: bool

datatype namingStrategy = ModuleStrategy string | SuppliedStrategy nat

record Db =
  db_name :: string
  db_serverVersion :: string
  db_config :: config
  db_queryResults :: queryResults
  db_relationNameFunctions :: namingStrategy
  db_schemas :: "schema list"
  db_systemSchemas :: "schema list"
  typeStore :: "pgtype list"
  entityStore :: "entity list"

text \<open>
  Modelled from the spec: the constructor of \<open>Db\<close> (db.js is not in the sources) keeps
  its four arguments and starts with empty collections.
\<close>

definition newDb :: "string \<Rightarrow> string \<Rightarrow> config \<Rightarrow> queryResults \<Rightarrow> namingStrategy \<Rightarrow> Db" where
  "newDb nm ver cfg qr naming =
     \<lparr>db_name = nm, db_serverVersion = ver, db_config = cfg, db_queryResults = qr,
      db_relationNameFunctions = naming, db_schemas = [], db_systemSchemas = [],
      typeStore = [], entityStore = []\<rparr>"

text \<open>
  Modelled from the spec: util/naming-function.js is not in the sources; it binds a
  strategy given by name to the module of that name and returns supplied functions as
  they are. An object without the functions is no strategy, and binding it throws.
\<close>

definition getRelationNameFunctions :: "relationNameFunctions \<Rightarrow> error + namingStrategy" where
  "getRelationNameFunctions r =
     (case r of
        Named s \<Rightarrow> Inr (ModuleStrategy s)
      | CustomFunctions n \<Rightarrow> Inr (SuppliedStrategy n)
      | PlainObject \<Rightarrow> Inl NamingError)"

section \<open>The indexable collection\<close>

text \<open>
  Modelled from the spec (section 4.1; the collection is the package indexable-array):
  \<open>getMaybe\<close> returns the first element whose key attribute equals the key, or
  \<open>undefined\<close>; \<open>get\<close> throws when there is none; \<open>push\<close> appends. The variants with
  \<open>Ref\<close> return the position of the element in a store instead of the element.
\<close>

definition getMaybe :: "('a \<Rightarrow> 'k) \<Rightarrow> 'k \<Rightarrow> 'a list \<Rightarrow> 'a option" where
  "getMaybe key k xs = find (\<lambda>x. key x = k) xs"

definition get :: "('a \<Rightarrow> 'k) \<Rightarrow> 'k \<Rightarrow> 'a list \<Rightarrow> error + 'a" where
  "get key k xs = (case getMaybe key k xs of None \<Rightarrow> Inl NotFound | Some x \<Rightarrow> Inr x)"

fun findRef :: "('a \<Rightarrow> bool) \<Rightarrow> 'a list \<Rightarrow> nat option" where
  "findRef P [] = None"
| "findRef P (x # xs) = (if P x then Some 0 else map_option Suc (findRef P xs))"

definition getMaybeRef :: "('a \<Rightarrow> 'k) \<Rightarrow> 'k \<Rightarrow> 'a list \<Rightarrow> nat option" where
  "getMaybeRef key k xs = findRef (\<lambda>x. key x = k) xs"

definition getRef :: "('a \<Rightarrow> 'k) \<Rightarrow> 'k \<Rightarrow> 'a list \<Rightarrow> error + nat" where
  "getRef key k xs = (case getMaybeRef key k xs of None \<Rightarrow> Inl NotFound | Some i \<Rightarrow> Inr i)"

text \<open>
  Modelled from the spec: the root collections of \<open>Db\<close>. \<open>db.entities\<close> and
  \<open>db.typesIncludingEntities\<close> hold every entity and every type of the database,
  \<open>db.tables\<close> the entities that are tables, \<open>db.indexes\<close> the indexes of the tables
  (an index belongs to a table) and \<open>db.functions\<close> the functions of all schemas.
\<close>

definition entities_get :: "Db \<Rightarrow> oid \<Rightarrow> error + nat" where
  "entities_get db k = getRef (\<lambda>e. er_oid (e_row e)) k (entityStore db)"

definition tables_getMaybe :: "Db \<Rightarrow> oid \<Rightarrow> nat option" where
  "tables_getMaybe db k = findRef (\<lambda>e. e_kind e = Table \<and> er_oid (e_row e) = k) (entityStore db)"

definition typesIncludingEntities_getMaybe :: "Db \<Rightarrow> oid \<Rightarrow> nat option" where
  "typesIncludingEntities_getMaybe db k = getMaybeRef (\<lambda>t. tr_oid (t_row t)) k (typeStore db)"

definition typesIncludingEntities_get_classOid :: "Db \<Rightarrow> oid \<Rightarrow> error + nat" where
  "typesIncludingEntities_get_classOid db k = getRef (\<lambda>t. tr_classOid (t_row t)) k (typeStore db)"

definition db_indexes :: "Db \<Rightarrow> index list" where
  "db_indexes db = concat (map e_indexes (filter (\<lambda>e. e_kind e = Table) (entityStore db)))"

definition indexes_getMaybe :: "Db \<Rightarrow> oid \<Rightarrow> index option" where
  "indexes_getMaybe db k = getMaybe (\<lambda>i. ir_oid (i_row i)) k (db_indexes db)"

definition db_functions :: "Db \<Rightarrow> func list" where
  "db_functions db =
     concat (map (\<lambda>s. s_normalFunctions s @ s_procedures s @ s_aggregateFunctions s
                       @ s_windowFunctions s) (db_schemas db))"

definition functions_get :: "Db \<Rightarrow> oid \<Rightarrow> error + func" where
  "functions_get db k = get (\<lambda>f. fr_oid (f_row f)) k (db_functions db)"

text \<open>Updating one object of a store in place.\<close>

definition updSchema :: "nat \<Rightarrow> (schema \<Rightarrow> schema) \<Rightarrow> Db \<Rightarrow> Db" where
  "updSchema i f db = db\<lparr>db_schemas := (db_schemas db)[i := f (db_schemas db ! i)]\<rparr>"

definition updSystemSchema :: "nat \<Rightarrow> (schema \<Rightarrow> schema) \<Rightarrow> Db \<Rightarrow> Db" where
  "updSystemSchema i f db =
     db\<lparr>db_systemSchemas := (db_systemSchemas db)[i := f (db_systemSchemas db ! i)]\<rparr>"

definition updType :: "nat \<Rightarrow> (pgtype \<Rightarrow> pgtype) \<Rightarrow> Db \<Rightarrow> Db" where
  "updType r f db = db\<lparr>typeStore := (typeStore db)[r := f (typeStore db ! r)]\<rparr>"

definition updEntity :: "nat \<Rightarrow> (entity \<Rightarrow> entity) \<Rightarrow> Db \<Rightarrow> Db" where
  "updEntity r f db = db\<lparr>entityStore := (entityStore db)[r := f (entityStore db ! r)]\<rparr>"

text \<open>\<open>rows.forEach\<close> with a callback that may throw: the first exception ends the loop.\<close>

fun forEach :: "('s \<Rightarrow> 'a \<Rightarrow> error + 's) \<Rightarrow> 's \<Rightarrow> 'a list \<Rightarrow> error + 's" where
  "forEach f s [] = Inr s"
| "forEach f s (x # xs) = (case f s x of Inl e \<Rightarrow> Inl e | Inr s' \<Rightarrow> forEach f s' xs)"

section \<open>The assembler (main.js, lines 104-342)\<close>

subsection \<open>\<open>addSystemSchemas\<close> and \<open>addSchemas\<close>\<close>

definition newSchema :: "schema_row \<Rightarrow> schema" where
  "newSchema row =
     \<lparr>s_row = row, s_tables = [], s_views = [], s_materializedViews = [], s_sequences = [],
      s_typesIncludingEntities = [], s_normalFunctions = [], s_procedures = [],
      s_aggregateFunctions = [], s_windowFunctions = []\<rparr>"

definition addSystemSchemas :: "Db \<Rightarrow> schema_row list \<Rightarrow> Db" where
  "addSystemSchemas db rows =
     foldl (\<lambda>d row. d\<lparr>db_systemSchemas := db_systemSchemas d @ [newSchema row]\<rparr>) db rows"

definition addSchemas :: "Db \<Rightarrow> schema_row list \<Rightarrow> Db" where
  "addSchemas db rows =
     foldl (\<lambda>d row. d\<lparr>db_schemas := db_schemas d @ [newSchema row]\<rparr>) db rows"

subsection \<open>\<open>addTypes\<close>\<close>

definition noBuiltinTypeData :: builtinTypeData where
  "noBuiltinTypeData =
     \<lparr>bt_name = None, bt_shortName = None, bt_internalName = None, bt_hasLength = None,
      bt_hasPrecision = None, bt_hasScale = None\<rparr>"

definition builtinTypeAliases :: "(string \<times> builtinTypeData) list" where
  "builtinTypeAliases =
     [(''int2'', noBuiltinTypeData\<lparr>bt_name := Some ''smallint''\<rparr>),
      (''int4'', noBuiltinTypeData\<lparr>bt_name := Some ''integer'', bt_shortName := Some ''int''\<rparr>),
      (''int8'', noBuiltinTypeData\<lparr>bt_name := Some ''bigint''\<rparr>),
      (''numeric'', noBuiltinTypeData\<lparr>bt_internalName := Some ''decimal'',
          bt_hasPrecision := Some True, bt_hasScale := Some True\<rparr>),
      (''float4'', noBuiltinTypeData\<lparr>bt_name := Some ''real''\<rparr>),
      (''float8'', noBuiltinTypeData\<lparr>bt_name := Some ''double precision''\<rparr>),
      (''varchar'', noBuiltinTypeData\<lparr>bt_name := Some ''character varying'',
          bt_hasLength := Some True\<rparr>),
      (''char'', noBuiltinTypeData\<lparr>bt_name := Some ''character'', bt_hasLength := Some True\<rparr>),
      (''timestamp'', noBuiltinTypeData\<lparr>bt_name := Some ''timestamp without time zone'',
          bt_hasPrecision := Some True\<rparr>),
      (''timestamptz'', noBuiltinTypeData\<lparr>bt_name := Some ''timestamp with time zone'',
          bt_hasPrecision := Some True\<rparr>),
      (''time'', noBuiltinTypeData\<lparr>bt_name := Some ''time without time zone'',
          bt_hasPrecision := Some True\<rparr>),
      (''timetz'', noBuiltinTypeData\<lparr>bt_name := Some ''time with time zone'',
          bt_hasPrecision := Some True\<rparr>),
      (''interval'', noBuiltinTypeData\<lparr>bt_hasPrecision := Some True\<rparr>),
      (''bool'', noBuiltinTypeData\<lparr>bt_name := Some ''boolean''\<rparr>),
      (''bit'', noBuiltinTypeData\<lparr>bt_hasLength := Some True\<rparr>),
      (''varbit'', noBuiltinTypeData\<lparr>bt_name := Some ''bit varying'', bt_hasLength := Some True\<rparr>)]"

text \<open>
  \<open>builtinTypeAliases\<close> is an object literal, so \<open>builtinTypeAliases[row.name]\<close> is also
  truthy when the name is a property that the literal inherits from \<open>Object.prototype\<close>;
  spreading such a value adds nothing, and only \<open>internalName\<close> is set.
\<close>

definition objectPrototypeKeys :: "string list" where
  "objectPrototypeKeys =
     [''constructor'', ''hasOwnProperty'', ''isPrototypeOf'', ''propertyIsEnumerable'',
      ''toLocaleString'', ''toString'', ''valueOf'', ''__defineGetter__'', ''__defineSetter__'',
      ''__lookupGetter__'', ''__lookupSetter__'', ''__proto__'']"

definition builtinTypeDataOf :: "string \<Rightarrow> builtinTypeData" where
  "builtinTypeDataOf nm =
     (case map_of builtinTypeAliases nm of
        Some a \<Rightarrow>
          a\<lparr>bt_internalName := (case bt_internalName a of Some x \<Rightarrow> Some x | None \<Rightarrow> Some nm)\<rparr>
      | None \<Rightarrow>
          if nm \<in> set objectPrototypeKeys
          then noBuiltinTypeData\<lparr>bt_internalName := Some nm\<rparr>
          else noBuiltinTypeData)"

definition typeKinds :: "char \<Rightarrow> typeKind option" where
  "typeKinds k =
     (if k = CHR ''d'' then Some Domain
      else if k = CHR ''e'' then Some EnumType
      else if k = CHR ''b'' then Some BaseType
      else if k = CHR ''c'' then Some CompositeType
      else if k = CHR ''r'' then Some RangeType
      else if k = CHR ''p'' then Some PseudoType
      else if k = CHR ''m'' then Some MultiRangeType
      else None)"

text \<open>
  \<open>db.systemSchemas.getMaybe(row.schemaOid, {key: "oid"}) ||
   db.schemas.get(row.schemaOid, {key: "oid"})\<close>
\<close>

definition typeSchema :: "Db \<Rightarrow> oid \<Rightarrow> error + schema_ref" where
  "typeSchema db k =
     (case getMaybeRef (\<lambda>s. sr_oid (s_row s)) k (db_systemSchemas db) of
        Some i \<Rightarrow> Inr (SystemSchema i)
      | None \<Rightarrow>
          (case getRef (\<lambda>s. sr_oid (s_row s)) k (db_schemas db) of
             Inl e \<Rightarrow> Inl e
           | Inr i \<Rightarrow> Inr (UserSchema i)))"

definition newType :: "type_row \<Rightarrow> typeKind \<Rightarrow> schema_ref \<Rightarrow> pgtype" where
  "newType row k sref =
     \<lparr>t_row = row, t_builtin = builtinTypeDataOf (tr_name row), t_kind = k, t_schema = sref,
      t_sqlType = tr_sqlType row, t_columns = [], t_checkConstraints = []\<rparr>"

definition pushTypesIncludingEntities :: "nat \<Rightarrow> schema \<Rightarrow> schema" where
  "pushTypesIncludingEntities r s =
     s\<lparr>s_typesIncludingEntities := s_typesIncludingEntities s @ [r]\<rparr>"

text \<open>
  The new type is stored at the next free position of the type store, and that position
  is pushed to \<open>schema.typesIncludingEntities\<close>.
\<close>

definition addTypes_row :: "Db \<Rightarrow> type_row \<Rightarrow> error + Db" where
  "addTypes_row db row =
     (case typeSchema db (tr_schemaOid row) of
        Inl e \<Rightarrow> Inl e
      | Inr sref \<Rightarrow>
          (case typeKinds (tr_kind row) of
             None \<Rightarrow> Inl TypeError
           | Some k \<Rightarrow>
               (let r = length (typeStore db);
                    db' = db\<lparr>typeStore := typeStore db @ [newType row k sref]\<rparr>
                in Inr (case sref of
                          SystemSchema i \<Rightarrow> updSystemSchema i (pushTypesIncludingEntities r) db'
                        | UserSchema i \<Rightarrow> updSchema i (pushTypesIncludingEntities r) db'))))"

definition addTypes :: "Db \<Rightarrow> type_row list \<Rightarrow> error + Db" where
  "addTypes db rows = forEach addTypes_row db rows"

subsection \<open>\<open>addEntities\<close>\<close>

definition newEntity :: "entity_row \<Rightarrow> entityKind \<Rightarrow> nat \<Rightarrow> entity" where
  "newEntity row k si =
     \<lparr>e_row = row, e_kind = k, e_schema = si, e_columns = [], e_indexes = [],
      e_constraints = [], e_triggers = [], e_foreignKeysToThis = []\<rparr>"

definition pushEntity :: "entityKind \<Rightarrow> nat \<Rightarrow> schema \<Rightarrow> schema" where
  "pushEntity k r s =
     (case k of
        Table \<Rightarrow> s\<lparr>s_tables := s_tables s @ [r]\<rparr>
      | View \<Rightarrow> s\<lparr>s_views := s_views s @ [r]\<rparr>
      | MaterializedView \<Rightarrow> s\<lparr>s_materializedViews := s_materializedViews s @ [r]\<rparr>
      | Sequence \<Rightarrow> s\<lparr>s_sequences := s_sequences s @ [r]\<rparr>)"

definition createEntity :: "entityKind \<Rightarrow> nat \<Rightarrow> entity_row \<Rightarrow> Db \<Rightarrow> Db" where
  "createEntity k si row db =
     updSchema si (pushEntity k (length (entityStore db)))
       (db\<lparr>entityStore := entityStore db @ [newEntity row k si]\<rparr>)"

definition addEntities_row :: "Db \<Rightarrow> entity_row \<Rightarrow> error + Db" where
  "addEntities_row db row =
     (case getRef (\<lambda>s. sr_oid (s_row s)) (er_schemaOid row) (db_schemas db) of
        Inl e \<Rightarrow> Inl e
      | Inr si \<Rightarrow>
          Inr (if er_kind row = CHR ''r'' \<or> er_kind row = CHR ''p'' then createEntity Table si row db
               else if er_kind row = CHR ''v'' then createEntity View si row db
               else if er_kind row = CHR ''m'' then createEntity MaterializedView si row db
               else if er_kind row = CHR ''S'' then createEntity Sequence si row db
               else db))"

definition addEntities :: "Db \<Rightarrow> entity_row list \<Rightarrow> error + Db" where
  "addEntities db rows = forEach addEntities_row db rows"

subsection \<open>\<open>addColumns\<close>\<close>

definition pushTypeColumn :: "nat \<Rightarrow> column \<Rightarrow> Db \<Rightarrow> Db" where
  "pushTypeColumn r c db = updType r (\<lambda>t. t\<lparr>t_columns := t_columns t @ [c]\<rparr>) db"

definition pushColumn :: "nat \<Rightarrow> column \<Rightarrow> Db \<Rightarrow> Db" where
  "pushColumn r c db = updEntity r (\<lambda>e. e\<lparr>e_columns := e_columns e @ [c]\<rparr>) db"

definition addColumns_row :: "Db \<Rightarrow> column_row \<Rightarrow> error + Db" where
  "addColumns_row db row =
     (if cr_parentKind row = CHR ''c''
      then (case typesIncludingEntities_get_classOid db (cr_parentOid row) of
              Inl e \<Rightarrow> Inl e
            | Inr r \<Rightarrow>
                if t_kind (typeStore db ! r) = CompositeType
                then Inr (pushTypeColumn r \<lparr>c_row = row, c_parent = TypeParent r\<rparr> db)
                else Inl TypeError)
      else (case entities_get db (cr_parentOid row) of
              Inl e \<Rightarrow> Inl e
            | Inr r \<Rightarrow> Inr (pushColumn r \<lparr>c_row = row, c_parent = EntityParent r\<rparr> db)))"

definition addColumns :: "Db \<Rightarrow> column_row list \<Rightarrow> error + Db" where
  "addColumns db rows = forEach addColumns_row db rows"

subsection \<open>\<open>addIndexes\<close>\<close>

text \<open>\<open>parent.columns.find((c) => c.attributeNumber === position)\<close>\<close>

definition findColumn :: "column list \<Rightarrow> int \<Rightarrow> columnOrExpression" where
  "findColumn cols position =
     (case find (\<lambda>c. cr_attributeNumber (c_row c) = position) cols of
        None \<Rightarrow> Undefined
      | Some c \<Rightarrow> Col c)"

text \<open>
  \<open>row.columnPositions.forEach\<close>: the state of the loop is the local copy
  \<open>indexExpressions\<close>, which \<open>shift\<close> consumes from the front, and
  \<open>index.columnsAndExpressions\<close>, which \<open>push\<close> extends at the end.
\<close>

fun columnPositions_forEach ::
  "column list \<Rightarrow> int list \<Rightarrow> string list \<times> columnOrExpression list
     \<Rightarrow> string list \<times> columnOrExpression list" where
  "columnPositions_forEach cols [] st = st"
| "columnPositions_forEach cols (position # ps) (indexExpressions, cae) =
     (if position > 0
      then columnPositions_forEach cols ps (indexExpressions, cae @ [findColumn cols position])
      else (case indexExpressions of
              [] \<Rightarrow> columnPositions_forEach cols ps ([], cae @ [Undefined])
            | x # rest \<Rightarrow> columnPositions_forEach cols ps (rest, cae @ [Expr x])))"

text \<open>The entities that own \<open>indexes\<close>, \<open>constraints\<close> and \<open>triggers\<close>.\<close>

definition isTableOrMaterializedView :: "entityKind \<Rightarrow> bool" where
  "isTableOrMaterializedView k = (k = Table \<or> k = MaterializedView)"

text \<open>
  The list that the loop leaves in \<open>index.columnsAndExpressions\<close>, empty before it,
  when it starts with a copy of \<open>row.indexExpressions\<close>.
\<close>

definition walkColumnPositions :: "column list \<Rightarrow> int list \<Rightarrow> string list \<Rightarrow> columnOrExpression list" where
  "walkColumnPositions cols ps es = snd (columnPositions_forEach cols ps (es, []))"

definition buildIndex :: "Db \<Rightarrow> nat \<Rightarrow> index_row \<Rightarrow> index" where
  "buildIndex db parent row =
     \<lparr>i_row = row, i_parent = parent,
      i_columnsAndExpressions =
        walkColumnPositions (e_columns (entityStore db ! parent))
          (ir_columnPositions row) (ir_indexExpressions row)\<rparr>"

definition pushIndex :: "nat \<Rightarrow> index \<Rightarrow> Db \<Rightarrow> Db" where
  "pushIndex r i db = updEntity r (\<lambda>e. e\<lparr>e_indexes := e_indexes e @ [i]\<rparr>) db"

definition addIndexes_row :: "Db \<Rightarrow> index_row \<Rightarrow> error + Db" where
  "addIndexes_row db row =
     (case entities_get db (ir_tableOid row) of
        Inl e \<Rightarrow> Inl e
      | Inr parent \<Rightarrow>
          if isTableOrMaterializedView (e_kind (entityStore db ! parent))
          then Inr (pushIndex parent (buildIndex db parent row) db)
          else Inl TypeError)"

definition addIndexes :: "Db \<Rightarrow> index_row list \<Rightarrow> error + Db" where
  "addIndexes db rows = forEach addIndexes_row db rows"

subsection \<open>\<open>addFunctions\<close>\<close>

definition pushFunction :: "func \<Rightarrow> schema \<Rightarrow> schema" where
  "pushFunction f s =
     (case f_kind f of
        NormalFunction \<Rightarrow> s\<lparr>s_normalFunctions := s_normalFunctions s @ [f]\<rparr>
      | Procedure \<Rightarrow> s\<lparr>s_procedures := s_procedures s @ [f]\<rparr>
      | AggregateFunction \<Rightarrow> s\<lparr>s_aggregateFunctions := s_aggregateFunctions s @ [f]\<rparr>
      | WindowFunction \<Rightarrow> s\<lparr>s_windowFunctions := s_windowFunctions s @ [f]\<rparr>)"

definition createFunction :: "functionKind \<Rightarrow> nat \<Rightarrow> function_row \<Rightarrow> Db \<Rightarrow> Db" where
  "createFunction k si row db =
     updSchema si (pushFunction \<lparr>f_row = row, f_kind = k, f_schema = si\<rparr>) db"

definition addFunctions_row :: "Db \<Rightarrow> function_row \<Rightarrow> error + Db" where
  "addFunctions_row db row =
     (case getRef (\<lambda>s. sr_oid (s_row s)) (fr_schemaOid row) (db_schemas db) of
        Inl e \<Rightarrow> Inl e
      | Inr si \<Rightarrow>
          Inr (if fr_kind row = CHR ''f'' then createFunction NormalFunction si row db
               else if fr_kind row = CHR ''p'' then createFunction Procedure si row db
               else if fr_kind row = CHR ''a'' then createFunction AggregateFunction si row db
               else if fr_kind row = CHR ''w'' then createFunction WindowFunction si row db
               else db))"

definition addFunctions :: "Db \<Rightarrow> function_row list \<Rightarrow> error + Db" where
  "addFunctions db rows = forEach addFunctions_row db rows"

subsection \<open>\<open>addTriggers\<close>\<close>

definition pushTrigger :: "nat \<Rightarrow> trigger \<Rightarrow> Db \<Rightarrow> Db" where
  "pushTrigger r g db = updEntity r (\<lambda>e. e\<lparr>e_triggers := e_triggers e @ [g]\<rparr>) db"

definition addTriggers_row :: "Db \<Rightarrow> trigger_row \<Rightarrow> error + Db" where
  "addTriggers_row db row =
     (case entities_get db (gr_entityOid row) of
        Inl e \<Rightarrow> Inl e
      | Inr r \<Rightarrow>
          (case functions_get db (gr_functionOid row) of
             Inl e \<Rightarrow> Inl e
           | Inr f \<Rightarrow>
               if isTableOrMaterializedView (e_kind (entityStore db ! r))
               then Inr (pushTrigger r \<lparr>g_row = row, g_function = f, g_parent = r\<rparr> db)
               else Inl TypeError))"

definition addTriggers :: "Db \<Rightarrow> trigger_row list \<Rightarrow> error + Db" where
  "addTriggers db rows = forEach addTriggers_row db rows"

subsection \<open>\<open>addConstraints\<close>\<close>

definition actionLetterMap :: "char \<Rightarrow> string option" where
  "actionLetterMap l =
     (if l = CHR ''a'' then Some ''NO ACTION''
      else if l = CHR ''r'' then Some ''RESTRICT''
      else if l = CHR ''c'' then Some ''CASCADE''
      else if l = CHR ''n'' then Some ''SET NULL''
      else if l = CHR ''d'' then Some ''SET DEFAULT''
      else None)"

definition matchTypeLetterMap :: "char \<Rightarrow> MatchType option" where
  "matchTypeLetterMap l =
     (if l = CHR ''f'' then Some Full
      else if l = CHR ''p'' then Some Partial
      else if l = CHR ''s'' then Some Simple
      else None)"

text \<open>
  \<open>row.constrainedColumnPositions.map((pos) => table.columns.get(pos, {key:
  "attributeNumber"}))\<close>: the first position with no column throws.
\<close>

fun constrainedColumns :: "column list \<Rightarrow> int list \<Rightarrow> error + column list" where
  "constrainedColumns cols [] = Inr []"
| "constrainedColumns cols (pos # ps) =
     (case get (\<lambda>c. cr_attributeNumber (c_row c)) pos cols of
        Inl e \<Rightarrow> Inl e
      | Inr c \<Rightarrow>
          (case constrainedColumns cols ps of
             Inl e \<Rightarrow> Inl e
           | Inr cs \<Rightarrow> Inr (c # cs)))"

definition pushConstraint :: "nat \<Rightarrow> constraint \<Rightarrow> Db \<Rightarrow> Db" where
  "pushConstraint t c db = updEntity t (\<lambda>e. e\<lparr>e_constraints := e_constraints e @ [c]\<rparr>) db"

definition pushForeignKeysToThis :: "nat \<Rightarrow> constraint \<Rightarrow> Db \<Rightarrow> Db" where
  "pushForeignKeysToThis r c db =
     updEntity r (\<lambda>e. e\<lparr>e_foreignKeysToThis := e_foreignKeysToThis e @ [c]\<rparr>) db"

definition pushCheckConstraint :: "nat \<Rightarrow> constraint \<Rightarrow> Db \<Rightarrow> Db" where
  "pushCheckConstraint d c db =
     updType d (\<lambda>t. t\<lparr>t_checkConstraints := t_checkConstraints t @ [c]\<rparr>) db"

definition newForeignKey :: "constraint_row \<Rightarrow> nat \<Rightarrow> index \<Rightarrow> column list \<Rightarrow> constraint" where
  "newForeignKey row table idx cols =
     ForeignKey row table idx cols (actionLetterMap (kr_onUpdate row))
       (actionLetterMap (kr_onDelete row)) (matchTypeLetterMap (kr_matchType row))"

text \<open>
  Modelled from the spec: \<open>foreignKey.referencedTable\<close> (foreign-key.js is not in the
  sources) is derived from the index's table, the entity that the index was pushed to.
\<close>

definition referencedTable :: "constraint \<Rightarrow> nat" where
  "referencedTable c = i_parent (fk_index c)"

text \<open>\<open>new UniqueConstraint({ ...row, index, table })\<close>\<close>

definition newUniqueConstraint :: "constraint_row \<Rightarrow> index option \<Rightarrow> nat \<Rightarrow> uniqueConstraint" where
  "newUniqueConstraint row idx table = \<lparr>uc_row = row, uc_index = idx, uc_table = table\<rparr>"

text \<open>The foreign-key branch, lines 276-290, once \<open>table\<close> is known.\<close>

definition addForeignKey :: "Db \<Rightarrow> constraint_row \<Rightarrow> nat \<Rightarrow> index option \<Rightarrow> error + Db" where
  "addForeignKey db row table idx =
     (case idx of
        None \<Rightarrow> Inr db
      | Some i \<Rightarrow>
          (case constrainedColumns (e_columns (entityStore db ! table))
                  (kr_constrainedColumnPositions row) of
             Inl e \<Rightarrow> Inl e
           | Inr cols \<Rightarrow>
               (let foreignKey = newForeignKey row table i cols;
                    db' = pushConstraint table foreignKey db
                in if e_kind (entityStore db' ! referencedTable foreignKey) = Table
                   then Inr (pushForeignKeysToThis (referencedTable foreignKey) foreignKey db')
                   else Inl TypeError)))"

definition addConstraints_row :: "Db \<Rightarrow> constraint_row \<Rightarrow> error + Db" where
  "addConstraints_row db row =
     (let table = tables_getMaybe db (kr_tableOid row);
          idx = indexes_getMaybe db (kr_indexOid row);
          domain = typesIncludingEntities_getMaybe db (kr_typeOid row)
      in case table of
           Some t \<Rightarrow>
             if kr_kind row = CHR ''p'' then Inr (pushConstraint t (PrimaryKey row idx t) db)
             else if kr_kind row = CHR ''u'' then Inr (pushConstraint t (UniqueConstraint (newUniqueConstraint row idx t)) db)
             else if kr_kind row = CHR ''x'' then Inr (pushConstraint t (ExclusionConstraint row idx t) db)
             else if kr_kind row = CHR ''c''
               then Inr (pushConstraint t
                      (CheckConstraint row (OfTable t) (kr_checkConstraintExpression row)) db)
             else if kr_kind row = CHR ''f'' then addForeignKey db row t idx
             else Inr db
         | None \<Rightarrow>
             (case domain of
                Some d \<Rightarrow>
                  if kr_kind row = CHR ''c''
                  then (if t_kind (typeStore db ! d) = Domain
                        then Inr (pushCheckConstraint d
                               (CheckConstraint row (OfDomain d) (kr_checkConstraintExpression row)) db)
                        else Inl TypeError)
                  else Inr db
              | None \<Rightarrow> Inr db))"

definition addConstraints :: "Db \<Rightarrow> constraint_row list \<Rightarrow> error + Db" where
  "addConstraints db rows = forEach addConstraints_row db rows"

subsection \<open>\<open>addObjects\<close>\<close>

definition andThen :: "error + 'a \<Rightarrow> ('a \<Rightarrow> error + 'b) \<Rightarrow> error + 'b" where
  "andThen m f = (case m of Inl e \<Rightarrow> Inl e | Inr x \<Rightarrow> f x)"

definition addObjects :: "Db \<Rightarrow> queryResults \<Rightarrow> error + Db" where
  "addObjects db queryResults =
     andThen (addTypes (addSystemSchemas (addSchemas db (qr_schemas queryResults))
                          (qr_systemSchemas queryResults)) (qr_types queryResults))
       (\<lambda>db. andThen (addEntities db (qr_entities queryResults))
       (\<lambda>db. andThen (addColumns db (qr_columns queryResults))
       (\<lambda>db. andThen (addIndexes db (qr_indexes queryResults))
       (\<lambda>db. andThen (addConstraints db (qr_constraints queryResults))
       (\<lambda>db. andThen (addFunctions db (qr_functions queryResults))
       (\<lambda>db. addTriggers db (qr_triggers queryResults)))))))"

section \<open>The columns of a unique constraint (unique-constraint.js)\<close>

text \<open>
  Modelled from the spec: \<open>index.columns\<close> (index.js is not in the sources) are the
  columns among \<open>columnsAndExpressions\<close>, in their order.
\<close>

fun columnsOnly :: "columnOrExpression list \<Rightarrow> column list" where
  "columnsOnly [] = []"
| "columnsOnly (Col c # xs) = c # columnsOnly xs"
| "columnsOnly (x # xs) = columnsOnly xs"

definition Index_columns :: "index \<Rightarrow> column list" where
  "Index_columns i = columnsOnly (i_columnsAndExpressions i)"

text \<open>
  The getter \<open>columns\<close> returns \<open>this.index.columns\<close>: it is computed at each read,
  from the index the constraint holds, and throws when the constraint was built with
  no index.
\<close>

definition UniqueConstraint_columns :: "uniqueConstraint \<Rightarrow> error + column list" where
  "UniqueConstraint_columns this =
     (case uc_index this of None \<Rightarrow> Inl TypeError | Some i \<Rightarrow> Inr (Index_columns i))"

section \<open>The entry point \<open>pgStructure\<close> (main.js, lines 305-384)\<close>

text \<open>
  \<open>includeSchemas\<close> and \<open>excludeSchemas\<close> are a pattern or a list of patterns.
  Modelled from the spec: \<open>arrify\<close> of util/helper.js is not in the sources; it makes a
  list of either, and the empty list of \<open>undefined\<close>.
\<close>

datatype patterns = Single string | Several "string list"

definition arrify :: "patterns option \<Rightarrow> string list" where
  "arrify p = (case p of None \<Rightarrow> [] | Some (Single x) \<Rightarrow> [x] | Some (Several xs) \<Rightarrow> xs)"

record options =
  o_envPrefix :: "string option"
  o_name :: "string option"
  o_commentDataToken :: "string option"
  o_includeSchemas :: "patterns option"
  o_excludeSchemas :: "patterns option"
  o_includeSystemSchemas :: "bool option"
  o_foreignKeyAliasSeparator :: "string option"
  o_foreignKeyAliasTargetFirst :: "bool option"
  o_relationNameFunctions :: "relationNameFunctions option"
  o_keepConnection :: "bool option"

definition noOptions :: options where
  "noOptions =
     \<lparr>o_envPrefix = None, o_name = None, o_commentDataToken = None, o_includeSchemas = None,
      o_excludeSchemas = None, o_includeSystemSchemas = None, o_foreignKeyAliasSeparator = None,
      o_foreignKeyAliasTargetFirst = None, o_relationNameFunctions = None,
      o_keepConnection = None\<rparr>"

text \<open>
  What a caller passes for the connection: a client that the caller has connected, a
  connection string, or a configuration object. Of the string and of the object the
  model keeps the database name (for the string, what pg-connection-string parses from
  it).
\<close>

datatype pgClientOrConfig =
  ConnectedClient | ConnectionString "string option" | ClientConfig "string option"

datatype firstArgument =
  NoArgument | OptionsArgument options | ConnectionArgument pgClientOrConfig

definition orDatabase :: "string option \<Rightarrow> string" where
  "orDatabase d = (case d of None \<Rightarrow> ''database'' | Some x \<Rightarrow> if x = [] then ''database'' else x)"

definition getDatabaseName :: "pgClientOrConfig option \<Rightarrow> string" where
  "getDatabaseName pgClientOrConfig =
     (case pgClientOrConfig of
        None \<Rightarrow> ''database''
      | Some ConnectedClient \<Rightarrow> ''database''
      | Some (ConnectionString d) \<Rightarrow> orDatabase d
      | Some (ClientConfig d) \<Rightarrow> orDatabase d)"

text \<open>\<open>isOptions\<close>: some own key of the input is one of the ten option keys.\<close>

definition isOptions :: "firstArgument \<Rightarrow> bool" where
  "isOptions input =
     (case input of
        OptionsArgument opts \<Rightarrow>
          o_envPrefix opts \<noteq> None \<or> o_name opts \<noteq> None \<or> o_commentDataToken opts \<noteq> None
          \<or> o_includeSchemas opts \<noteq> None \<or> o_excludeSchemas opts \<noteq> None
          \<or> o_includeSystemSchemas opts \<noteq> None \<or> o_foreignKeyAliasSeparator opts \<noteq> None
          \<or> o_foreignKeyAliasTargetFirst opts \<noteq> None \<or> o_relationNameFunctions opts \<noteq> None
          \<or> o_keepConnection opts \<noteq> None
      | _ \<Rightarrow> False)"

text \<open>
  The collaborators of section 6 of the spec, as the answers they give: the
  environment, the driver (connecting, and each query) and the SQL file loader. A
  query answers with its rows or rejects.
\<close>

record driver =
  d_envValues :: "string \<Rightarrow> string option"
  d_connect :: "error option"
  d_serverVersion :: "error + string"
  d_schemas :: "string \<Rightarrow> string list \<Rightarrow> error + schema_row list"
  d_systemSchemas :: "error + schema_row list"
  d_queryVersionFor :: "string \<Rightarrow> error + string"
  d_types :: "string \<Rightarrow> oid list \<Rightarrow> error + type_row list"
  d_entities :: "string \<Rightarrow> oid list \<Rightarrow> error + entity_row list"
  d_columns :: "string \<Rightarrow> oid list \<Rightarrow> error + column_row list"
  d_indexes :: "string \<Rightarrow> oid list \<Rightarrow> error + index_row list"
  d_constraints :: "string \<Rightarrow> oid list \<Rightarrow> error + constraint_row list"
  d_functions :: "string \<Rightarrow> oid list \<Rightarrow> error + function_row list"
  d_triggers :: "string \<Rightarrow> oid list \<Rightarrow> error + trigger_row list"

text \<open>
  Modelled from the spec: \<open>getConnectedPgClient\<close> of util/helper.js is not in the
  sources. A connected client of the caller's stays the caller's
  (\<open>shouldCloseConnection\<close> is false); from a connection string or a configuration the
  core creates a client and connects it (\<open>shouldCloseConnection\<close> is true), and the
  connection may fail.
\<close>

definition getConnectedPgClient :: "driver \<Rightarrow> pgClientOrConfig \<Rightarrow> error + bool" where
  "getConnectedPgClient drv pgClientOrConfig =
     (case pgClientOrConfig of
        ConnectedClient \<Rightarrow> Inr False
      | _ \<Rightarrow> (case d_connect drv of Some e \<Rightarrow> Inl e | None \<Rightarrow> Inr True))"

definition schemaOids :: "schema_row list \<Rightarrow> oid list" where
  "schemaOids rows = map sr_oid rows"

text \<open>
  \<open>getQueryResultsFromDb\<close>. The seven catalog queries are started together under
  \<open>Promise.all\<close>; the model reports the first rejection in the order of the tuple.
\<close>

definition getQueryResultsFromDb ::
  "driver \<Rightarrow> string \<Rightarrow> string list \<Rightarrow> string list \<Rightarrow> bool \<Rightarrow> error + queryResults" where
  "getQueryResultsFromDb drv serverVersion includeSchemasArray excludeSchemasArray
       includeSystemSchemas =
     andThen (d_schemas drv
                (getSchemas_sql includeSchemasArray excludeSchemasArray includeSystemSchemas)
                (getSchemas_parameters includeSchemasArray excludeSchemasArray includeSystemSchemas))
       (\<lambda>schemaRows. andThen (d_systemSchemas drv)
       (\<lambda>systemSchemaRows. andThen (d_queryVersionFor drv serverVersion)
       (\<lambda>queryVersions. andThen (d_types drv queryVersions
                                    (schemaOids schemaRows @ schemaOids systemSchemaRows))
       (\<lambda>types. andThen (d_entities drv queryVersions (schemaOids schemaRows))
       (\<lambda>ents. andThen (d_columns drv queryVersions (schemaOids schemaRows))
       (\<lambda>cols. andThen (d_indexes drv queryVersions (schemaOids schemaRows))
       (\<lambda>idxs. andThen (d_constraints drv queryVersions (schemaOids schemaRows))
       (\<lambda>cons. andThen (d_functions drv queryVersions (schemaOids schemaRows))
       (\<lambda>funs. andThen (d_triggers drv queryVersions (schemaOids schemaRows))
       (\<lambda>trgs. Inr \<lparr>qr_schemas = schemaRows, qr_systemSchemas = systemSchemaRows,
                     qr_types = types, qr_entities = ents, qr_columns = cols,
                     qr_indexes = idxs, qr_constraints = cons, qr_functions = funs,
                     qr_triggers = trgs\<rparr>))))))))))"

definition optionsConfig :: "options \<Rightarrow> config" where
  "optionsConfig opts =
     \<lparr>cfg_commentDataToken = (case o_commentDataToken opts of Some x \<Rightarrow> x | None \<Rightarrow> ''pg-structure''),
      cfg_relationNameFunctions =
        (case o_relationNameFunctions opts of Some x \<Rightarrow> x | None \<Rightarrow> Named ''short''),
      cfg_foreignKeyAliasSeparator =
        (case o_foreignKeyAliasSeparator opts of Some x \<Rightarrow> x | None \<Rightarrow> '',''),
      cfg_foreignKeyAliasTargetFirst =
        (case o_foreignKeyAliasTargetFirst opts of Some x \<Rightarrow> x | None \<Rightarrow> False)\<rparr>"

definition optionsName :: "options \<Rightarrow> pgClientOrConfig \<Rightarrow> string" where
  "optionsName opts pgClientOrConfig =
     (case o_name opts of
        None \<Rightarrow> getDatabaseName (Some pgClientOrConfig)
      | Some x \<Rightarrow> if x = [] then getDatabaseName (Some pgClientOrConfig) else x)"

text \<open>
  Lines 372-380: the queries, the binding of the naming strategy, the construction of
  \<open>Db\<close> and the assembly. Any of them may throw; nothing here catches.
\<close>

definition buildDb :: "driver \<Rightarrow> pgClientOrConfig \<Rightarrow> options \<Rightarrow> error + Db" where
  "buildDb drv pgClientOrConfig opts =
     andThen (d_serverVersion drv)
       (\<lambda>serverVersion.
          andThen (getQueryResultsFromDb drv serverVersion (arrify (o_includeSchemas opts))
                     (arrify (o_excludeSchemas opts))
                     (case o_includeSystemSchemas opts of Some b \<Rightarrow> b | None \<Rightarrow> False))
       (\<lambda>queryResults.
          andThen (getRelationNameFunctions
                     (case o_relationNameFunctions opts of Some x \<Rightarrow> x | None \<Rightarrow> Named ''short''))
       (\<lambda>relationNameFunctions.
          addObjects
            (newDb (optionsName opts pgClientOrConfig) serverVersion (optionsConfig opts)
               queryResults relationNameFunctions)
            queryResults)))"

text \<open>Line 368: which argument is the connection and which the options. An options
  object with none of the ten keys is taken for a configuration object.\<close>

definition splitArguments ::
  "firstArgument \<Rightarrow> options option \<Rightarrow> pgClientOrConfig option \<times> options" where
  "splitArguments clientOrOptions maybeOptions =
     (case clientOrOptions of
        OptionsArgument opts \<Rightarrow>
          if isOptions clientOrOptions then (None, opts)
          else (Some (ClientConfig None), case maybeOptions of Some m \<Rightarrow> m | None \<Rightarrow> noOptions)
      | NoArgument \<Rightarrow> (None, case maybeOptions of Some m \<Rightarrow> m | None \<Rightarrow> noOptions)
      | ConnectionArgument c \<Rightarrow> (Some c, case maybeOptions of Some m \<Rightarrow> m | None \<Rightarrow> noOptions))"

definition resolveConnection :: "driver \<Rightarrow> pgClientOrConfig option \<Rightarrow> options \<Rightarrow> pgClientOrConfig" where
  "resolveConnection drv maybePgClientOrConfig opts =
     (case maybePgClientOrConfig of
        Some c \<Rightarrow> c
      | None \<Rightarrow> ClientConfig (d_envValues drv (case o_envPrefix opts of Some x \<Rightarrow> x | None \<Rightarrow> ''DB'')))"

text \<open>Lines 368-370: the options and the connection input that the call works with.\<close>

definition usedOptions :: "firstArgument \<Rightarrow> options option \<Rightarrow> options" where
  "usedOptions clientOrOptions maybeOptions = snd (splitArguments clientOrOptions maybeOptions)"

definition usedConnection :: "driver \<Rightarrow> firstArgument \<Rightarrow> options option \<Rightarrow> pgClientOrConfig" where
  "usedConnection drv clientOrOptions maybeOptions =
     resolveConnection drv (fst (splitArguments clientOrOptions maybeOptions))
       (usedOptions clientOrOptions maybeOptions)"

text \<open>
  \<open>pgStructure\<close> returns what the promise settles with, and whether \<open>client.end()\<close> was
  called on the way. \<open>client.end()\<close> stands on line 382 only, after \<open>addObjects\<close>: an
  exception before it leaves the function at once.
\<close>

definition pgStructure :: "driver \<Rightarrow> firstArgument \<Rightarrow> options option \<Rightarrow> (error + Db) \<times> bool" where
  "pgStructure drv clientOrOptions maybeOptions =
     (let opts = usedOptions clientOrOptions maybeOptions;
          pgClientOrConfig = usedConnection drv clientOrOptions maybeOptions
      in case getConnectedPgClient drv pgClientOrConfig of
           Inl e \<Rightarrow> (Inl e, False)
         | Inr shouldCloseConnection \<Rightarrow>
             (case buildDb drv pgClientOrConfig opts of
                Inl e \<Rightarrow> (Inl e, False)
              | Inr db \<Rightarrow>
                  (Inr db, o_keepConnection opts \<noteq> Some True \<and> shouldCloseConnection)))"

section \<open>Serialization (main.js, lines 398-403)\<close>

record snapshot =
  snap_name :: string
  snap_serverVersion :: string
  snap_config :: config
  snap_queryResults :: queryResults

definition snapshotOf :: "Db \<Rightarrow> snapshot" where
  "snapshotOf db =
     \<lparr>snap_name = db_name db, snap_serverVersion = db_serverVersion db,
      snap_config = db_config db, snap_queryResults = db_queryResults db\<rparr>"

subsection \<open>JSON values\<close>

text \<open>
  The values that JSON writes, which is the data model of the platform's
  \<open>JSON.stringify\<close> and \<open>JSON.parse\<close>. A number is an integer, as the numbers of the
  catalog rows are; an object is the list of its properties.
\<close>

datatype json =
    JNull
  | JBoolean bool
  | JNumber int
  | JString string
  | JArray "json list"
  | JObject "(string \<times> json) list"

text \<open>
  A string that \<open>deserialize\<close> may be given is the text of a JSON value or it is not.
  \<open>JSON.stringify\<close> writes the text of a value, and \<open>JSON.parse\<close> returns the value of
  a text and throws for any other string.
\<close>

datatype serializedData = JsonText json | OtherText string

definition JSON_stringify :: "json \<Rightarrow> serializedData" where
  "JSON_stringify j = JsonText j"

definition JSON_parse :: "serializedData \<Rightarrow> error + json" where
  "JSON_parse text = (case text of JsonText j \<Rightarrow> Inr j | OtherText s \<Rightarrow> Inl SyntaxError)"

subsection \<open>Writing the snapshot\<close>

text \<open>
  How \<open>JSON.stringify\<close> writes the values of the snapshot: an oid and a position as a
  number, a kind letter as a string of one character, an absent comment or expression
  as \<open>null\<close>, a row as an object with the properties that main.js reads, and an object
  of functions as an object without properties, because function-valued properties are
  left out.
\<close>

definition ofNat :: "nat \<Rightarrow> json" where
  "ofNat n = JNumber (int n)"

definition ofChar :: "char \<Rightarrow> json" where
  "ofChar c = JString [c]"

definition ofNullable :: "('a \<Rightarrow> json) \<Rightarrow> 'a option \<Rightarrow> json" where
  "ofNullable f x = (case x of None \<Rightarrow> JNull | Some y \<Rightarrow> f y)"

definition ofArray :: "('a \<Rightarrow> json) \<Rightarrow> 'a list \<Rightarrow> json" where
  "ofArray f xs = JArray (map f xs)"

definition json_of_schema_row :: "schema_row \<Rightarrow> json" where
  "json_of_schema_row r =
     JObject [(''oid'', ofNat (sr_oid r)), (''name'', JString (sr_name r)),
              (''comment'', ofNullable JString (sr_comment r))]"

definition json_of_type_row :: "type_row \<Rightarrow> json" where
  "json_of_type_row r =
     JObject [(''oid'', ofNat (tr_oid r)), (''classOid'', ofNat (tr_classOid r)),
              (''schemaOid'', ofNat (tr_schemaOid r)), (''name'', JString (tr_name r)),
              (''kind'', ofChar (tr_kind r)), (''sqlType'', ofNullable JString (tr_sqlType r))]"

definition json_of_entity_row :: "entity_row \<Rightarrow> json" where
  "json_of_entity_row r =
     JObject [(''oid'', ofNat (er_oid r)), (''schemaOid'', ofNat (er_schemaOid r)),
              (''kind'', ofChar (er_kind r)), (''name'', JString (er_name r))]"

definition json_of_column_row :: "column_row \<Rightarrow> json" where
  "json_of_column_row r =
     JObject [(''parentKind'', ofChar (cr_parentKind r)), (''parentOid'', ofNat (cr_parentOid r)),
              (''attributeNumber'', JNumber (cr_attributeNumber r)), (''name'', JString (cr_name r))]"

definition json_of_index_row :: "index_row \<Rightarrow> json" where
  "json_of_index_row r =
     JObject [(''oid'', ofNat (ir_oid r)), (''tableOid'', ofNat (ir_tableOid r)),
              (''name'', JString (ir_name r)),
              (''columnPositions'', ofArray JNumber (ir_columnPositions r)),
              (''indexExpressions'', ofArray JString (ir_indexExpressions r))]"

definition json_of_constraint_row :: "constraint_row \<Rightarrow> json" where
  "json_of_constraint_row r =
     JObject [(''oid'', ofNat (kr_oid r)), (''name'', JString (kr_name r)),
              (''kind'', ofChar (kr_kind r)), (''tableOid'', ofNat (kr_tableOid r)),
              (''indexOid'', ofNat (kr_indexOid r)), (''typeOid'', ofNat (kr_typeOid r)),
              (''constrainedColumnPositions'', ofArray JNumber (kr_constrainedColumnPositions r)),
              (''onUpdate'', ofChar (kr_onUpdate r)), (''onDelete'', ofChar (kr_onDelete r)),
              (''matchType'', ofChar (kr_matchType r)),
              (''checkConstraintExpression'',
                 ofNullable JString (kr_checkConstraintExpression r))]"

definition json_of_function_row :: "function_row \<Rightarrow> json" where
  "json_of_function_row r =
     JObject [(''oid'', ofNat (fr_oid r)), (''schemaOid'', ofNat (fr_schemaOid r)),
              (''kind'', ofChar (fr_kind r)), (''name'', JString (fr_name r))]"

definition json_of_trigger_row :: "trigger_row \<Rightarrow> json" where
  "json_of_trigger_row r =
     JObject [(''name'', JString (gr_name r)), (''entityOid'', ofNat (gr_entityOid r)),
              (''functionOid'', ofNat (gr_functionOid r))]"

definition json_of_queryResults :: "queryResults \<Rightarrow> json" where
  "json_of_queryResults q =
     JArray [ofArray json_of_schema_row (qr_schemas q),
             ofArray json_of_schema_row (qr_systemSchemas q),
             ofArray json_of_type_row (qr_types q),
             ofArray json_of_entity_row (qr_entities q),
             ofArray json_of_column_row (qr_columns q),
             ofArray json_of_index_row (qr_indexes q),
             ofArray json_of_constraint_row (qr_constraints q),
             ofArray json_of_function_row (qr_functions q),
             ofArray json_of_trigger_row (qr_triggers q)]"

definition json_of_relationNameFunctions :: "relationNameFunctions \<Rightarrow> json" where
  "json_of_relationNameFunctions r = (case r of Named s \<Rightarrow> JString s | _ \<Rightarrow> JObject [])"

definition json_of_config :: "config \<Rightarrow> json" where
  "json_of_config c =
     JObject [(''commentDataToken'', JString (cfg_commentDataToken c)),
              (''relationNameFunctions'',
                 json_of_relationNameFunctions (cfg_relationNameFunctions c)),
              (''foreignKeyAliasSeparator'', JString (cfg_foreignKeyAliasSeparator c)),
              (''foreignKeyAliasTargetFirst'', JBoolean (cfg_foreignKeyAliasTargetFirst c))]"

definition json_of_snapshot :: "snapshot \<Rightarrow> json" where
  "json_of_snapshot s =
     JObject [(''name'', JString (snap_name s)),
              (''serverVersion'', JString (snap_serverVersion s)),
              (''config'', json_of_config (snap_config s)),
              (''queryResults'', json_of_queryResults (snap_queryResults s))]"

text \<open>
  Modelled from the spec: \<open>Db.serialize\<close> (db.js is not in the sources) writes the
  snapshot \<open>{ name, serverVersion, config, queryResults }\<close> as JSON.
\<close>

definition serialize :: "Db \<Rightarrow> serializedData" where
  "serialize db = JSON_stringify (json_of_snapshot (snapshotOf db))"

subsection \<open>Reading the parsed value\<close>

text \<open>
  \<open>deserialize\<close> reads \<open>data.name\<close>, \<open>data.serverVersion\<close>, \<open>data.config\<close> and
  \<open>data.queryResults\<close> of the parsed value, and the assembler reads the properties of
  the rows. The readers below give the typed value that a JSON value stands for, and
  nothing for a JSON value of another shape.
\<close>

definition property :: "json \<Rightarrow> string \<Rightarrow> json option" where
  "property j k = (case j of JObject kvs \<Rightarrow> map_of kvs k | _ \<Rightarrow> None)"

definition asNat :: "json \<Rightarrow> nat option" where
  "asNat j = (case j of JNumber i \<Rightarrow> if 0 \<le> i then Some (nat i) else None | _ \<Rightarrow> None)"

definition asInt :: "json \<Rightarrow> int option" where
  "asInt j = (case j of JNumber i \<Rightarrow> Some i | _ \<Rightarrow> None)"

definition asString :: "json \<Rightarrow> string option" where
  "asString j = (case j of JString s \<Rightarrow> Some s | _ \<Rightarrow> None)"

definition asChar :: "json \<Rightarrow> char option" where
  "asChar j = (case j of JString [c] \<Rightarrow> Some c | _ \<Rightarrow> None)"

definition asBoolean :: "json \<Rightarrow> bool option" where
  "asBoolean j = (case j of JBoolean b \<Rightarrow> Some b | _ \<Rightarrow> None)"

definition asNullable :: "(json \<Rightarrow> 'a option) \<Rightarrow> json \<Rightarrow> 'a option option" where
  "asNullable f j = (case j of JNull \<Rightarrow> Some None | _ \<Rightarrow> map_option Some (f j))"

definition asArray :: "(json \<Rightarrow> 'a option) \<Rightarrow> json \<Rightarrow> 'a list option" where
  "asArray f j = (case j of JArray xs \<Rightarrow> those (map f xs) | _ \<Rightarrow> None)"

definition readProperty :: "(json \<Rightarrow> 'a option) \<Rightarrow> json \<Rightarrow> string \<Rightarrow> 'a option" where
  "readProperty f j k = Option.bind (property j k) f"

definition schema_row_of_json :: "json \<Rightarrow> schema_row option" where
  "schema_row_of_json j =
     do { oid \<leftarrow> readProperty asNat j ''oid'';
          name \<leftarrow> readProperty asString j ''name'';
          comment \<leftarrow> readProperty (asNullable asString) j ''comment'';
          Some \<lparr>sr_oid = oid, sr_name = name, sr_comment = comment\<rparr> }"

definition type_row_of_json :: "json \<Rightarrow> type_row option" where
  "type_row_of_json j =
     do { oid \<leftarrow> readProperty asNat j ''oid'';
          classOid \<leftarrow> readProperty asNat j ''classOid'';
          schemaOid \<leftarrow> readProperty asNat j ''schemaOid'';
          name \<leftarrow> readProperty asString j ''name'';
          kind \<leftarrow> readProperty asChar j ''kind'';
          sqlType \<leftarrow> readProperty (asNullable asString) j ''sqlType'';
          Some \<lparr>tr_oid = oid, tr_classOid = classOid, tr_schemaOid = schemaOid, tr_name = name,
                tr_kind = kind, tr_sqlType = sqlType\<rparr> }"

definition entity_row_of_json :: "json \<Rightarrow> entity_row option" where
  "entity_row_of_json j =
     do { oid \<leftarrow> readProperty asNat j ''oid'';
          schemaOid \<leftarrow> readProperty asNat j ''schemaOid'';
          kind \<leftarrow> readProperty asChar j ''kind'';
          name \<leftarrow> readProperty asString j ''name'';
          Some \<lparr>er_oid = oid, er_schemaOid = schemaOid, er_kind = kind, er_name = name\<rparr> }"

definition column_row_of_json :: "json \<Rightarrow> column_row option" where
  "column_row_of_json j =
     do { parentKind \<leftarrow> readProperty asChar j ''parentKind'';
          parentOid \<leftarrow> readProperty asNat j ''parentOid'';
          attributeNumber \<leftarrow> readProperty asInt j ''attributeNumber'';
          name \<leftarrow> readProperty asString j ''name'';
          Some \<lparr>cr_parentKind = parentKind, cr_parentOid = parentOid,
                cr_attributeNumber = attributeNumber, cr_name = name\<rparr> }"

definition index_row_of_json :: "json \<Rightarrow> index_row option" where
  "index_row_of_json j =
     do { oid \<leftarrow> readProperty asNat j ''oid'';
          tableOid \<leftarrow> readProperty asNat j ''tableOid'';
          name \<leftarrow> readProperty asString j ''name'';
          columnPositions \<leftarrow> readProperty (asArray asInt) j ''columnPositions'';
          indexExpressions \<leftarrow> readProperty (asArray asString) j ''indexExpressions'';
          Some \<lparr>ir_oid = oid, ir_tableOid = tableOid, ir_name = name,
                ir_columnPositions = columnPositions, ir_indexExpressions = indexExpressions\<rparr> }"

definition constraint_row_of_json :: "json \<Rightarrow> constraint_row option" where
  "constraint_row_of_json j =
     do { oid \<leftarrow> readProperty asNat j ''oid'';
          name \<leftarrow> readProperty asString j ''name'';
          kind \<leftarrow> readProperty asChar j ''kind'';
          tableOid \<leftarrow> readProperty asNat j ''tableOid'';
          indexOid \<leftarrow> readProperty asNat j ''indexOid'';
          typeOid \<leftarrow> readProperty asNat j ''typeOid'';
          positions \<leftarrow> readProperty (asArray asInt) j ''constrainedColumnPositions'';
          onUpdate \<leftarrow> readProperty asChar j ''onUpdate'';
          onDelete \<leftarrow> readProperty asChar j ''onDelete'';
          matchType \<leftarrow> readProperty asChar j ''matchType'';
          expression \<leftarrow> readProperty (asNullable asString) j ''checkConstraintExpression'';
          Some \<lparr>kr_oid = oid, kr_name = name, kr_kind = kind, kr_tableOid = tableOid,
                kr_indexOid = indexOid, kr_typeOid = typeOid,
                kr_constrainedColumnPositions = positions, kr_onUpdate = onUpdate,
                kr_onDelete = onDelete, kr_matchType = matchType,
                kr_checkConstraintExpression = expression\<rparr> }"

definition function_row_of_json :: "json \<Rightarrow> function_row option" where
  "function_row_of_json j =
     do { oid \<leftarrow> readProperty asNat j ''oid'';
          schemaOid \<leftarrow> readProperty asNat j ''schemaOid'';
          kind \<leftarrow> readProperty asChar j ''kind'';
          name \<leftarrow> readProperty asString j ''name'';
          Some \<lparr>fr_oid = oid, fr_schemaOid = schemaOid, fr_kind = kind, fr_name = name\<rparr> }"

definition trigger_row_of_json :: "json \<Rightarrow> trigger_row option" where
  "trigger_row_of_json j =
     do { name \<leftarrow> readProperty asString j ''name'';
          entityOid \<leftarrow> readProperty asNat j ''entityOid'';
          functionOid \<leftarrow> readProperty asNat j ''functionOid'';
          Some \<lparr>gr_name = name, gr_entityOid = entityOid, gr_functionOid = functionOid\<rparr> }"

text \<open>\<open>queryResults[0]\<close> to \<open>queryResults[8]\<close> of an array of nine arrays.\<close>

definition queryResults_of_json :: "json \<Rightarrow> queryResults option" where
  "queryResults_of_json j =
     (case j of
        JArray [a0, a1, a2, a3, a4, a5, a6, a7, a8] \<Rightarrow>
          do { schemas \<leftarrow> asArray schema_row_of_json a0;
               systemSchemas \<leftarrow> asArray schema_row_of_json a1;
               types \<leftarrow> asArray type_row_of_json a2;
               entities \<leftarrow> asArray entity_row_of_json a3;
               columns \<leftarrow> asArray column_row_of_json a4;
               indexes \<leftarrow> asArray index_row_of_json a5;
               constraints \<leftarrow> asArray constraint_row_of_json a6;
               functions \<leftarrow> asArray function_row_of_json a7;
               triggers \<leftarrow> asArray trigger_row_of_json a8;
               Some \<lparr>qr_schemas = schemas, qr_systemSchemas = systemSchemas, qr_types = types,
                     qr_entities = entities, qr_columns = columns, qr_indexes = indexes,
                     qr_constraints = constraints, qr_functions = functions,
                     qr_triggers = triggers\<rparr> }
      | _ \<Rightarrow> None)"

definition asRelationNameFunctions :: "json \<Rightarrow> relationNameFunctions option" where
  "asRelationNameFunctions j =
     (case j of JString s \<Rightarrow> Some (Named s) | JObject kvs \<Rightarrow> Some PlainObject | _ \<Rightarrow> None)"

definition config_of_json :: "json \<Rightarrow> config option" where
  "config_of_json j =
     do { commentDataToken \<leftarrow> readProperty asString j ''commentDataToken'';
          relationNameFunctions \<leftarrow> readProperty asRelationNameFunctions j ''relationNameFunctions'';
          separator \<leftarrow> readProperty asString j ''foreignKeyAliasSeparator'';
          targetFirst \<leftarrow> readProperty asBoolean j ''foreignKeyAliasTargetFirst'';
          Some \<lparr>cfg_commentDataToken = commentDataToken,
                cfg_relationNameFunctions = relationNameFunctions,
                cfg_foreignKeyAliasSeparator = separator,
                cfg_foreignKeyAliasTargetFirst = targetFirst\<rparr> }"

definition snapshot_of_json :: "json \<Rightarrow> snapshot option" where
  "snapshot_of_json j =
     do { name \<leftarrow> readProperty asString j ''name'';
          serverVersion \<leftarrow> readProperty asString j ''serverVersion'';
          cfg \<leftarrow> readProperty config_of_json j ''config'';
          queryResults \<leftarrow> readProperty queryResults_of_json j ''queryResults'';
          Some \<lparr>snap_name = name, snap_serverVersion = serverVersion, snap_config = cfg,
                snap_queryResults = queryResults\<rparr> }"

text \<open>
  The configuration is read back as it was, but for an object of naming functions, of
  which an object without functions is left.
\<close>

definition writtenConfig :: "config \<Rightarrow> config" where
  "writtenConfig c =
     c\<lparr>cfg_relationNameFunctions :=
         (case cfg_relationNameFunctions c of Named s \<Rightarrow> Named s | _ \<Rightarrow> PlainObject)\<rparr>"

text \<open>
  \<open>deserialize\<close>, lines 398-403: the text is parsed, the naming strategy is bound from
  \<open>data.config.relationNameFunctions\<close>, \<open>Db\<close> is constructed from the four stored
  values and \<open>addObjects\<close> assembles the stored rows. A JSON value that is not the image
  of a snapshot has no typed counterpart here; the model answers it with the
  \<open>TypeError\<close> of a property read on \<open>undefined\<close>.
\<close>

definition deserialize :: "serializedData \<Rightarrow> error + Db" where
  "deserialize serializedData =
     andThen (JSON_parse serializedData)
       (\<lambda>parsed.
          case snapshot_of_json parsed of
            None \<Rightarrow> Inl TypeError
          | Some data \<Rightarrow>
              andThen (getRelationNameFunctions (cfg_relationNameFunctions (snap_config data)))
                (\<lambda>relationNameFunctions.
                   addObjects
                     (newDb (snap_name data) (snap_serverVersion data) (snap_config data)
                        (snap_queryResults data) relationNameFunctions)
                     (snap_queryResults data)))"

section \<open>The legacy \<open>Constraint\<close> (constraint.js of the first library)\<close>

text \<open>
  The object that the constructor stores under \<open>internal(this).attributes\<close>: the
  arguments, with \<open>foreignKeys\<close> and \<open>foreignKeysByName\<close> added. Schemas and tables are
  objects of classes that are not in the sources; a number stands for the identity of
  each. \<open>'c\<close> is the class of the columns.
\<close>

datatype 'c LegacyConstraint = LegacyConstraint
  (lc_name: string)
  (lc_referencesSchema: nat)
  (lc_referencesTable: nat)
  (lc_onUpdate: "string option")
  (lc_onDelete: "string option")
  (lc_table: nat)
  (lc_through: "nat option")
  (lc_throughForeignKeyConstraint: "'c LegacyConstraint option")
  (lc_throughForeignKeyConstraintToSelf: "'c LegacyConstraint option")
  (lc_foreignKeys: "'c list")
  (lc_foreignKeysByName: "(string \<times> 'c) list")

text \<open>
  The argument object: each key of \<open>constraintAttributes\<close> is present or not, with a
  value of the type that its rule asks for; \<open>a_unknownKeys\<close> says whether the object
  has a key that \<open>constraintAttributes\<close> does not list.
\<close>

record 'c constraint_args =
  a_name :: "string option"
  a_referencesSchema :: "nat option"
  a_referencesTable :: "nat option"
  a_onUpdate :: "string option"
  a_onDelete :: "string option"
  a_table :: "nat option"
  a_through :: "nat option"
  a_throughForeignKeyConstraint :: "'c LegacyConstraint option"
  a_throughForeignKeyConstraintToSelf :: "'c LegacyConstraint option"
  a_unknownKeys :: bool

record validate_options =
  vo_abortEarly :: "bool option"
  vo_allowUnknown :: "bool option"

definition allowedActions :: "string list" where
  "allowedActions = [''NO ACTION'', ''CASCADE'', ''SET NULL'', ''RESTRICT'']"

text \<open>\<open>joi.string().valid(allowedActions)\<close> on an optional key.\<close>

definition validAction :: "string option \<Rightarrow> bool" where
  "validAction v = (case v of None \<Rightarrow> True | Some x \<Rightarrow> x \<in> set allowedActions)"

text \<open>
  \<open>lodash.defaults(options || {}, { abortEarly: false, allowUnknown: false })\<close>, of
  which the validation reads \<open>allowUnknown\<close>.
\<close>

definition allowUnknown :: "validate_options option \<Rightarrow> bool" where
  "allowUnknown opts =
     (case opts of
        None \<Rightarrow> False
      | Some v \<Rightarrow> (case vo_allowUnknown v of None \<Rightarrow> False | Some b \<Rightarrow> b))"

text \<open>
  \<open>joi.validate(args, joi.object().keys(constraintAttributes), options)\<close> reports no
  error: the required keys are present (\<open>joi.string()\<close> refuses the empty string), the
  two actions are allowed ones, and an unknown key is present only if allowed.
\<close>

definition validation_ok :: "'c constraint_args \<Rightarrow> validate_options option \<Rightarrow> bool" where
  "validation_ok args opts =
     (a_name args \<noteq> None \<and> a_name args \<noteq> Some []
      \<and> a_referencesSchema args \<noteq> None \<and> a_referencesTable args \<noteq> None
      \<and> validAction (a_onUpdate args) \<and> validAction (a_onDelete args)
      \<and> a_table args \<noteq> None
      \<and> (a_unknownKeys args \<longrightarrow> allowUnknown opts))"

text \<open>
  The constructor, lines 60-80. With \<open>through\<close>, the two collections are those of
  \<open>throughForeignKeyConstraintToSelf\<close>, read by its accessors
  \<open>internalObjectForeignKeys\<close> and \<open>internalObjectForeignKeysByName\<close> (a call on
  \<open>undefined\<close> when that key is absent); without, they are empty.
\<close>

definition Constraint ::
  "'c constraint_args option \<Rightarrow> validate_options option \<Rightarrow> error + 'c LegacyConstraint" where
  "Constraint args opts =
     (case args of
        None \<Rightarrow> Inl ArgumentsRequired
      | Some a \<Rightarrow>
          if \<not> validation_ok a opts then Inl ValidationError
          else
            (case (a_name a, a_referencesSchema a, a_referencesTable a, a_table a) of
               (Some nm, Some rs, Some rt, Some tb) \<Rightarrow>
                 (case a_through a of
                    Some th \<Rightarrow>
                      (case a_throughForeignKeyConstraintToSelf a of
                         None \<Rightarrow> Inl TypeError
                       | Some toSelf \<Rightarrow>
                           Inr (LegacyConstraint nm rs rt (a_onUpdate a) (a_onDelete a) tb
                                  (a_through a) (a_throughForeignKeyConstraint a)
                                  (a_throughForeignKeyConstraintToSelf a)
                                  (lc_foreignKeys toSelf) (lc_foreignKeysByName toSelf)))
                  | None \<Rightarrow>
                      Inr (LegacyConstraint nm rs rt (a_onUpdate a) (a_onDelete a) tb
                             (a_through a) (a_throughForeignKeyConstraint a)
                             (a_throughForeignKeyConstraintToSelf a) [] []))
             | _ \<Rightarrow> Inl ValidationError))"

section \<open>Notions used in the statements\<close>

definition succeeds :: "error + 'a \<Rightarrow> bool" where
  "succeeds r = (case r of Inl e \<Rightarrow> False | Inr x \<Rightarrow> True)"

text \<open>The expressions among the elements of \<open>columnsAndExpressions\<close>, in their order.\<close>

fun expressionsOnly :: "columnOrExpression list \<Rightarrow> string list" where
  "expressionsOnly [] = []"
| "expressionsOnly (Expr x # xs) = x # expressionsOnly xs"
| "expressionsOnly (y # xs) = expressionsOnly xs"

text \<open>
  How many of the first \<open>i\<close> positions are not column references, which is how many
  expressions the loop has consumed when it reaches position \<open>i\<close>.
\<close>

definition consumedBefore :: "int list \<Rightarrow> nat \<Rightarrow> nat" where
  "consumedBefore ps i = length (filter (\<lambda>p. \<not> 0 < p) (take i ps))"

text \<open>What the constructor of \<open>Db\<close> was given: the snapshot and the bound naming strategy.\<close>

definition constructorArguments :: "Db \<Rightarrow> snapshot \<times> namingStrategy" where
  "constructorArguments db = (snapshotOf db, db_relationNameFunctions db)"

text \<open>Every index is held by the entity that it names as its parent.\<close>

definition indexesOfParents :: "Db \<Rightarrow> bool" where
  "indexesOfParents db =
     (\<forall>p < length (entityStore db). \<forall>i \<in> set (e_indexes (entityStore db ! p)). i_parent i = p)"

text \<open>The first six phases of \<open>addObjects\<close>: the state that \<open>addConstraints\<close> starts from.\<close>

definition addObjects_untilIndexes :: "Db \<Rightarrow> queryResults \<Rightarrow> error + Db" where
  "addObjects_untilIndexes db queryResults =
     andThen (addTypes (addSystemSchemas (addSchemas db (qr_schemas queryResults))
                          (qr_systemSchemas queryResults)) (qr_types queryResults))
       (\<lambda>db. andThen (addEntities db (qr_entities queryResults))
       (\<lambda>db. andThen (addColumns db (qr_columns queryResults))
       (\<lambda>db. addIndexes db (qr_indexes queryResults))))"

text \<open>
  The states of the graph in which \<open>addConstraints\<close> handles a row during an assembly:
  the state that the first six phases leave of a new \<open>Db\<close>, and every state that a row
  of the constraint phase leaves.
\<close>

inductive duringConstraints :: "Db \<Rightarrow> bool" where
  afterIndexes:
    "addObjects_untilIndexes (newDb nm ver cfg qr naming) qr = Inr db \<Longrightarrow> duringConstraints db"
| afterRow:
    "duringConstraints db \<Longrightarrow> addConstraints_row db row = Inr db' \<Longrightarrow> duringConstraints db'"

text \<open>
  The rows that the objects of a graph were constructed from: every object keeps its
  row. Schemas, types and entities are listed in the order of their collections,
  entities and functions with the class they were constructed as; the rows of the
  columns, indexes, constraints, functions and triggers are collected from the objects
  that own them.
\<close>

fun constraintRow :: "constraint \<Rightarrow> constraint_row" where
  "constraintRow (PrimaryKey row idx t) = row"
| "constraintRow (UniqueConstraint uc) = uc_row uc"
| "constraintRow (ExclusionConstraint row idx t) = row"
| "constraintRow (CheckConstraint row parent expression) = row"
| "constraintRow (ForeignKey row t idx cols onUpdate onDelete matchType) = row"

record graphRows =
  rows_schemas :: "schema_row list"
  rows_systemSchemas :: "schema_row list"
  rows_types :: "type_row list"
  rows_entities :: "(entityKind \<times> entity_row) list"
  rows_columns :: "column_row set"
  rows_indexes :: "index_row set"
  rows_constraints :: "constraint_row set"
  rows_functions :: "(functionKind \<times> function_row) set"
  rows_triggers :: "trigger_row set"

definition rowsOf :: "Db \<Rightarrow> graphRows" where
  "rowsOf db =
     \<lparr>rows_schemas = map s_row (db_schemas db),
      rows_systemSchemas = map s_row (db_systemSchemas db),
      rows_types = map t_row (typeStore db),
      rows_entities = map (\<lambda>e. (e_kind e, e_row e)) (entityStore db),
      rows_columns =
        set (concat (map (\<lambda>e. map c_row (e_columns e)) (entityStore db)))
        \<union> set (concat (map (\<lambda>t. map c_row (t_columns t)) (typeStore db))),
      rows_indexes = set (concat (map (\<lambda>e. map i_row (e_indexes e)) (entityStore db))),
      rows_constraints =
        set (concat (map (\<lambda>e. map constraintRow (e_constraints e)) (entityStore db)))
        \<union> set (concat (map (\<lambda>t. map constraintRow (t_checkConstraints t)) (typeStore db))),
      rows_functions = set (map (\<lambda>f. (f_kind f, f_row f)) (db_functions db)),
      rows_triggers = set (concat (map (\<lambda>e. map g_row (e_triggers e)) (entityStore db)))\<rparr>"

text \<open>
  The class that \<open>addEntities\<close> constructs for the kind letter of an entity row, and
  \<open>addFunctions\<close> for the kind letter of a function row; a row of another kind is
  passed over.
\<close>

definition entityKindOf :: "char \<Rightarrow> entityKind option" where
  "entityKindOf k =
     (if k = CHR ''r'' \<or> k = CHR ''p'' then Some Table
      else if k = CHR ''v'' then Some View
      else if k = CHR ''m'' then Some MaterializedView
      else if k = CHR ''S'' then Some Sequence
      else None)"

definition functionKindOf :: "char \<Rightarrow> functionKind option" where
  "functionKindOf k =
     (if k = CHR ''f'' then Some NormalFunction
      else if k = CHR ''p'' then Some Procedure
      else if k = CHR ''a'' then Some AggregateFunction
      else if k = CHR ''w'' then Some WindowFunction
      else None)"

text \<open>A table of the graph has the oid.\<close>

definition tableLoaded :: "Db \<Rightarrow> oid \<Rightarrow> bool" where
  "tableLoaded db k = ((Table, k) \<in> set (map (\<lambda>e. (e_kind e, er_oid (e_row e))) (entityStore db)))"

section \<open>A small catalog\<close>

text \<open>
  The schema \<open>public\<close> with the tables \<open>account\<close> and \<open>order\<close>, after scenario S3 of
  the spec, and the system schema \<open>pg_catalog\<close>.
\<close>

definition int4Row :: type_row where
  "int4Row = \<lparr>tr_oid = 23, tr_classOid = 0, tr_schemaOid = 11, tr_name = ''int4'',
     tr_kind = CHR ''b'', tr_sqlType = None\<rparr>"

definition emailRow :: type_row where
  "emailRow = \<lparr>tr_oid = 500, tr_classOid = 0, tr_schemaOid = 2200, tr_name = ''email'',
     tr_kind = CHR ''d'', tr_sqlType = Some ''text''\<rparr>"

definition lowerEmailIndexRow :: index_row where
  "lowerEmailIndexRow = \<lparr>ir_oid = 203, ir_tableOid = 100, ir_name = ''account_lower_email_idx'',
     ir_columnPositions = [0, 1, 0], ir_indexExpressions = [''lower(email)'', ''id + 1'']\<rparr>"

definition accountPkeyRow :: constraint_row where
  "accountPkeyRow = \<lparr>kr_oid = 400, kr_name = ''account_pkey'', kr_kind = CHR ''p'',
     kr_tableOid = 100, kr_indexOid = 200, kr_typeOid = 0, kr_constrainedColumnPositions = [1],
     kr_onUpdate = CHR '' '', kr_onDelete = CHR '' '', kr_matchType = CHR '' '',
     kr_checkConstraintExpression = None\<rparr>"

definition accountEmailKeyRow :: constraint_row where
  "accountEmailKeyRow = \<lparr>kr_oid = 402, kr_name = ''account_email_key'', kr_kind = CHR ''u'',
     kr_tableOid = 100, kr_indexOid = 202, kr_typeOid = 0, kr_constrainedColumnPositions = [2],
     kr_onUpdate = CHR '' '', kr_onDelete = CHR '' '', kr_matchType = CHR '' '',
     kr_checkConstraintExpression = None\<rparr>"

definition orderAccountFkeyRow :: constraint_row where
  "orderAccountFkeyRow = \<lparr>kr_oid = 401, kr_name = ''order_account_id_fkey'', kr_kind = CHR ''f'',
     kr_tableOid = 101, kr_indexOid = 200, kr_typeOid = 0, kr_constrainedColumnPositions = [2],
     kr_onUpdate = CHR ''a'', kr_onDelete = CHR ''c'', kr_matchType = CHR ''s'',
     kr_checkConstraintExpression = None\<rparr>"

definition emailCheckRow :: constraint_row where
  "emailCheckRow = \<lparr>kr_oid = 403, kr_name = ''email_check'', kr_kind = CHR ''c'',
     kr_tableOid = 0, kr_indexOid = 0, kr_typeOid = 500, kr_constrainedColumnPositions = [],
     kr_onUpdate = CHR '' '', kr_onDelete = CHR '' '', kr_matchType = CHR '' '',
     kr_checkConstraintExpression = Some ''VALUE LIKE $$%@%$$''\<rparr>"

text \<open>A foreign key of a table that is not loaded, to the index of a table that is.\<close>

definition strayFkeyRow :: constraint_row where
  "strayFkeyRow = orderAccountFkeyRow\<lparr>kr_oid := 404, kr_name := ''stray_account_id_fkey'',
     kr_tableOid := 999\<rparr>"

definition exampleResults :: queryResults where
  "exampleResults =
     \<lparr>qr_schemas = [\<lparr>sr_oid = 2200, sr_name = ''public'', sr_comment = None\<rparr>],
      qr_systemSchemas = [\<lparr>sr_oid = 11, sr_name = ''pg_catalog'', sr_comment = None\<rparr>],
      qr_types = [int4Row, emailRow],
      qr_entities =
        [\<lparr>er_oid = 100, er_schemaOid = 2200, er_kind = CHR ''r'', er_name = ''account''\<rparr>,
         \<lparr>er_oid = 101, er_schemaOid = 2200, er_kind = CHR ''r'', er_name = ''order''\<rparr>],
      qr_columns =
        [\<lparr>cr_parentKind = CHR ''r'', cr_parentOid = 100, cr_attributeNumber = 1, cr_name = ''id''\<rparr>,
         \<lparr>cr_parentKind = CHR ''r'', cr_parentOid = 100, cr_attributeNumber = 2, cr_name = ''email''\<rparr>,
         \<lparr>cr_parentKind = CHR ''r'', cr_parentOid = 101, cr_attributeNumber = 1, cr_name = ''id''\<rparr>,
         \<lparr>cr_parentKind = CHR ''r'', cr_parentOid = 101, cr_attributeNumber = 2,
          cr_name = ''account_id''\<rparr>],
      qr_indexes =
        [\<lparr>ir_oid = 200, ir_tableOid = 100, ir_name = ''account_pkey'', ir_columnPositions = [1],
          ir_indexExpressions = []\<rparr>,
         \<lparr>ir_oid = 201, ir_tableOid = 101, ir_name = ''order_pkey'', ir_columnPositions = [1],
          ir_indexExpressions = []\<rparr>,
         \<lparr>ir_oid = 202, ir_tableOid = 100, ir_name = ''account_email_key'', ir_columnPositions = [2],
          ir_indexExpressions = []\<rparr>,
         lowerEmailIndexRow],
      qr_constraints = [accountPkeyRow, orderAccountFkeyRow, accountEmailKeyRow, emailCheckRow],
      qr_functions =
        [\<lparr>fr_oid = 300, fr_schemaOid = 2200, fr_kind = CHR ''f'', fr_name = ''touch''\<rparr>],
      qr_triggers = [\<lparr>gr_name = ''order_touch'', gr_entityOid = 101, gr_functionOid = 300\<rparr>]\<rparr>"

text \<open>
  A materialized view with an index, and a foreign-key row that names that index.
\<close>

definition accountStatsRow :: entity_row where
  "accountStatsRow = \<lparr>er_oid = 102, er_schemaOid = 2200, er_kind = CHR ''m'',
     er_name = ''account_stats''\<rparr>"

definition accountStatsIndexRow :: index_row where
  "accountStatsIndexRow = \<lparr>ir_oid = 210, ir_tableOid = 102, ir_name = ''account_stats_idx'',
     ir_columnPositions = [], ir_indexExpressions = []\<rparr>"

definition exampleConfig :: config where
  "exampleConfig =
     \<lparr>cfg_commentDataToken = ''pg-structure'', cfg_relationNameFunctions = Named ''short'',
      cfg_foreignKeyAliasSeparator = '','', cfg_foreignKeyAliasTargetFirst = False\<rparr>"

definition exampleNew :: Db where
  "exampleNew = newDb ''shop'' ''16.2'' exampleConfig exampleResults (ModuleStrategy ''short'')"

definition orElse :: "error + Db \<Rightarrow> Db \<Rightarrow> Db" where
  "orElse r d = (case r of Inl e \<Rightarrow> d | Inr x \<Rightarrow> x)"

text \<open>The catalog after the schema phases, after the column phase and after the index phase.\<close>

definition exampleSchemasDb :: Db where
  "exampleSchemasDb =
     addSystemSchemas (addSchemas exampleNew (qr_schemas exampleResults))
       (qr_systemSchemas exampleResults)"

definition exampleColumnsDb :: Db where
  "exampleColumnsDb =
     orElse (andThen (addTypes exampleSchemasDb (qr_types exampleResults))
               (\<lambda>db. andThen (addEntities db (qr_entities exampleResults))
               (\<lambda>db. addColumns db (qr_columns exampleResults)))) exampleNew"

definition exampleIndexesDb :: Db where
  "exampleIndexesDb = orElse (addObjects_untilIndexes exampleNew exampleResults) exampleNew"

text \<open>The catalog after the index phase, with the materialized view and its index added.\<close>

definition exampleMaterializedViewDb :: Db where
  "exampleMaterializedViewDb =
     orElse (andThen (addEntities_row exampleIndexesDb accountStatsRow)
               (\<lambda>db. addIndexes_row db accountStatsIndexRow)) exampleNew"

text \<open>A driver that answers every query with the rows of the small catalog.\<close>

definition exampleDriver :: driver where
  "exampleDriver =
     \<lparr>d_envValues = (\<lambda>prefix. Some ''shop''),
      d_connect = None,
      d_serverVersion = Inr ''16.2'',
      d_schemas = (\<lambda>sql parameters. Inr (qr_schemas exampleResults)),
      d_systemSchemas = Inr (qr_systemSchemas exampleResults),
      d_queryVersionFor = (\<lambda>serverVersion. Inr ''16''),
      d_types = (\<lambda>v oids. Inr (qr_types exampleResults)),
      d_entities = (\<lambda>v oids. Inr (qr_entities exampleResults)),
      d_columns = (\<lambda>v oids. Inr (qr_columns exampleResults)),
      d_indexes = (\<lambda>v oids. Inr (qr_indexes exampleResults)),
      d_constraints = (\<lambda>v oids. Inr (qr_constraints exampleResults)),
      d_functions = (\<lambda>v oids. Inr (qr_functions exampleResults)),
      d_triggers = (\<lambda>v oids. Inr (qr_triggers exampleResults))\<rparr>"

text \<open>
  Two drivers that fail: the first rejects the query for the server version, the second
  answers the type query with a type of a schema that is not loaded, which
  \<open>addTypes\<close> cannot place.
\<close>

definition rejectingDriver :: driver where
  "rejectingDriver = exampleDriver\<lparr>d_serverVersion := Inl (DriverError ''connection terminated'')\<rparr>"

definition orphanTypeDriver :: driver where
  "orphanTypeDriver =
     exampleDriver\<lparr>d_types := (\<lambda>v oids. Inr [int4Row\<lparr>tr_oid := 600, tr_schemaOid := 9999\<rparr>])\<rparr>"

definition shopConfig :: firstArgument where
  "shopConfig = ConnectionArgument (ClientConfig (Some ''shop''))"

definition exampleDb :: Db where
  "exampleDb = orElse (fst (pgStructure exampleDriver shopConfig None)) exampleNew"

text \<open>The same catalog, read with naming functions that the caller supplies.\<close>

definition customOptions :: options where
  "customOptions = noOptions\<lparr>o_relationNameFunctions := Some (CustomFunctions 0)\<rparr>"

definition customDb :: Db where
  "customDb = orElse (fst (pgStructure exampleDriver shopConfig (Some customOptions))) exampleNew"

text \<open>Arguments of the legacy constructor.\<close>

definition cartLineItems :: "string LegacyConstraint" where
  "cartLineItems = LegacyConstraint ''line_item_cart_fkey'' 0 1 (Some ''NO ACTION'') (Some ''CASCADE'')
     2 None None None [''cart_id''] [(''cart_id'', ''cart_id'')]"

definition productLineItems :: "string LegacyConstraint" where
  "productLineItems = LegacyConstraint ''line_item_product_fkey'' 0 3 (Some ''NO ACTION'')
     (Some ''CASCADE'') 2 None None None [''product_id''] [(''product_id'', ''product_id'')]"

definition plainArgs :: "string constraint_args" where
  "plainArgs =
     \<lparr>a_name = Some ''order_account_id_fkey'', a_referencesSchema = Some 0,
      a_referencesTable = Some 1, a_onUpdate = Some ''NO ACTION'', a_onDelete = Some ''CASCADE'',
      a_table = Some 2, a_through = None, a_throughForeignKeyConstraint = None,
      a_throughForeignKeyConstraintToSelf = None, a_unknownKeys = False\<rparr>"

definition throughArgs :: "string constraint_args" where
  "throughArgs =
     plainArgs\<lparr>a_name := Some ''cart_has_products'', a_referencesTable := Some 3,
       a_table := Some 1, a_through := Some 2,
       a_throughForeignKeyConstraint := Some productLineItems,
       a_throughForeignKeyConstraintToSelf := Some cartLineItems\<rparr>"

section \<open>Lemmas on the collections\<close>

lemma findRef_Some:
  "findRef P xs = Some i \<Longrightarrow> i < length xs \<and> P (xs ! i) \<and> (\<forall>j<i. \<not> P (xs ! j))"
proof (induction xs arbitrary: i)
  case Nil
  then show ?case by simp
next
  case (Cons x xs)
  show ?case
  proof (cases "P x")
    case True
    with Cons.prems show ?thesis by simp
  next
    case False
    with Cons.prems obtain k where k: "findRef P xs = Some k" "i = Suc k" by auto
    from Cons.IH [OF k(1)] False k(2) show ?thesis by (auto simp: less_Suc_eq_0_disj)
  qed
qed

lemma findRef_None: "findRef P xs = None \<longleftrightarrow> (\<forall>x\<in>set xs. \<not> P x)"
  by (induction xs) auto

lemma getMaybeRef_Some:
  "getMaybeRef key k xs = Some i \<Longrightarrow> i < length xs \<and> key (xs ! i) = k"
  unfolding getMaybeRef_def by (drule findRef_Some) simp

lemma getRef_Inr: "getRef key k xs = Inr i \<longleftrightarrow> getMaybeRef key k xs = Some i"
  by (simp add: getRef_def split: option.splits)

lemma getMaybe_Some: "getMaybe key k xs = Some x \<Longrightarrow> x \<in> set xs \<and> key x = k"
  unfolding getMaybe_def by (induction xs) (auto split: if_splits)

lemma tables_getMaybe_Some:
  "tables_getMaybe db k = Some t \<Longrightarrow>
     t < length (entityStore db) \<and> e_kind (entityStore db ! t) = Table
     \<and> er_oid (e_row (entityStore db ! t)) = k"
  unfolding tables_getMaybe_def by (drule findRef_Some) simp

lemma typesIncludingEntities_getMaybe_Some:
  "typesIncludingEntities_getMaybe db k = Some d \<Longrightarrow>
     d < length (typeStore db) \<and> tr_oid (t_row (typeStore db ! d)) = k"
  unfolding typesIncludingEntities_getMaybe_def by (rule getMaybeRef_Some)

lemma entities_get_Inr:
  "entities_get db k = Inr r \<Longrightarrow>
     r < length (entityStore db) \<and> er_oid (e_row (entityStore db ! r)) = k"
  unfolding entities_get_def by (auto simp: getRef_Inr dest: getMaybeRef_Some)

lemma andThen_Inr: "andThen m f = Inr y \<Longrightarrow> \<exists>x. m = Inr x \<and> f x = Inr y"
  by (auto simp: andThen_def split: sum.splits)

lemma succeeds_orElse: "succeeds r \<Longrightarrow> r = Inr (orElse r d)"
  by (simp add: succeeds_def orElse_def split: sum.splits)

section \<open>The parameters of the schema query\<close>

text \<open>
  Every \<open>LIKE\<close> predicate is evaluated with the included pattern it was written for, and
  so is every \<open>NOT LIKE\<close> predicate with its excluded pattern unless system schemas are
  asked for together with include patterns.
\<close>

lemma likeArgument_includedPattern:
  "i < length (includedPatterns include system) \<Longrightarrow>
   likeArgument include exclude system i = includedPatterns include system ! i"
  by (simp add: likeArgument_def getSchemas_parameters_def nth_append)

lemma notLikeArgument_excludedPattern:
  "\<not> (system \<and> include \<noteq> []) \<Longrightarrow> i < length (excludedPatterns exclude system) \<Longrightarrow>
   notLikeArgument include exclude system i = excludedPatterns exclude system ! i"
  by (auto simp add: notLikeArgument_def getSchemas_parameters_def includedPatterns_def nth_append)

text \<open>
  C3. With \<open>includeSchemas = ["pub%"]\<close>, \<open>excludeSchemas = ["pub_test"]\<close> and
  \<open>includeSystemSchemas = true\<close>, \<open>getSchemas\<close> builds three \<open>LIKE\<close> predicates numbered
  \<open>$1\<close> to \<open>$3\<close> and the predicate \<open>nspname NOT LIKE $2\<close>, and passes the four parameters
  \<open>pub%\<close>, \<open>information\_schema\<close>, \<open>pg\_%\<close>, \<open>pub_test\<close>: the \<open>NOT LIKE\<close> predicate of the
  user's pattern \<open>pub_test\<close> is numbered \<open>$2\<close>, the parameter \<open>information\_schema\<close>, and
  no predicate refers to \<open>$4\<close>.
\<close>

theorem getSchemas_exclude_parameter_number:
  "getSchemas_where [''pub%''] [''pub_test''] True =
     [''NOT pg_is_other_temp_schema(oid)'', ''nspname <> '' @ [squote] @ ''pg_toast'' @ [squote],
      ''(nspname LIKE $1 OR nspname LIKE $2 OR nspname LIKE $3)'', ''nspname NOT LIKE $2'']
   \<and> getSchemas_parameters [''pub%''] [''pub_test''] True =
       [''pub%'', ''information'' @ [backslash] @ ''_schema'', ''pg'' @ [backslash] @ ''_%'',
        ''pub_test'']
   \<and> excludedPatterns [''pub_test''] True ! 0 = ''pub_test''
   \<and> notLikeArgument [''pub%''] [''pub_test''] True 0 = ''information'' @ [backslash] @ ''_schema''
   \<and> notLikeArgument [''pub%''] [''pub_test''] True 0 \<noteq> ''pub_test''"
  by code_simp

section \<open>The columns and expressions of an index\<close>

lemma columnPositions_forEach_acc:
  "snd (columnPositions_forEach cols ps (es, cae))
     = cae @ snd (columnPositions_forEach cols ps (es, []))"
proof (induction ps arbitrary: es cae)
  case Nil
  show ?case by simp
next
  case (Cons p ps)
  show ?case
  proof (cases "0 < p")
    case True
    then show ?thesis
      using Cons.IH [of es "cae @ [findColumn cols p]"] Cons.IH [of es "[findColumn cols p]"]
      by simp
  next
    case False
    then show ?thesis
    proof (cases es)
      case Nil
      then show ?thesis
        using False Cons.IH [of "[]" "cae @ [Undefined]"] Cons.IH [of "[]" "[Undefined]"]
        by simp
    next
      case (Cons x rest)
      then show ?thesis
        using False Cons.IH [of rest "cae @ [Expr x]"] Cons.IH [of rest "[Expr x]"]
        by simp
    qed
  qed
qed

lemma walkColumnPositions_Nil: "walkColumnPositions cols [] es = []"
  by (simp add: walkColumnPositions_def)

lemma walkColumnPositions_Cons:
  "walkColumnPositions cols (p # ps) es =
     (if 0 < p then findColumn cols p # walkColumnPositions cols ps es
      else (case es of
              [] \<Rightarrow> Undefined # walkColumnPositions cols ps []
            | x # rest \<Rightarrow> Expr x # walkColumnPositions cols ps rest))"
proof (cases es)
  case Nil
  then show ?thesis
    unfolding walkColumnPositions_def
    using columnPositions_forEach_acc [of cols ps es "[findColumn cols p]"]
      columnPositions_forEach_acc [of cols ps "[]" "[Undefined]"]
    by simp
next
  case (Cons x rest)
  then show ?thesis
    unfolding walkColumnPositions_def
    using columnPositions_forEach_acc [of cols ps es "[findColumn cols p]"]
      columnPositions_forEach_acc [of cols ps rest "[Expr x]"]
    by simp
qed

lemma walkColumnPositions_length: "length (walkColumnPositions cols ps es) = length ps"
  by (induction ps arbitrary: es)
    (auto simp: walkColumnPositions_Nil walkColumnPositions_Cons split: list.splits)

lemma walkColumnPositions_nth:
  "i < length ps \<Longrightarrow>
   walkColumnPositions cols ps es ! i =
     (if 0 < ps ! i then findColumn cols (ps ! i)
      else if consumedBefore ps i < length es then Expr (es ! consumedBefore ps i)
      else Undefined)"
proof (induction ps arbitrary: es i)
  case Nil
  then show ?case by simp
next
  case (Cons p ps)
  show ?case
  proof (cases i)
    case 0
    then show ?thesis
      by (auto simp: walkColumnPositions_Cons consumedBefore_def split: list.splits)
  next
    case (Suc j)
    with Cons.prems have j: "j < length ps" by simp
    show ?thesis using Suc Cons.IH [OF j]
      by (auto simp: walkColumnPositions_Cons consumedBefore_def split: list.splits)
  qed
qed

lemma expressionsOnly_findColumn:
  "expressionsOnly (findColumn cols p # xs) = expressionsOnly xs"
  by (simp add: findColumn_def split: option.splits)

lemma walkColumnPositions_expressions:
  "expressionsOnly (walkColumnPositions cols ps es) = take (consumedBefore ps (length ps)) es"
proof (induction ps arbitrary: es)
  case Nil
  then show ?case by (simp add: walkColumnPositions_Nil consumedBefore_def)
next
  case (Cons p ps)
  show ?case using Cons.IH
    by (auto simp: walkColumnPositions_Cons consumedBefore_def expressionsOnly_findColumn
        split: list.splits)
qed

text \<open>What \<open>find\<close> returns: the first column with the attribute number, if there is one.\<close>

lemma find_SomeD: "find P xs = Some x \<Longrightarrow> x \<in> set xs \<and> P x"
  by (induction xs) (auto split: if_splits)

lemma findColumn_Col:
  "findColumn cols p = Col c \<Longrightarrow> c \<in> set cols \<and> cr_attributeNumber (c_row c) = p"
  by (auto simp: findColumn_def split: option.splits dest: find_SomeD)

lemma findColumn_Undefined:
  "findColumn cols p = Undefined \<longleftrightarrow> (\<forall>c \<in> set cols. cr_attributeNumber (c_row c) \<noteq> p)"
  by (auto simp: findColumn_def find_None_iff split: option.splits dest: find_SomeD)

lemma findColumn_cases:
  "(\<exists>k < length cols. findColumn cols p = Col (cols ! k)
        \<and> cr_attributeNumber (c_row (cols ! k)) = p
        \<and> (\<forall>j < k. cr_attributeNumber (c_row (cols ! j)) \<noteq> p))
   \<or> (findColumn cols p = Undefined \<and> (\<forall>c \<in> set cols. cr_attributeNumber (c_row c) \<noteq> p))"
proof (cases "find (\<lambda>c. cr_attributeNumber (c_row c) = p) cols")
  case None
  then have u: "findColumn cols p = Undefined" by (simp add: findColumn_def)
  from None have "\<forall>c \<in> set cols. cr_attributeNumber (c_row c) \<noteq> p"
    by (simp add: find_None_iff)
  with u show ?thesis by blast
next
  case (Some c)
  then obtain k where "k < length cols" "cr_attributeNumber (c_row (cols ! k)) = p"
    "c = cols ! k" "\<forall>j < k. cr_attributeNumber (c_row (cols ! j)) \<noteq> p"
    unfolding find_Some_iff by blast
  with Some show ?thesis by (auto simp: findColumn_def)
qed

text \<open>
  C4. For an index row whose table resolves to an entity that owns indexes,
  \<open>addIndexes\<close> pushes one index to that entity. Its \<open>columnsAndExpressions\<close> has one
  element for each element of \<open>columnPositions\<close>, in order. At a position greater than
  zero the element is the parent's column whose \<open>attributeNumber\<close> equals the position
  (the first such column of \<open>parent.columns\<close>), or \<open>undefined\<close> when the parent has no
  column with that number; it is never an expression. At any other position (zero is
  the one the catalog uses) the element is the next element of \<open>indexExpressions\<close> not
  consumed so far, or \<open>undefined\<close> when none is left. So the expressions of
  \<open>columnsAndExpressions\<close> are a prefix of \<open>indexExpressions\<close>, in the same order.
\<close>

theorem addIndexes_columnsAndExpressions:
  assumes "entities_get db (ir_tableOid row) = Inr parent"
      and "isTableOrMaterializedView (e_kind (entityStore db ! parent))"
  shows "\<exists>db' idx. addIndexes_row db row = Inr db'
       \<and> e_indexes (entityStore db' ! parent) = e_indexes (entityStore db ! parent) @ [idx]
       \<and> i_row idx = row \<and> i_parent idx = parent
       \<and> length (i_columnsAndExpressions idx) = length (ir_columnPositions row)
       \<and> (\<forall>i < length (ir_columnPositions row). 0 < ir_columnPositions row ! i \<longrightarrow>
            (\<exists>k < length (e_columns (entityStore db ! parent)).
                i_columnsAndExpressions idx ! i = Col (e_columns (entityStore db ! parent) ! k)
              \<and> cr_attributeNumber (c_row (e_columns (entityStore db ! parent) ! k))
                  = ir_columnPositions row ! i
              \<and> (\<forall>j < k. cr_attributeNumber (c_row (e_columns (entityStore db ! parent) ! j))
                           \<noteq> ir_columnPositions row ! i))
            \<or> (i_columnsAndExpressions idx ! i = Undefined
                \<and> (\<forall>c \<in> set (e_columns (entityStore db ! parent)).
                      cr_attributeNumber (c_row c) \<noteq> ir_columnPositions row ! i)))
       \<and> (\<forall>i < length (ir_columnPositions row). \<not> 0 < ir_columnPositions row ! i \<longrightarrow>
            i_columnsAndExpressions idx ! i =
              (if consumedBefore (ir_columnPositions row) i < length (ir_indexExpressions row)
               then Expr (ir_indexExpressions row ! consumedBefore (ir_columnPositions row) i)
               else Undefined))
       \<and> expressionsOnly (i_columnsAndExpressions idx)
           = take (consumedBefore (ir_columnPositions row) (length (ir_columnPositions row)))
               (ir_indexExpressions row)"
proof -
  from assms(1) have lt: "parent < length (entityStore db)"
    using entities_get_Inr by blast
  let ?idx = "buildIndex db parent row"
  let ?cols = "e_columns (entityStore db ! parent)"
  have run: "addIndexes_row db row = Inr (pushIndex parent ?idx db)"
    using assms by (simp add: addIndexes_row_def)
  have pushed: "e_indexes (entityStore (pushIndex parent ?idx db) ! parent)
      = e_indexes (entityStore db ! parent) @ [?idx]"
    using lt by (simp add: pushIndex_def updEntity_def)
  have "i_row ?idx = row" "i_parent ?idx = parent"
    by (simp_all add: buildIndex_def)
  moreover have "length (i_columnsAndExpressions ?idx) = length (ir_columnPositions row)"
    by (simp add: buildIndex_def walkColumnPositions_length)
  moreover have "\<forall>i < length (ir_columnPositions row). 0 < ir_columnPositions row ! i \<longrightarrow>
            (\<exists>k < length ?cols.
                i_columnsAndExpressions ?idx ! i = Col (?cols ! k)
              \<and> cr_attributeNumber (c_row (?cols ! k)) = ir_columnPositions row ! i
              \<and> (\<forall>j < k. cr_attributeNumber (c_row (?cols ! j)) \<noteq> ir_columnPositions row ! i))
            \<or> (i_columnsAndExpressions ?idx ! i = Undefined
                \<and> (\<forall>c \<in> set ?cols. cr_attributeNumber (c_row c) \<noteq> ir_columnPositions row ! i))"
  proof (intro allI impI)
    fix i assume i: "i < length (ir_columnPositions row)" and pos: "0 < ir_columnPositions row ! i"
    from i pos have "i_columnsAndExpressions ?idx ! i = findColumn ?cols (ir_columnPositions row ! i)"
      by (simp add: buildIndex_def walkColumnPositions_nth)
    with findColumn_cases [of ?cols "ir_columnPositions row ! i"]
    show "(\<exists>k < length ?cols.
                i_columnsAndExpressions ?idx ! i = Col (?cols ! k)
              \<and> cr_attributeNumber (c_row (?cols ! k)) = ir_columnPositions row ! i
              \<and> (\<forall>j < k. cr_attributeNumber (c_row (?cols ! j)) \<noteq> ir_columnPositions row ! i))
            \<or> (i_columnsAndExpressions ?idx ! i = Undefined
                \<and> (\<forall>c \<in> set ?cols. cr_attributeNumber (c_row c) \<noteq> ir_columnPositions row ! i))"
      by simp
  qed
  moreover have "\<forall>i < length (ir_columnPositions row). \<not> 0 < ir_columnPositions row ! i \<longrightarrow>
            i_columnsAndExpressions ?idx ! i =
              (if consumedBefore (ir_columnPositions row) i < length (ir_indexExpressions row)
               then Expr (ir_indexExpressions row ! consumedBefore (ir_columnPositions row) i)
               else Undefined)"
    by (simp add: buildIndex_def walkColumnPositions_nth)
  moreover have "expressionsOnly (i_columnsAndExpressions ?idx)
           = take (consumedBefore (ir_columnPositions row) (length (ir_columnPositions row)))
               (ir_indexExpressions row)"
    by (simp add: buildIndex_def walkColumnPositions_expressions)
  ultimately show ?thesis using run pushed by blast
qed

theorem addIndexes_columnsAndExpressions_witness:
  "entities_get exampleColumnsDb (ir_tableOid lowerEmailIndexRow) = Inr 0
   \<and> isTableOrMaterializedView (e_kind (entityStore exampleColumnsDb ! 0))
   \<and> ir_columnPositions lowerEmailIndexRow = [0, 1, 0]
   \<and> ir_indexExpressions lowerEmailIndexRow = [''lower(email)'', ''id + 1'']
   \<and> map (\<lambda>c. (cr_attributeNumber (c_row c), cr_name (c_row c)))
        (e_columns (entityStore exampleColumnsDb ! 0)) = [(1, ''id''), (2, ''email'')]
   \<and> (\<exists>db' idx. addIndexes_row exampleColumnsDb lowerEmailIndexRow = Inr db'
        \<and> e_indexes (entityStore db' ! 0) = e_indexes (entityStore exampleColumnsDb ! 0) @ [idx]
        \<and> length (i_columnsAndExpressions idx) = 3
        \<and> i_columnsAndExpressions idx ! 0 = Expr ''lower(email)''
        \<and> i_columnsAndExpressions idx ! 1 = Col (e_columns (entityStore exampleColumnsDb ! 0) ! 0)
        \<and> i_columnsAndExpressions idx ! 2 = Expr ''id + 1''
        \<and> expressionsOnly (i_columnsAndExpressions idx) = [''lower(email)'', ''id + 1''])"
proof -
  let ?cols = "e_columns (entityStore exampleColumnsDb ! 0)"
  have h1: "entities_get exampleColumnsDb (ir_tableOid lowerEmailIndexRow) = Inr 0"
    by code_simp
  have h2: "isTableOrMaterializedView (e_kind (entityStore exampleColumnsDb ! 0))"
    by code_simp
  have ps: "ir_columnPositions lowerEmailIndexRow = [0, 1, 0]"
    by (simp add: lowerEmailIndexRow_def)
  have es: "ir_indexExpressions lowerEmailIndexRow = [''lower(email)'', ''id + 1'']"
    by (simp add: lowerEmailIndexRow_def)
  have cols: "map (\<lambda>c. (cr_attributeNumber (c_row c), cr_name (c_row c))) ?cols
      = [(1, ''id''), (2, ''email'')]"
    by code_simp
  have len: "length ?cols = 2"
    by code_simp
  have a0: "cr_attributeNumber (c_row (?cols ! 0)) = 1"
    by code_simp
  have a1: "cr_attributeNumber (c_row (?cols ! 1)) = 2"
    by code_simp
  from addIndexes_columnsAndExpressions [OF h1 h2] obtain db' idx where
    run: "addIndexes_row exampleColumnsDb lowerEmailIndexRow = Inr db'"
    and pushed: "e_indexes (entityStore db' ! 0) = e_indexes (entityStore exampleColumnsDb ! 0) @ [idx]"
    and l: "length (i_columnsAndExpressions idx) = length (ir_columnPositions lowerEmailIndexRow)"
    and c: "\<forall>i < length (ir_columnPositions lowerEmailIndexRow).
            0 < ir_columnPositions lowerEmailIndexRow ! i \<longrightarrow>
            (\<exists>k < length ?cols.
                i_columnsAndExpressions idx ! i = Col (?cols ! k)
              \<and> cr_attributeNumber (c_row (?cols ! k)) = ir_columnPositions lowerEmailIndexRow ! i
              \<and> (\<forall>j < k. cr_attributeNumber (c_row (?cols ! j))
                           \<noteq> ir_columnPositions lowerEmailIndexRow ! i))
            \<or> (i_columnsAndExpressions idx ! i = Undefined
                \<and> (\<forall>c \<in> set ?cols.
                      cr_attributeNumber (c_row c) \<noteq> ir_columnPositions lowerEmailIndexRow ! i))"
    and e: "\<forall>i < length (ir_columnPositions lowerEmailIndexRow).
            \<not> 0 < ir_columnPositions lowerEmailIndexRow ! i \<longrightarrow>
            i_columnsAndExpressions idx ! i =
              (if consumedBefore (ir_columnPositions lowerEmailIndexRow) i
                    < length (ir_indexExpressions lowerEmailIndexRow)
               then Expr (ir_indexExpressions lowerEmailIndexRow
                            ! consumedBefore (ir_columnPositions lowerEmailIndexRow) i)
               else Undefined)"
    and x: "expressionsOnly (i_columnsAndExpressions idx)
           = take (consumedBefore (ir_columnPositions lowerEmailIndexRow)
                     (length (ir_columnPositions lowerEmailIndexRow)))
               (ir_indexExpressions lowerEmailIndexRow)"
    by blast
  from l ps have l3: "length (i_columnsAndExpressions idx) = 3" by simp
  from e [rule_format, of 0] have e0: "i_columnsAndExpressions idx ! 0 = Expr ''lower(email)''"
    by (simp add: ps es consumedBefore_def)
  from e [rule_format, of 2] have e2: "i_columnsAndExpressions idx ! 2 = Expr ''id + 1''"
    by (simp add: ps es consumedBefore_def)
  from x have x': "expressionsOnly (i_columnsAndExpressions idx) = [''lower(email)'', ''id + 1'']"
    by (simp add: ps es consumedBefore_def)
  have "?cols ! 0 \<in> set ?cols" using len by simp
  with a0 have some: "\<not> (\<forall>c \<in> set ?cols. cr_attributeNumber (c_row c) \<noteq> 1)" by blast
  from c [rule_format, of 1] some obtain k where k: "k < 2"
    "i_columnsAndExpressions idx ! 1 = Col (?cols ! k)" "cr_attributeNumber (c_row (?cols ! k)) = 1"
    by (auto simp: ps len)
  from k(1) have "k = 0 \<or> k = 1" by auto
  with k(3) a1 have "k = 0" by auto
  with k(2) have e1: "i_columnsAndExpressions idx ! 1 = Col (?cols ! 0)" by simp
  from run pushed l3 e0 e1 e2 x'
  have "\<exists>db' idx. addIndexes_row exampleColumnsDb lowerEmailIndexRow = Inr db'
        \<and> e_indexes (entityStore db' ! 0) = e_indexes (entityStore exampleColumnsDb ! 0) @ [idx]
        \<and> length (i_columnsAndExpressions idx) = 3
        \<and> i_columnsAndExpressions idx ! 0 = Expr ''lower(email)''
        \<and> i_columnsAndExpressions idx ! 1 = Col (?cols ! 0)
        \<and> i_columnsAndExpressions idx ! 2 = Expr ''id + 1''
        \<and> expressionsOnly (i_columnsAndExpressions idx) = [''lower(email)'', ''id + 1'']"
    by blast
  with h1 h2 ps es cols show ?thesis by (intro conjI)
qed

section \<open>Foreign-key actions and match types\<close>

text \<open>
  C5, as the code has it. A foreign key built by \<open>addConstraints\<close> takes \<open>onUpdate\<close> and
  \<open>onDelete\<close> from the row's letters by a to NO ACTION, r to RESTRICT, c to CASCADE,
  n to SET NULL, d to SET DEFAULT (and \<open>undefined\<close> for any other letter), and
  \<open>matchType\<close> by f to FULL, p to PARTIAL, s to SIMPLE. The legacy \<open>Constraint\<close>
  accepts the action values of its \<open>allowedActions\<close>: constructed with any of NO
  ACTION, RESTRICT, CASCADE, SET NULL for \<open>onUpdate\<close> and \<open>onDelete\<close>, and with
  arguments that are valid otherwise, it succeeds and keeps the two values.
\<close>

theorem foreignKey_actions_and_matchTypes:
  "(actionLetterMap CHR ''a'' = Some ''NO ACTION'' \<and> actionLetterMap CHR ''r'' = Some ''RESTRICT''
    \<and> actionLetterMap CHR ''c'' = Some ''CASCADE'' \<and> actionLetterMap CHR ''n'' = Some ''SET NULL''
    \<and> actionLetterMap CHR ''d'' = Some ''SET DEFAULT'')
   \<and> (l \<notin> {CHR ''a'', CHR ''r'', CHR ''c'', CHR ''n'', CHR ''d''} \<longrightarrow> actionLetterMap l = None)
   \<and> (matchTypeLetterMap CHR ''f'' = Some Full \<and> matchTypeLetterMap CHR ''p'' = Some Partial
      \<and> matchTypeLetterMap CHR ''s'' = Some Simple)
   \<and> (m \<notin> {CHR ''f'', CHR ''p'', CHR ''s''} \<longrightarrow> matchTypeLetterMap m = None)
   \<and> fk_onUpdate (newForeignKey row t i cols) = actionLetterMap (kr_onUpdate row)
   \<and> fk_onDelete (newForeignKey row t i cols) = actionLetterMap (kr_onDelete row)
   \<and> fk_matchType (newForeignKey row t i cols) = matchTypeLetterMap (kr_matchType row)
   \<and> (\<forall>u d. u \<in> {''NO ACTION'', ''RESTRICT'', ''CASCADE'', ''SET NULL''}
          \<and> d \<in> {''NO ACTION'', ''RESTRICT'', ''CASCADE'', ''SET NULL''}
          \<and> validation_ok (args\<lparr>a_onUpdate := None, a_onDelete := None\<rparr>) opts
          \<and> (a_through args = None \<or> a_throughForeignKeyConstraintToSelf args \<noteq> None)
        \<longrightarrow> (\<exists>c. Constraint (Some (args\<lparr>a_onUpdate := Some u, a_onDelete := Some d\<rparr>)) opts = Inr c
                 \<and> lc_onUpdate c = Some u \<and> lc_onDelete c = Some d))"
proof (intro conjI)
  show "\<forall>u d. u \<in> {''NO ACTION'', ''RESTRICT'', ''CASCADE'', ''SET NULL''}
          \<and> d \<in> {''NO ACTION'', ''RESTRICT'', ''CASCADE'', ''SET NULL''}
          \<and> validation_ok (args\<lparr>a_onUpdate := None, a_onDelete := None\<rparr>) opts
          \<and> (a_through args = None \<or> a_throughForeignKeyConstraintToSelf args \<noteq> None)
        \<longrightarrow> (\<exists>c. Constraint (Some (args\<lparr>a_onUpdate := Some u, a_onDelete := Some d\<rparr>)) opts = Inr c
                 \<and> lc_onUpdate c = Some u \<and> lc_onDelete c = Some d)"
    by (auto simp: Constraint_def validation_ok_def validAction_def allowedActions_def
        split: option.splits)
qed (simp_all add: actionLetterMap_def matchTypeLetterMap_def newForeignKey_def)

theorem foreignKey_actions_and_matchTypes_witness:
  "CHR ''x'' \<notin> {CHR ''a'', CHR ''r'', CHR ''c'', CHR ''n'', CHR ''d''}
   \<and> actionLetterMap CHR ''x'' = None
   \<and> CHR ''x'' \<notin> {CHR ''f'', CHR ''p'', CHR ''s''}
   \<and> matchTypeLetterMap CHR ''x'' = None
   \<and> ''RESTRICT'' \<in> {''NO ACTION'', ''RESTRICT'', ''CASCADE'', ''SET NULL''}
   \<and> ''SET NULL'' \<in> {''NO ACTION'', ''RESTRICT'', ''CASCADE'', ''SET NULL''}
   \<and> validation_ok (plainArgs\<lparr>a_onUpdate := None, a_onDelete := None\<rparr>) None
   \<and> a_through plainArgs = None
   \<and> (\<exists>c. Constraint (Some (plainArgs\<lparr>a_onUpdate := Some ''RESTRICT'',
                                          a_onDelete := Some ''SET NULL''\<rparr>)) None = Inr c
          \<and> lc_onUpdate c = Some ''RESTRICT'' \<and> lc_onDelete c = Some ''SET NULL'')"
proof -
  have h: "validation_ok (plainArgs\<lparr>a_onUpdate := None, a_onDelete := None\<rparr>) None
      \<and> a_through plainArgs = None"
    by (simp add: validation_ok_def plainArgs_def validAction_def)
  from foreignKey_actions_and_matchTypes
    [where l = "CHR ''x''" and m = "CHR ''x''" and args = plainArgs and opts = None]
  show ?thesis using h by simp
qed

text \<open>
  C5 as stated fails: \<open>SET DEFAULT\<close>, the image of the letter d, is not one of the
  legacy constructor's \<open>allowedActions\<close>, and the constructor throws for it.
\<close>

theorem legacy_Constraint_rejects_SET_DEFAULT:
  "actionLetterMap CHR ''d'' = Some ''SET DEFAULT''
   \<and> Constraint (Some (plainArgs\<lparr>a_onUpdate := Some ''SET DEFAULT''\<rparr>)) None = Inl ValidationError"
  by (simp add: actionLetterMap_def Constraint_def validation_ok_def validAction_def
      allowedActions_def plainArgs_def)

section \<open>The legacy constraint's foreign keys\<close>

text \<open>
  C9. When the arguments pass the validation: constructed with \<open>through\<close> and with
  \<open>throughForeignKeyConstraintToSelf\<close>, the constraint starts with the \<open>foreignKeys\<close>
  and the \<open>foreignKeysByName\<close> of \<open>throughForeignKeyConstraintToSelf\<close>, whatever
  \<open>throughForeignKeyConstraint\<close> is; constructed without \<open>through\<close>, it starts with both
  empty.
\<close>

theorem legacy_Constraint_foreignKeys:
  assumes "validation_ok args opts"
  shows "(\<forall>th toSelf. a_through args = Some th
              \<and> a_throughForeignKeyConstraintToSelf args = Some toSelf
            \<longrightarrow> (\<exists>c. Constraint (Some args) opts = Inr c
                  \<and> lc_foreignKeys c = lc_foreignKeys toSelf
                  \<and> lc_foreignKeysByName c = lc_foreignKeysByName toSelf))
       \<and> (a_through args = None
            \<longrightarrow> (\<exists>c. Constraint (Some args) opts = Inr c
                  \<and> lc_foreignKeys c = [] \<and> lc_foreignKeysByName c = []))"
  using assms
  by (auto simp: Constraint_def validation_ok_def split: option.splits)

theorem legacy_Constraint_foreignKeys_witness:
  "validation_ok throughArgs None
   \<and> a_through throughArgs = Some 2
   \<and> a_throughForeignKeyConstraintToSelf throughArgs = Some cartLineItems
   \<and> a_throughForeignKeyConstraint throughArgs = Some productLineItems
   \<and> lc_foreignKeys productLineItems \<noteq> lc_foreignKeys cartLineItems
   \<and> (\<exists>c. Constraint (Some throughArgs) None = Inr c
          \<and> lc_foreignKeys c = lc_foreignKeys cartLineItems
          \<and> lc_foreignKeysByName c = lc_foreignKeysByName cartLineItems)
   \<and> validation_ok plainArgs None
   \<and> a_through plainArgs = None
   \<and> (\<exists>c. Constraint (Some plainArgs) None = Inr c
          \<and> lc_foreignKeys c = [] \<and> lc_foreignKeysByName c = [])"
proof -
  have v1: "validation_ok throughArgs None"
    by (simp add: validation_ok_def throughArgs_def plainArgs_def validAction_def
        allowedActions_def)
  have v2: "validation_ok plainArgs None"
    by (simp add: validation_ok_def plainArgs_def validAction_def allowedActions_def)
  have a: "a_through throughArgs = Some 2
      \<and> a_throughForeignKeyConstraintToSelf throughArgs = Some cartLineItems
      \<and> a_throughForeignKeyConstraint throughArgs = Some productLineItems
      \<and> lc_foreignKeys productLineItems \<noteq> lc_foreignKeys cartLineItems
      \<and> a_through plainArgs = None"
    by (simp add: throughArgs_def plainArgs_def cartLineItems_def productLineItems_def)
  from legacy_Constraint_foreignKeys [OF v1] a
  have e1: "\<exists>c. Constraint (Some throughArgs) None = Inr c
          \<and> lc_foreignKeys c = lc_foreignKeys cartLineItems
          \<and> lc_foreignKeysByName c = lc_foreignKeysByName cartLineItems"
    by simp
  from legacy_Constraint_foreignKeys [OF v2] a
  have e2: "\<exists>c. Constraint (Some plainArgs) None = Inr c
          \<and> lc_foreignKeys c = [] \<and> lc_foreignKeysByName c = []"
    by simp
  from e1 e2 a v1 v2 show ?thesis by simp
qed

section \<open>The columns of a unique constraint\<close>

text \<open>
  C8. The columns of a unique constraint are read from the index that the constraint
  holds: the getter returns the columns of that index, the same list. So for a row of
  kind u whose table and index resolve, the constraint that \<open>addConstraints\<close> pushes to
  the table holds the resolved index, and its columns are the columns of that index.
\<close>

theorem UniqueConstraint_columns_of_index:
  "(\<forall>i. uc_index this = Some i \<longrightarrow> UniqueConstraint_columns this = Inr (Index_columns i))
   \<and> (\<forall>t i. tables_getMaybe db (kr_tableOid row) = Some t \<and> kr_kind row = CHR ''u''
          \<and> indexes_getMaybe db (kr_indexOid row) = Some i
        \<longrightarrow> (\<exists>db' uc. addConstraints_row db row = Inr db'
               \<and> e_constraints (entityStore db' ! t)
                   = e_constraints (entityStore db ! t) @ [UniqueConstraint uc]
               \<and> uc_index uc = Some i
               \<and> UniqueConstraint_columns uc = Inr (Index_columns i)))"
proof (intro conjI allI impI)
  fix i assume "uc_index this = Some i"
  then show "UniqueConstraint_columns this = Inr (Index_columns i)"
    by (simp add: UniqueConstraint_columns_def)
next
  fix t i
  assume h: "tables_getMaybe db (kr_tableOid row) = Some t \<and> kr_kind row = CHR ''u''
          \<and> indexes_getMaybe db (kr_indexOid row) = Some i"
  then have t: "t < length (entityStore db)" using tables_getMaybe_Some by blast
  let ?uc = "newUniqueConstraint row (Some i) t"
  have "addConstraints_row db row = Inr (pushConstraint t (UniqueConstraint ?uc) db)"
    using h by (simp add: addConstraints_row_def)
  moreover have "e_constraints (entityStore (pushConstraint t (UniqueConstraint ?uc) db) ! t)
      = e_constraints (entityStore db ! t) @ [UniqueConstraint ?uc]"
    using t by (simp add: pushConstraint_def updEntity_def)
  moreover have "uc_index ?uc = Some i \<and> UniqueConstraint_columns ?uc = Inr (Index_columns i)"
    by (simp add: newUniqueConstraint_def UniqueConstraint_columns_def)
  ultimately show "\<exists>db' uc. addConstraints_row db row = Inr db'
               \<and> e_constraints (entityStore db' ! t)
                   = e_constraints (entityStore db ! t) @ [UniqueConstraint uc]
               \<and> uc_index uc = Some i
               \<and> UniqueConstraint_columns uc = Inr (Index_columns i)"
    by blast
qed

theorem UniqueConstraint_columns_of_index_witness:
  "tables_getMaybe exampleIndexesDb (kr_tableOid accountEmailKeyRow) = Some 0
   \<and> kr_kind accountEmailKeyRow = CHR ''u''
   \<and> (\<exists>i. indexes_getMaybe exampleIndexesDb (kr_indexOid accountEmailKeyRow) = Some i
        \<and> map (\<lambda>c. cr_name (c_row c)) (Index_columns i) = [''email'']
        \<and> (\<exists>db' uc. addConstraints_row exampleIndexesDb accountEmailKeyRow = Inr db'
              \<and> e_constraints (entityStore db' ! 0)
                  = e_constraints (entityStore exampleIndexesDb ! 0) @ [UniqueConstraint uc]
              \<and> uc_index uc = Some i
              \<and> UniqueConstraint_columns uc = Inr (Index_columns i)))"
proof -
  have h1: "tables_getMaybe exampleIndexesDb (kr_tableOid accountEmailKeyRow) = Some 0"
    by code_simp
  have h2: "kr_kind accountEmailKeyRow = CHR ''u''"
    by code_simp
  have "map_option (\<lambda>i. map (\<lambda>c. cr_name (c_row c)) (Index_columns i))
          (indexes_getMaybe exampleIndexesDb (kr_indexOid accountEmailKeyRow)) = Some [''email'']"
    by code_simp
  then obtain i where
    h3: "indexes_getMaybe exampleIndexesDb (kr_indexOid accountEmailKeyRow) = Some i"
    and cols: "map (\<lambda>c. cr_name (c_row c)) (Index_columns i) = [''email'']"
    by auto
  have "\<exists>db' uc. addConstraints_row exampleIndexesDb accountEmailKeyRow = Inr db'
              \<and> e_constraints (entityStore db' ! 0)
                  = e_constraints (entityStore exampleIndexesDb ! 0) @ [UniqueConstraint uc]
              \<and> uc_index uc = Some i
              \<and> UniqueConstraint_columns uc = Inr (Index_columns i)"
    by (rule UniqueConstraint_columns_of_index
          [where db = exampleIndexesDb and row = accountEmailKeyRow,
            THEN conjunct2, rule_format, of 0 i])
       (simp add: h1 h2 h3)
  with h3 cols have "\<exists>i. indexes_getMaybe exampleIndexesDb (kr_indexOid accountEmailKeyRow) = Some i
        \<and> map (\<lambda>c. cr_name (c_row c)) (Index_columns i) = [''email'']
        \<and> (\<exists>db' uc. addConstraints_row exampleIndexesDb accountEmailKeyRow = Inr db'
              \<and> e_constraints (entityStore db' ! 0)
                  = e_constraints (entityStore exampleIndexesDb ! 0) @ [UniqueConstraint uc]
              \<and> uc_index uc = Some i
              \<and> UniqueConstraint_columns uc = Inr (Index_columns i))"
    by (intro exI [of _ i] conjI)
  with h1 h2 show ?thesis by (intro conjI)
qed

section \<open>The schema of a type\<close>

text \<open>
  C6. For a type row, \<open>addTypes\<close> looks the row's \<open>schemaOid\<close> up in \<open>systemSchemas\<close>
  first. If a system schema has it, the type is constructed with that schema and pushed
  to its \<open>typesIncludingEntities\<close>, and the user schemas are left as they are. If no
  system schema has it and a user schema has, the type is constructed with the user
  schema and pushed to its \<open>typesIncludingEntities\<close>. If neither has, the lookup throws.
  (A type is constructed when the row's kind is one of the seven type kinds.)
\<close>

theorem addTypes_row_schema:
  "(\<forall>i k. getMaybeRef (\<lambda>s. sr_oid (s_row s)) (tr_schemaOid row) (db_systemSchemas db) = Some i
          \<and> typeKinds (tr_kind row) = Some k
      \<longrightarrow> (\<exists>db'. addTypes_row db row = Inr db'
             \<and> typeStore db' = typeStore db @ [newType row k (SystemSchema i)]
             \<and> s_typesIncludingEntities (db_systemSchemas db' ! i)
                 = s_typesIncludingEntities (db_systemSchemas db ! i) @ [length (typeStore db)]
             \<and> (\<forall>j. j \<noteq> i \<longrightarrow> db_systemSchemas db' ! j = db_systemSchemas db ! j)
             \<and> db_schemas db' = db_schemas db))
   \<and> (\<forall>i k. getMaybeRef (\<lambda>s. sr_oid (s_row s)) (tr_schemaOid row) (db_systemSchemas db) = None
          \<and> getMaybeRef (\<lambda>s. sr_oid (s_row s)) (tr_schemaOid row) (db_schemas db) = Some i
          \<and> typeKinds (tr_kind row) = Some k
      \<longrightarrow> (\<exists>db'. addTypes_row db row = Inr db'
             \<and> typeStore db' = typeStore db @ [newType row k (UserSchema i)]
             \<and> s_typesIncludingEntities (db_schemas db' ! i)
                 = s_typesIncludingEntities (db_schemas db ! i) @ [length (typeStore db)]
             \<and> (\<forall>j. j \<noteq> i \<longrightarrow> db_schemas db' ! j = db_schemas db ! j)
             \<and> db_systemSchemas db' = db_systemSchemas db))
   \<and> (getMaybeRef (\<lambda>s. sr_oid (s_row s)) (tr_schemaOid row) (db_systemSchemas db) = None
          \<and> getMaybeRef (\<lambda>s. sr_oid (s_row s)) (tr_schemaOid row) (db_schemas db) = None
      \<longrightarrow> addTypes_row db row = Inl NotFound)"
proof (intro conjI allI impI)
  fix i k
  assume h: "getMaybeRef (\<lambda>s. sr_oid (s_row s)) (tr_schemaOid row) (db_systemSchemas db) = Some i
          \<and> typeKinds (tr_kind row) = Some k"
  then have i: "i < length (db_systemSchemas db)" using getMaybeRef_Some by fastforce
  from h i show "\<exists>db'. addTypes_row db row = Inr db'
             \<and> typeStore db' = typeStore db @ [newType row k (SystemSchema i)]
             \<and> s_typesIncludingEntities (db_systemSchemas db' ! i)
                 = s_typesIncludingEntities (db_systemSchemas db ! i) @ [length (typeStore db)]
             \<and> (\<forall>j. j \<noteq> i \<longrightarrow> db_systemSchemas db' ! j = db_systemSchemas db ! j)
             \<and> db_schemas db' = db_schemas db"
    by (simp add: addTypes_row_def typeSchema_def Let_def updSystemSchema_def
        pushTypesIncludingEntities_def)
next
  fix i k
  assume h: "getMaybeRef (\<lambda>s. sr_oid (s_row s)) (tr_schemaOid row) (db_systemSchemas db) = None
          \<and> getMaybeRef (\<lambda>s. sr_oid (s_row s)) (tr_schemaOid row) (db_schemas db) = Some i
          \<and> typeKinds (tr_kind row) = Some k"
  then have i: "i < length (db_schemas db)" using getMaybeRef_Some by fastforce
  from h i show "\<exists>db'. addTypes_row db row = Inr db'
             \<and> typeStore db' = typeStore db @ [newType row k (UserSchema i)]
             \<and> s_typesIncludingEntities (db_schemas db' ! i)
                 = s_typesIncludingEntities (db_schemas db ! i) @ [length (typeStore db)]
             \<and> (\<forall>j. j \<noteq> i \<longrightarrow> db_schemas db' ! j = db_schemas db ! j)
             \<and> db_systemSchemas db' = db_systemSchemas db"
    by (simp add: addTypes_row_def typeSchema_def Let_def updSchema_def getRef_def
        pushTypesIncludingEntities_def)
next
  assume "getMaybeRef (\<lambda>s. sr_oid (s_row s)) (tr_schemaOid row) (db_systemSchemas db) = None
          \<and> getMaybeRef (\<lambda>s. sr_oid (s_row s)) (tr_schemaOid row) (db_schemas db) = None"
  then show "addTypes_row db row = Inl NotFound"
    by (simp add: addTypes_row_def typeSchema_def getRef_def)
qed

theorem addTypes_row_schema_witness:
  "getMaybeRef (\<lambda>s. sr_oid (s_row s)) (tr_schemaOid int4Row) (db_systemSchemas exampleSchemasDb)
     = Some 0
   \<and> typeKinds (tr_kind int4Row) = Some BaseType
   \<and> (\<exists>db'. addTypes_row exampleSchemasDb int4Row = Inr db'
        \<and> typeStore db' = typeStore exampleSchemasDb @ [newType int4Row BaseType (SystemSchema 0)]
        \<and> s_typesIncludingEntities (db_systemSchemas db' ! 0)
            = s_typesIncludingEntities (db_systemSchemas exampleSchemasDb ! 0)
              @ [length (typeStore exampleSchemasDb)]
        \<and> db_schemas db' = db_schemas exampleSchemasDb)
   \<and> getMaybeRef (\<lambda>s. sr_oid (s_row s)) (tr_schemaOid emailRow) (db_systemSchemas exampleSchemasDb)
     = None
   \<and> getMaybeRef (\<lambda>s. sr_oid (s_row s)) (tr_schemaOid emailRow) (db_schemas exampleSchemasDb)
     = Some 0
   \<and> typeKinds (tr_kind emailRow) = Some Domain
   \<and> (\<exists>db'. addTypes_row exampleSchemasDb emailRow = Inr db'
        \<and> typeStore db' = typeStore exampleSchemasDb @ [newType emailRow Domain (UserSchema 0)]
        \<and> s_typesIncludingEntities (db_schemas db' ! 0)
            = s_typesIncludingEntities (db_schemas exampleSchemasDb ! 0)
              @ [length (typeStore exampleSchemasDb)]
        \<and> db_systemSchemas db' = db_systemSchemas exampleSchemasDb)
   \<and> getMaybeRef (\<lambda>s. sr_oid (s_row s)) (tr_schemaOid (emailRow\<lparr>tr_schemaOid := 9999\<rparr>))
       (db_systemSchemas exampleSchemasDb) = None
   \<and> getMaybeRef (\<lambda>s. sr_oid (s_row s)) (tr_schemaOid (emailRow\<lparr>tr_schemaOid := 9999\<rparr>))
       (db_schemas exampleSchemasDb) = None
   \<and> addTypes_row exampleSchemasDb (emailRow\<lparr>tr_schemaOid := 9999\<rparr>) = Inl NotFound"
proof -
  have a1: "getMaybeRef (\<lambda>s. sr_oid (s_row s)) (tr_schemaOid int4Row)
              (db_systemSchemas exampleSchemasDb) = Some 0"
    by code_simp
  have a2: "typeKinds (tr_kind int4Row) = Some BaseType"
    by code_simp
  have b1: "getMaybeRef (\<lambda>s. sr_oid (s_row s)) (tr_schemaOid emailRow)
              (db_systemSchemas exampleSchemasDb) = None"
    by code_simp
  have b2: "getMaybeRef (\<lambda>s. sr_oid (s_row s)) (tr_schemaOid emailRow)
              (db_schemas exampleSchemasDb) = Some 0"
    by code_simp
  have b3: "typeKinds (tr_kind emailRow) = Some Domain"
    by code_simp
  have c1: "getMaybeRef (\<lambda>s. sr_oid (s_row s)) (tr_schemaOid (emailRow\<lparr>tr_schemaOid := 9999\<rparr>))
       (db_systemSchemas exampleSchemasDb) = None"
    by code_simp
  have c2: "getMaybeRef (\<lambda>s. sr_oid (s_row s)) (tr_schemaOid (emailRow\<lparr>tr_schemaOid := 9999\<rparr>))
       (db_schemas exampleSchemasDb) = None"
    by code_simp
  have r1: "\<exists>db'. addTypes_row exampleSchemasDb int4Row = Inr db'
        \<and> typeStore db' = typeStore exampleSchemasDb @ [newType int4Row BaseType (SystemSchema 0)]
        \<and> s_typesIncludingEntities (db_systemSchemas db' ! 0)
            = s_typesIncludingEntities (db_systemSchemas exampleSchemasDb ! 0)
              @ [length (typeStore exampleSchemasDb)]
        \<and> db_schemas db' = db_schemas exampleSchemasDb"
    using addTypes_row_schema [where db = exampleSchemasDb and row = int4Row,
        THEN conjunct1, rule_format, of 0 BaseType] a1 a2
    by blast
  have r2: "\<exists>db'. addTypes_row exampleSchemasDb emailRow = Inr db'
        \<and> typeStore db' = typeStore exampleSchemasDb @ [newType emailRow Domain (UserSchema 0)]
        \<and> s_typesIncludingEntities (db_schemas db' ! 0)
            = s_typesIncludingEntities (db_schemas exampleSchemasDb ! 0)
              @ [length (typeStore exampleSchemasDb)]
        \<and> db_systemSchemas db' = db_systemSchemas exampleSchemasDb"
    using addTypes_row_schema [where db = exampleSchemasDb and row = emailRow,
        THEN conjunct2, THEN conjunct1, rule_format, of 0 Domain] b1 b2 b3
    by blast
  have r3: "addTypes_row exampleSchemasDb (emailRow\<lparr>tr_schemaOid := 9999\<rparr>) = Inl NotFound"
    using addTypes_row_schema [where db = exampleSchemasDb
        and row = "emailRow\<lparr>tr_schemaOid := 9999\<rparr>", THEN conjunct2, THEN conjunct2] c1 c2
    by blast
  from a1 a2 r1 b1 b2 b3 r2 c1 c2 r3 show ?thesis by (intro conjI)
qed

section \<open>Constraint rows of tables that are not loaded\<close>

text \<open>
  C10. For a constraint row whose \<open>tableOid\<close> resolves to no loaded table: unless its
  \<open>typeOid\<close> resolves to a type and its kind is c, the row is skipped, the graph is
  left as it is and nothing is thrown; and when the \<open>typeOid\<close> resolves to a domain and
  the kind is c, a check constraint of that domain is constructed and pushed to the
  domain's check constraints, and nothing else changes.
\<close>

theorem addConstraints_row_unloaded_table:
  assumes "tables_getMaybe db (kr_tableOid row) = None"
  shows "(\<not> (typesIncludingEntities_getMaybe db (kr_typeOid row) \<noteq> None \<and> kr_kind row = CHR ''c'')
           \<longrightarrow> addConstraints_row db row = Inr db)
       \<and> (\<forall>d. typesIncludingEntities_getMaybe db (kr_typeOid row) = Some d
              \<and> kr_kind row = CHR ''c'' \<and> t_kind (typeStore db ! d) = Domain
           \<longrightarrow> (\<exists>db'. addConstraints_row db row = Inr db'
                 \<and> t_checkConstraints (typeStore db' ! d)
                     = t_checkConstraints (typeStore db ! d)
                       @ [CheckConstraint row (OfDomain d) (kr_checkConstraintExpression row)]
                 \<and> (\<forall>j. j \<noteq> d \<longrightarrow> typeStore db' ! j = typeStore db ! j)
                 \<and> entityStore db' = entityStore db
                 \<and> db_schemas db' = db_schemas db
                 \<and> db_systemSchemas db' = db_systemSchemas db))"
proof (intro conjI allI impI)
  assume "\<not> (typesIncludingEntities_getMaybe db (kr_typeOid row) \<noteq> None \<and> kr_kind row = CHR ''c'')"
  with assms show "addConstraints_row db row = Inr db"
    by (auto simp: addConstraints_row_def Let_def split: option.splits)
next
  fix d
  assume h: "typesIncludingEntities_getMaybe db (kr_typeOid row) = Some d
              \<and> kr_kind row = CHR ''c'' \<and> t_kind (typeStore db ! d) = Domain"
  then have d: "d < length (typeStore db)"
    using typesIncludingEntities_getMaybe_Some by blast
  from assms h d show "\<exists>db'. addConstraints_row db row = Inr db'
                 \<and> t_checkConstraints (typeStore db' ! d)
                     = t_checkConstraints (typeStore db ! d)
                       @ [CheckConstraint row (OfDomain d) (kr_checkConstraintExpression row)]
                 \<and> (\<forall>j. j \<noteq> d \<longrightarrow> typeStore db' ! j = typeStore db ! j)
                 \<and> entityStore db' = entityStore db
                 \<and> db_schemas db' = db_schemas db
                 \<and> db_systemSchemas db' = db_systemSchemas db"
    by (simp add: addConstraints_row_def Let_def pushCheckConstraint_def updType_def)
qed

theorem addConstraints_row_unloaded_table_witness:
  "tables_getMaybe exampleIndexesDb (kr_tableOid emailCheckRow) = None
   \<and> typesIncludingEntities_getMaybe exampleIndexesDb (kr_typeOid emailCheckRow) = Some 1
   \<and> kr_kind emailCheckRow = CHR ''c''
   \<and> t_kind (typeStore exampleIndexesDb ! 1) = Domain
   \<and> (\<exists>db'. addConstraints_row exampleIndexesDb emailCheckRow = Inr db'
        \<and> t_checkConstraints (typeStore db' ! 1)
            = t_checkConstraints (typeStore exampleIndexesDb ! 1)
              @ [CheckConstraint emailCheckRow (OfDomain 1)
                   (kr_checkConstraintExpression emailCheckRow)]
        \<and> entityStore db' = entityStore exampleIndexesDb)
   \<and> tables_getMaybe exampleIndexesDb (kr_tableOid (emailCheckRow\<lparr>kr_kind := CHR ''u''\<rparr>)) = None
   \<and> \<not> (typesIncludingEntities_getMaybe exampleIndexesDb
            (kr_typeOid (emailCheckRow\<lparr>kr_kind := CHR ''u''\<rparr>)) \<noteq> None
          \<and> kr_kind (emailCheckRow\<lparr>kr_kind := CHR ''u''\<rparr>) = CHR ''c'')
   \<and> addConstraints_row exampleIndexesDb (emailCheckRow\<lparr>kr_kind := CHR ''u''\<rparr>)
       = Inr exampleIndexesDb"
proof -
  have a1: "tables_getMaybe exampleIndexesDb (kr_tableOid emailCheckRow) = None"
    by code_simp
  have a2: "typesIncludingEntities_getMaybe exampleIndexesDb (kr_typeOid emailCheckRow) = Some 1"
    by code_simp
  have a3: "kr_kind emailCheckRow = CHR ''c''"
    by code_simp
  have a4: "t_kind (typeStore exampleIndexesDb ! 1) = Domain"
    by code_simp
  have b1: "tables_getMaybe exampleIndexesDb (kr_tableOid (emailCheckRow\<lparr>kr_kind := CHR ''u''\<rparr>))
      = None"
    by code_simp
  have b2: "\<not> (typesIncludingEntities_getMaybe exampleIndexesDb
            (kr_typeOid (emailCheckRow\<lparr>kr_kind := CHR ''u''\<rparr>)) \<noteq> None
          \<and> kr_kind (emailCheckRow\<lparr>kr_kind := CHR ''u''\<rparr>) = CHR ''c'')"
    by simp
  have r1: "\<exists>db'. addConstraints_row exampleIndexesDb emailCheckRow = Inr db'
        \<and> t_checkConstraints (typeStore db' ! 1)
            = t_checkConstraints (typeStore exampleIndexesDb ! 1)
              @ [CheckConstraint emailCheckRow (OfDomain 1)
                   (kr_checkConstraintExpression emailCheckRow)]
        \<and> entityStore db' = entityStore exampleIndexesDb"
    using addConstraints_row_unloaded_table [OF a1, THEN conjunct2, rule_format, of 1] a2 a3 a4
    by blast
  have r2: "addConstraints_row exampleIndexesDb (emailCheckRow\<lparr>kr_kind := CHR ''u''\<rparr>)
       = Inr exampleIndexesDb"
    using addConstraints_row_unloaded_table [OF b1, THEN conjunct1] b2 by blast
  from a1 a2 a3 a4 r1 b1 b2 r2 show ?thesis by (intro conjI)
qed

section \<open>What the assembler leaves unchanged\<close>

lemma forEach_preserves:
  assumes step: "\<And>s x s'. f s x = Inr s' \<Longrightarrow> Q s \<Longrightarrow> Q s'"
  shows "Q s \<Longrightarrow> forEach f s xs = Inr s' \<Longrightarrow> Q s'"
proof (induction xs arbitrary: s)
  case Nil
  then show ?case by simp
next
  case (Cons x xs)
  from Cons.prems(2) obtain s1 where s1: "f s x = Inr s1" "forEach f s1 xs = Inr s'"
    by (auto split: sum.splits)
  from step [OF s1(1) Cons.prems(1)] have "Q s1" .
  from Cons.IH [OF this s1(2)] show ?case .
qed

text \<open>Each row of each phase changes the graph by one of a few updates, or not at all.\<close>

lemma addTypes_row_cases:
  assumes "addTypes_row db row = Inr db'"
  shows "\<exists>t i. t_row t = row \<and> t_columns t = [] \<and> t_checkConstraints t = []
           \<and> (db' = updSystemSchema i (pushTypesIncludingEntities (length (typeStore db)))
                       (db\<lparr>typeStore := typeStore db @ [t]\<rparr>)
             \<or> db' = updSchema i (pushTypesIncludingEntities (length (typeStore db)))
                       (db\<lparr>typeStore := typeStore db @ [t]\<rparr>))"
proof -
  from assms obtain sref k where s: "typeSchema db (tr_schemaOid row) = Inr sref"
    and k: "typeKinds (tr_kind row) = Some k"
    by (auto simp: addTypes_row_def split: sum.splits option.splits)
  have t: "t_row (newType row k sref) = row \<and> t_columns (newType row k sref) = []
      \<and> t_checkConstraints (newType row k sref) = []"
    by (simp add: newType_def)
  show ?thesis
  proof (cases sref)
    case (SystemSchema i)
    with assms s k have "db' = updSystemSchema i (pushTypesIncludingEntities (length (typeStore db)))
                       (db\<lparr>typeStore := typeStore db @ [newType row k sref]\<rparr>)"
      by (simp add: addTypes_row_def Let_def)
    with t show ?thesis by blast
  next
    case (UserSchema i)
    with assms s k have "db' = updSchema i (pushTypesIncludingEntities (length (typeStore db)))
                       (db\<lparr>typeStore := typeStore db @ [newType row k sref]\<rparr>)"
      by (simp add: addTypes_row_def Let_def)
    with t show ?thesis by blast
  qed
qed

lemma addEntities_row_cases:
  assumes "addEntities_row db row = Inr db'"
  shows "(entityKindOf (er_kind row) = None \<and> db' = db)
       \<or> (\<exists>k si. entityKindOf (er_kind row) = Some k \<and> db' = createEntity k si row db)"
  using assms by (auto simp: addEntities_row_def entityKindOf_def split: sum.splits if_splits)

lemma addColumns_row_cases:
  assumes "addColumns_row db row = Inr db'"
  shows "\<exists>r c. c_row c = row
           \<and> (r < length (typeStore db) \<and> db' = pushTypeColumn r c db
              \<or> r < length (entityStore db) \<and> db' = pushColumn r c db)"
proof (cases "cr_parentKind row = CHR ''c''")
  case True
  with assms obtain r where r: "typesIncludingEntities_get_classOid db (cr_parentOid row) = Inr r"
    and db': "db' = pushTypeColumn r \<lparr>c_row = row, c_parent = TypeParent r\<rparr> db"
    by (auto simp: addColumns_row_def split: sum.splits if_splits)
  from r have "r < length (typeStore db)"
    unfolding typesIncludingEntities_get_classOid_def
    by (auto simp: getRef_Inr dest: getMaybeRef_Some)
  with db' show ?thesis by (intro exI [of _ r] exI [of _ "\<lparr>c_row = row, c_parent = TypeParent r\<rparr>"]) simp
next
  case False
  with assms obtain r where r: "entities_get db (cr_parentOid row) = Inr r"
    and db': "db' = pushColumn r \<lparr>c_row = row, c_parent = EntityParent r\<rparr> db"
    by (auto simp: addColumns_row_def split: sum.splits if_splits)
  from r have "r < length (entityStore db)" using entities_get_Inr by blast
  with db' show ?thesis by (intro exI [of _ r] exI [of _ "\<lparr>c_row = row, c_parent = EntityParent r\<rparr>"]) simp
qed

lemma addIndexes_row_cases:
  assumes "addIndexes_row db row = Inr db'"
  shows "\<exists>p. entities_get db (ir_tableOid row) = Inr p \<and> p < length (entityStore db)
           \<and> db' = pushIndex p (buildIndex db p row) db"
proof -
  from assms obtain p where p: "entities_get db (ir_tableOid row) = Inr p"
    and db': "db' = pushIndex p (buildIndex db p row) db"
    by (auto simp: addIndexes_row_def split: sum.splits if_splits)
  from p have "p < length (entityStore db)" using entities_get_Inr by blast
  with p db' show ?thesis by blast
qed

lemma addForeignKey_cases:
  assumes "addForeignKey db row t idx = Inr db'"
  shows "db' = db
       \<or> (\<exists>c r. constraintRow c = row \<and> db' = pushForeignKeysToThis r c (pushConstraint t c db))"
proof (cases idx)
  case None
  with assms show ?thesis by (simp add: addForeignKey_def)
next
  case (Some i)
  with assms obtain cols where
    "db' = pushForeignKeysToThis (referencedTable (newForeignKey row t i cols))
             (newForeignKey row t i cols) (pushConstraint t (newForeignKey row t i cols) db)"
    by (auto simp: addForeignKey_def Let_def split: sum.splits if_splits)
  moreover have "constraintRow (newForeignKey row t i cols) = row"
    by (simp add: newForeignKey_def)
  ultimately show ?thesis by blast
qed

lemma addConstraints_row_cases:
  assumes "addConstraints_row db row = Inr db'"
  shows "db' = db
       \<or> (\<exists>t c. t < length (entityStore db) \<and> constraintRow c = row \<and> db' = pushConstraint t c db)
       \<or> (\<exists>t c r. t < length (entityStore db) \<and> constraintRow c = row
             \<and> db' = pushForeignKeysToThis r c (pushConstraint t c db))
       \<or> (\<exists>d c. d < length (typeStore db) \<and> constraintRow c = row
             \<and> db' = pushCheckConstraint d c db)"
proof (cases "tables_getMaybe db (kr_tableOid row)")
  case None
  show ?thesis
  proof (cases "typesIncludingEntities_getMaybe db (kr_typeOid row)")
    case None
    with \<open>tables_getMaybe db (kr_tableOid row) = None\<close> assms have "db' = db"
      by (simp add: addConstraints_row_def)
    then show ?thesis by blast
  next
    case (Some d)
    then have d: "d < length (typeStore db)"
      using typesIncludingEntities_getMaybe_Some by blast
    from Some \<open>tables_getMaybe db (kr_tableOid row) = None\<close> assms
    have "db' = db \<or> db' = pushCheckConstraint d
             (CheckConstraint row (OfDomain d) (kr_checkConstraintExpression row)) db"
      by (auto simp: addConstraints_row_def split: if_splits)
    moreover have "constraintRow
        (CheckConstraint row (OfDomain d) (kr_checkConstraintExpression row)) = row"
      by simp
    ultimately show ?thesis using d by blast
  qed
next
  case (Some t)
  then have t: "t < length (entityStore db)" using tables_getMaybe_Some by blast
  show ?thesis
  proof (cases "kr_kind row = CHR ''f''")
    case True
    with Some assms have "addForeignKey db row t (indexes_getMaybe db (kr_indexOid row)) = Inr db'"
      by (simp add: addConstraints_row_def Let_def)
    from addForeignKey_cases [OF this] t show ?thesis by blast
  next
    case False
    with Some assms have "db' = db
        \<or> db' = pushConstraint t (PrimaryKey row (indexes_getMaybe db (kr_indexOid row)) t) db
        \<or> db' = pushConstraint t (UniqueConstraint
                   (newUniqueConstraint row (indexes_getMaybe db (kr_indexOid row)) t)) db
        \<or> db' = pushConstraint t (ExclusionConstraint row (indexes_getMaybe db (kr_indexOid row)) t) db
        \<or> db' = pushConstraint t (CheckConstraint row (OfTable t) (kr_checkConstraintExpression row)) db"
      by (auto simp: addConstraints_row_def Let_def split: if_splits)
    moreover have "constraintRow (PrimaryKey row (indexes_getMaybe db (kr_indexOid row)) t) = row"
      "constraintRow (UniqueConstraint
          (newUniqueConstraint row (indexes_getMaybe db (kr_indexOid row)) t)) = row"
      "constraintRow (ExclusionConstraint row (indexes_getMaybe db (kr_indexOid row)) t) = row"
      "constraintRow (CheckConstraint row (OfTable t) (kr_checkConstraintExpression row)) = row"
      by (simp_all add: newUniqueConstraint_def)
    ultimately show ?thesis using t by blast
  qed
qed

lemma addFunctions_row_cases:
  assumes "addFunctions_row db row = Inr db'"
  shows "(functionKindOf (fr_kind row) = None \<and> db' = db)
       \<or> (\<exists>k si. functionKindOf (fr_kind row) = Some k \<and> si < length (db_schemas db)
             \<and> db' = createFunction k si row db)"
proof -
  from assms obtain si where
    si: "getRef (\<lambda>s. sr_oid (s_row s)) (fr_schemaOid row) (db_schemas db) = Inr si"
    by (auto simp: addFunctions_row_def split: sum.splits)
  then have "si < length (db_schemas db)"
    by (auto simp: getRef_Inr dest: getMaybeRef_Some)
  with assms si show ?thesis
    by (auto simp: addFunctions_row_def functionKindOf_def split: if_splits)
qed

lemma addTriggers_row_cases:
  assumes "addTriggers_row db row = Inr db'"
  shows "\<exists>r g. r < length (entityStore db) \<and> g_row g = row \<and> db' = pushTrigger r g db"
proof -
  from assms obtain r f where r: "entities_get db (gr_entityOid row) = Inr r"
    and db': "db' = pushTrigger r \<lparr>g_row = row, g_function = f, g_parent = r\<rparr> db"
    by (auto simp: addTriggers_row_def split: sum.splits if_splits)
  from r have "r < length (entityStore db)" using entities_get_Inr by blast
  with db' show ?thesis
    by (intro exI [of _ r] exI [of _ "\<lparr>g_row = row, g_function = f, g_parent = r\<rparr>"]) simp
qed

text \<open>The phases of \<open>addObjects\<close>, one after the other.\<close>

lemma addObjects_untilIndexes_Inr:
  assumes "addObjects_untilIndexes db qr = Inr d4"
  shows "\<exists>d1 d2 d3.
      addTypes (addSystemSchemas (addSchemas db (qr_schemas qr)) (qr_systemSchemas qr))
        (qr_types qr) = Inr d1
    \<and> addEntities d1 (qr_entities qr) = Inr d2
    \<and> addColumns d2 (qr_columns qr) = Inr d3
    \<and> addIndexes d3 (qr_indexes qr) = Inr d4"
proof -
  from assms [unfolded addObjects_untilIndexes_def] obtain d1 where
    1: "addTypes (addSystemSchemas (addSchemas db (qr_schemas qr)) (qr_systemSchemas qr))
          (qr_types qr) = Inr d1"
    and r1: "andThen (addEntities d1 (qr_entities qr))
       (\<lambda>db. andThen (addColumns db (qr_columns qr))
       (\<lambda>db. addIndexes db (qr_indexes qr))) = Inr d4"
    by (rule andThen_Inr [THEN exE]) blast
  from r1 obtain d2 where 2: "addEntities d1 (qr_entities qr) = Inr d2"
    and r2: "andThen (addColumns d2 (qr_columns qr))
       (\<lambda>db. addIndexes db (qr_indexes qr)) = Inr d4"
    by (rule andThen_Inr [THEN exE]) blast
  from r2 obtain d3 where 3: "addColumns d2 (qr_columns qr) = Inr d3"
    and 4: "addIndexes d3 (qr_indexes qr) = Inr d4"
    by (rule andThen_Inr [THEN exE]) blast
  from 1 2 3 4 show ?thesis by blast
qed

lemma addObjects_split:
  "addObjects db qr =
     andThen (addObjects_untilIndexes db qr)
       (\<lambda>db. andThen (addConstraints db (qr_constraints qr))
       (\<lambda>db. andThen (addFunctions db (qr_functions qr))
       (\<lambda>db. addTriggers db (qr_triggers qr))))"
  by (simp add: addObjects_def addObjects_untilIndexes_def andThen_def split: sum.splits)

lemma addObjects_Inr:
  assumes "addObjects db qr = Inr db'"
  shows "\<exists>d4 d5 d6.
      addObjects_untilIndexes db qr = Inr d4
    \<and> addConstraints d4 (qr_constraints qr) = Inr d5
    \<and> addFunctions d5 (qr_functions qr) = Inr d6
    \<and> addTriggers d6 (qr_triggers qr) = Inr db'"
proof -
  from assms [unfolded addObjects_split] obtain d4 where
    4: "addObjects_untilIndexes db qr = Inr d4"
    and r4: "andThen (addConstraints d4 (qr_constraints qr))
       (\<lambda>db. andThen (addFunctions db (qr_functions qr))
       (\<lambda>db. addTriggers db (qr_triggers qr))) = Inr db'"
    by (rule andThen_Inr [THEN exE]) blast
  from r4 obtain d5 where 5: "addConstraints d4 (qr_constraints qr) = Inr d5"
    and r5: "andThen (addFunctions d5 (qr_functions qr))
       (\<lambda>db. addTriggers db (qr_triggers qr)) = Inr db'"
    by (rule andThen_Inr [THEN exE]) blast
  from r5 obtain d6 where 6: "addFunctions d5 (qr_functions qr) = Inr d6"
    and 7: "addTriggers d6 (qr_triggers qr) = Inr db'"
    by (rule andThen_Inr [THEN exE]) blast
  from 4 5 6 7 show ?thesis by blast
qed

subsection \<open>The constructor arguments\<close>

lemma constructorArguments_updSchema [simp]:
  "constructorArguments (updSchema i f db) = constructorArguments db"
  by (simp add: constructorArguments_def updSchema_def snapshotOf_def)

lemma constructorArguments_updSystemSchema [simp]:
  "constructorArguments (updSystemSchema i f db) = constructorArguments db"
  by (simp add: constructorArguments_def updSystemSchema_def snapshotOf_def)

lemma constructorArguments_updType [simp]:
  "constructorArguments (updType i f db) = constructorArguments db"
  by (simp add: constructorArguments_def updType_def snapshotOf_def)

lemma constructorArguments_updEntity [simp]:
  "constructorArguments (updEntity i f db) = constructorArguments db"
  by (simp add: constructorArguments_def updEntity_def snapshotOf_def)

lemma constructorArguments_typeStore [simp]:
  "constructorArguments (db\<lparr>typeStore := x\<rparr>) = constructorArguments db"
  by (simp add: constructorArguments_def snapshotOf_def)

lemma constructorArguments_entityStore [simp]:
  "constructorArguments (db\<lparr>entityStore := x\<rparr>) = constructorArguments db"
  by (simp add: constructorArguments_def snapshotOf_def)

lemma constructorArguments_schemas [simp]:
  "constructorArguments (db\<lparr>db_schemas := x\<rparr>) = constructorArguments db"
  by (simp add: constructorArguments_def snapshotOf_def)

lemma constructorArguments_systemSchemas [simp]:
  "constructorArguments (db\<lparr>db_systemSchemas := x\<rparr>) = constructorArguments db"
  by (simp add: constructorArguments_def snapshotOf_def)

lemma constructorArguments_addSchemas:
  "constructorArguments (addSchemas db rows) = constructorArguments db"
  unfolding addSchemas_def by (induction rows arbitrary: db) simp_all

lemma constructorArguments_addSystemSchemas:
  "constructorArguments (addSystemSchemas db rows) = constructorArguments db"
  unfolding addSystemSchemas_def by (induction rows arbitrary: db) simp_all

lemma constructorArguments_addTypes_row:
  "addTypes_row db row = Inr db' \<Longrightarrow> constructorArguments db' = constructorArguments db"
  by (drule addTypes_row_cases) auto

lemma constructorArguments_addEntities_row:
  "addEntities_row db row = Inr db' \<Longrightarrow> constructorArguments db' = constructorArguments db"
  by (drule addEntities_row_cases) (auto simp: createEntity_def)

lemma constructorArguments_addColumns_row:
  "addColumns_row db row = Inr db' \<Longrightarrow> constructorArguments db' = constructorArguments db"
  by (drule addColumns_row_cases) (auto simp: pushTypeColumn_def pushColumn_def)

lemma constructorArguments_addIndexes_row:
  "addIndexes_row db row = Inr db' \<Longrightarrow> constructorArguments db' = constructorArguments db"
  by (drule addIndexes_row_cases) (auto simp: pushIndex_def)

lemma constructorArguments_addConstraints_row:
  "addConstraints_row db row = Inr db' \<Longrightarrow> constructorArguments db' = constructorArguments db"
  by (drule addConstraints_row_cases)
    (auto simp: pushConstraint_def pushForeignKeysToThis_def pushCheckConstraint_def)

lemma constructorArguments_addFunctions_row:
  "addFunctions_row db row = Inr db' \<Longrightarrow> constructorArguments db' = constructorArguments db"
  by (drule addFunctions_row_cases) (auto simp: createFunction_def)

lemma constructorArguments_addTriggers_row:
  "addTriggers_row db row = Inr db' \<Longrightarrow> constructorArguments db' = constructorArguments db"
  by (drule addTriggers_row_cases) (auto simp: pushTrigger_def)

lemma constructorArguments_forEach:
  assumes step: "\<And>s x s'. f s x = Inr s' \<Longrightarrow> constructorArguments s' = constructorArguments s"
  shows "forEach f s xs = Inr s' \<Longrightarrow> constructorArguments s' = constructorArguments s"
proof (induction xs arbitrary: s)
  case Nil
  then show ?case by simp
next
  case (Cons x xs)
  from Cons.prems obtain s1 where s1: "f s x = Inr s1" "forEach f s1 xs = Inr s'"
    by (auto split: sum.splits)
  from Cons.IH [OF s1(2)] step [OF s1(1)] show ?case by simp
qed

lemma constructorArguments_addObjects:
  assumes "addObjects db qr = Inr db'"
  shows "constructorArguments db' = constructorArguments db"
proof -
  from addObjects_Inr [OF assms] obtain d4 d5 d6 where
    u: "addObjects_untilIndexes db qr = Inr d4"
    and 5: "addConstraints d4 (qr_constraints qr) = Inr d5"
    and 6: "addFunctions d5 (qr_functions qr) = Inr d6"
    and 7: "addTriggers d6 (qr_triggers qr) = Inr db'"
    by blast
  from addObjects_untilIndexes_Inr [OF u] obtain d1 d2 d3 where
    1: "addTypes (addSystemSchemas (addSchemas db (qr_schemas qr)) (qr_systemSchemas qr))
          (qr_types qr) = Inr d1"
    and 2: "addEntities d1 (qr_entities qr) = Inr d2"
    and 3: "addColumns d2 (qr_columns qr) = Inr d3"
    and 4: "addIndexes d3 (qr_indexes qr) = Inr d4"
    by blast
  have "constructorArguments d1 = constructorArguments db"
    using constructorArguments_forEach [OF constructorArguments_addTypes_row 1 [unfolded addTypes_def]]
    by (simp add: constructorArguments_addSchemas constructorArguments_addSystemSchemas)
  moreover have "constructorArguments d2 = constructorArguments d1"
    using constructorArguments_forEach
      [OF constructorArguments_addEntities_row 2 [unfolded addEntities_def]] .
  moreover have "constructorArguments d3 = constructorArguments d2"
    using constructorArguments_forEach
      [OF constructorArguments_addColumns_row 3 [unfolded addColumns_def]] .
  moreover have "constructorArguments d4 = constructorArguments d3"
    using constructorArguments_forEach
      [OF constructorArguments_addIndexes_row 4 [unfolded addIndexes_def]] .
  moreover have "constructorArguments d5 = constructorArguments d4"
    using constructorArguments_forEach
      [OF constructorArguments_addConstraints_row 5 [unfolded addConstraints_def]] .
  moreover have "constructorArguments d6 = constructorArguments d5"
    using constructorArguments_forEach
      [OF constructorArguments_addFunctions_row 6 [unfolded addFunctions_def]] .
  moreover have "constructorArguments db' = constructorArguments d6"
    using constructorArguments_forEach
      [OF constructorArguments_addTriggers_row 7 [unfolded addTriggers_def]] .
  ultimately show ?thesis by simp
qed

subsection \<open>The parents of the indexes\<close>

lemma entityStore_addSchemas: "entityStore (addSchemas db rows) = entityStore db"
  unfolding addSchemas_def by (induction rows arbitrary: db) simp_all

lemma entityStore_addSystemSchemas: "entityStore (addSystemSchemas db rows) = entityStore db"
  unfolding addSystemSchemas_def by (induction rows arbitrary: db) simp_all

lemma indexesOfParents_updEntity:
  assumes "indexesOfParents db" and "\<And>e. e_indexes (f e) = e_indexes e"
  shows "indexesOfParents (updEntity r f db)"
proof (cases "r < length (entityStore db)")
  case True
  with assms show ?thesis
    by (auto simp: indexesOfParents_def updEntity_def nth_list_update)
next
  case False
  with assms show ?thesis
    by (simp add: indexesOfParents_def updEntity_def list_update_beyond)
qed

lemma indexesOfParents_pushColumn:
  "indexesOfParents db \<Longrightarrow> indexesOfParents (pushColumn r c db)"
  unfolding pushColumn_def by (rule indexesOfParents_updEntity) simp_all

lemma indexesOfParents_pushConstraint:
  "indexesOfParents db \<Longrightarrow> indexesOfParents (pushConstraint t c db)"
  unfolding pushConstraint_def by (rule indexesOfParents_updEntity) simp_all

lemma indexesOfParents_pushForeignKeysToThis:
  "indexesOfParents db \<Longrightarrow> indexesOfParents (pushForeignKeysToThis t c db)"
  unfolding pushForeignKeysToThis_def by (rule indexesOfParents_updEntity) simp_all

lemma indexesOfParents_pushCheckConstraint:
  "indexesOfParents db \<Longrightarrow> indexesOfParents (pushCheckConstraint t c db)"
  by (simp add: pushCheckConstraint_def indexesOfParents_def updType_def)

lemma indexesOfParents_pushTypeColumn:
  "indexesOfParents db \<Longrightarrow> indexesOfParents (pushTypeColumn t c db)"
  by (simp add: pushTypeColumn_def indexesOfParents_def updType_def)

lemma indexesOfParents_createEntity:
  "indexesOfParents db \<Longrightarrow> indexesOfParents (createEntity k si row db)"
  by (auto simp: createEntity_def updSchema_def indexesOfParents_def newEntity_def nth_append
      less_Suc_eq)

lemma indexesOfParents_pushIndex:
  assumes "indexesOfParents db" and "i_parent i = p"
  shows "indexesOfParents (pushIndex p i db)"
proof (cases "p < length (entityStore db)")
  case True
  with assms show ?thesis
    by (auto simp: indexesOfParents_def pushIndex_def updEntity_def nth_list_update)
next
  case False
  with assms show ?thesis
    by (simp add: indexesOfParents_def pushIndex_def updEntity_def list_update_beyond)
qed

lemma indexesOfParents_addTypes_row:
  "addTypes_row db row = Inr db' \<Longrightarrow> indexesOfParents db \<Longrightarrow> indexesOfParents db'"
  by (drule addTypes_row_cases)
    (auto simp: indexesOfParents_def updSchema_def updSystemSchema_def)

lemma indexesOfParents_addEntities_row:
  "addEntities_row db row = Inr db' \<Longrightarrow> indexesOfParents db \<Longrightarrow> indexesOfParents db'"
  by (drule addEntities_row_cases) (auto simp: indexesOfParents_createEntity)

lemma indexesOfParents_addColumns_row:
  "addColumns_row db row = Inr db' \<Longrightarrow> indexesOfParents db \<Longrightarrow> indexesOfParents db'"
  by (drule addColumns_row_cases)
    (auto simp: indexesOfParents_pushColumn indexesOfParents_pushTypeColumn)

lemma indexesOfParents_addIndexes_row:
  assumes "addIndexes_row db row = Inr db'" and "indexesOfParents db"
  shows "indexesOfParents db'"
proof -
  from addIndexes_row_cases [OF assms(1)] obtain p where
    db': "db' = pushIndex p (buildIndex db p row) db"
    by blast
  have "i_parent (buildIndex db p row) = p" by (simp add: buildIndex_def)
  from indexesOfParents_pushIndex [OF assms(2) this] db' show ?thesis by simp
qed

lemma indexesOfParents_addConstraints_row:
  assumes "addConstraints_row db row = Inr db'" and "indexesOfParents db"
  shows "indexesOfParents db'"
  using addConstraints_row_cases [OF assms(1)] assms(2)
  by (auto simp: indexesOfParents_pushConstraint indexesOfParents_pushForeignKeysToThis
      indexesOfParents_pushCheckConstraint)

lemma indexesOfParents_untilIndexes:
  assumes "addObjects_untilIndexes (newDb nm ver cfg qr naming) qr' = Inr db"
  shows "indexesOfParents db"
proof -
  let ?new = "newDb nm ver cfg qr naming"
  from addObjects_untilIndexes_Inr [OF assms] obtain d1 d2 d3 where
    1: "addTypes (addSystemSchemas (addSchemas ?new (qr_schemas qr')) (qr_systemSchemas qr'))
          (qr_types qr') = Inr d1"
    and 2: "addEntities d1 (qr_entities qr') = Inr d2"
    and 3: "addColumns d2 (qr_columns qr') = Inr d3"
    and 4: "addIndexes d3 (qr_indexes qr') = Inr db"
    by blast
  have "indexesOfParents (addSystemSchemas (addSchemas ?new (qr_schemas qr')) (qr_systemSchemas qr'))"
    by (simp add: indexesOfParents_def entityStore_addSchemas entityStore_addSystemSchemas
        newDb_def)
  from forEach_preserves [where Q = indexesOfParents, OF indexesOfParents_addTypes_row this
      1 [unfolded addTypes_def]]
  have "indexesOfParents d1" .
  from forEach_preserves [where Q = indexesOfParents, OF indexesOfParents_addEntities_row this
      2 [unfolded addEntities_def]]
  have "indexesOfParents d2" .
  from forEach_preserves [where Q = indexesOfParents, OF indexesOfParents_addColumns_row this
      3 [unfolded addColumns_def]]
  have "indexesOfParents d3" .
  from forEach_preserves [where Q = indexesOfParents, OF indexesOfParents_addIndexes_row this
      4 [unfolded addIndexes_def]]
  show ?thesis .
qed

text \<open>
  In every state that \<open>addConstraints\<close> sees during an assembly, an index that
  \<open>db.indexes\<close> finds is held by the entity it names as its parent, and that entity is
  a table.
\<close>

lemma indexesOfParents_duringConstraints: "duringConstraints db \<Longrightarrow> indexesOfParents db"
proof (induction rule: duringConstraints.induct)
  case (afterIndexes nm ver cfg qr naming db)
  then show ?case by (rule indexesOfParents_untilIndexes)
next
  case (afterRow db row db')
  from indexesOfParents_addConstraints_row [OF afterRow.hyps(2) afterRow.IH] show ?case .
qed

lemma indexes_getMaybe_owner:
  assumes "indexesOfParents db" and "indexes_getMaybe db k = Some i"
  shows "i_parent i < length (entityStore db) \<and> e_kind (entityStore db ! i_parent i) = Table
       \<and> i \<in> set (e_indexes (entityStore db ! i_parent i))"
proof -
  from assms(2) have "i \<in> set (db_indexes db)"
    unfolding indexes_getMaybe_def using getMaybe_Some by fastforce
  then obtain e where e: "e \<in> set (entityStore db)" "e_kind e = Table" "i \<in> set (e_indexes e)"
    by (auto simp: db_indexes_def)
  from e(1) obtain p where p: "p < length (entityStore db)" "entityStore db ! p = e"
    by (auto simp: in_set_conv_nth)
  with assms(1) e(3) have "i_parent i = p" by (auto simp: indexesOfParents_def)
  with p e show ?thesis by simp
qed

section \<open>Foreign-key rows\<close>

text \<open>
  C1, as the code has it. For a foreign-key row: if the referenced index does not
  resolve, nothing is created, the graph is left as it is and nothing is thrown. If
  the index resolves in a state of the constraint phase of an assembly, the owning
  table resolves and every constrained column position has a column of the owning
  table, then the index is held by a table, the referenced table, and one foreign key
  is constructed (from the row, the owning table, the index, those columns and the
  mapped actions and match type); it is appended to the constraints of the owning
  table and once to \<open>foreignKeysToThis\<close> of the referenced table, and nothing else in
  the graph changes.
\<close>

theorem addConstraints_foreignKey_row:
  assumes "kr_kind row = CHR ''f''"
  shows "(indexes_getMaybe db (kr_indexOid row) = None \<longrightarrow> addConstraints_row db row = Inr db)
       \<and> (\<forall>t i cols. duringConstraints db
              \<and> tables_getMaybe db (kr_tableOid row) = Some t
              \<and> indexes_getMaybe db (kr_indexOid row) = Some i
              \<and> constrainedColumns (e_columns (entityStore db ! t))
                    (kr_constrainedColumnPositions row) = Inr cols
           \<longrightarrow> i_parent i < length (entityStore db)
               \<and> e_kind (entityStore db ! i_parent i) = Table
               \<and> i \<in> set (e_indexes (entityStore db ! i_parent i))
               \<and> (\<exists>db'. addConstraints_row db row = Inr db'
                 \<and> typeStore db' = typeStore db
                 \<and> db_schemas db' = db_schemas db
                 \<and> db_systemSchemas db' = db_systemSchemas db
                 \<and> length (entityStore db') = length (entityStore db)
                 \<and> (\<forall>r < length (entityStore db).
                      entityStore db' ! r = (entityStore db ! r)
                        \<lparr>e_constraints := e_constraints (entityStore db ! r)
                            @ (if r = t then [newForeignKey row t i cols] else []),
                         e_foreignKeysToThis := e_foreignKeysToThis (entityStore db ! r)
                            @ (if r = i_parent i then [newForeignKey row t i cols] else [])\<rparr>)))"
proof (rule conjI)
  show "indexes_getMaybe db (kr_indexOid row) = None \<longrightarrow> addConstraints_row db row = Inr db"
  proof (rule impI)
    assume none: "indexes_getMaybe db (kr_indexOid row) = None"
    show "addConstraints_row db row = Inr db"
    proof (cases "tables_getMaybe db (kr_tableOid row)")
      case None
      with assms show ?thesis
        by (auto simp: addConstraints_row_def split: option.splits)
    next
      case (Some t)
      with assms none show ?thesis
        by (simp add: addConstraints_row_def addForeignKey_def)
    qed
  qed
next
  show "\<forall>t i cols. duringConstraints db
              \<and> tables_getMaybe db (kr_tableOid row) = Some t
              \<and> indexes_getMaybe db (kr_indexOid row) = Some i
              \<and> constrainedColumns (e_columns (entityStore db ! t))
                    (kr_constrainedColumnPositions row) = Inr cols
           \<longrightarrow> i_parent i < length (entityStore db)
               \<and> e_kind (entityStore db ! i_parent i) = Table
               \<and> i \<in> set (e_indexes (entityStore db ! i_parent i))
               \<and> (\<exists>db'. addConstraints_row db row = Inr db'
                 \<and> typeStore db' = typeStore db
                 \<and> db_schemas db' = db_schemas db
                 \<and> db_systemSchemas db' = db_systemSchemas db
                 \<and> length (entityStore db') = length (entityStore db)
                 \<and> (\<forall>r < length (entityStore db).
                      entityStore db' ! r = (entityStore db ! r)
                        \<lparr>e_constraints := e_constraints (entityStore db ! r)
                            @ (if r = t then [newForeignKey row t i cols] else []),
                         e_foreignKeysToThis := e_foreignKeysToThis (entityStore db ! r)
                            @ (if r = i_parent i then [newForeignKey row t i cols] else [])\<rparr>))"
  proof (intro allI, rule impI, goal_cases)
    case (1 t i cols)
    then have inv: "indexesOfParents db" by (simp add: indexesOfParents_duringConstraints)
    from 1 have "indexes_getMaybe db (kr_indexOid row) = Some i" by simp
    from indexes_getMaybe_owner [OF inv this]
    have own: "i_parent i < length (entityStore db) \<and> e_kind (entityStore db ! i_parent i) = Table
         \<and> i \<in> set (e_indexes (entityStore db ! i_parent i))" .
    from 1 have t: "t < length (entityStore db)" using tables_getMaybe_Some by blast
    have ref: "referencedTable (newForeignKey row t i cols) = i_parent i"
      by (simp add: referencedTable_def newForeignKey_def)
    from assms 1 t ref own have "\<exists>db'. addConstraints_row db row = Inr db'
                 \<and> typeStore db' = typeStore db
                 \<and> db_schemas db' = db_schemas db
                 \<and> db_systemSchemas db' = db_systemSchemas db
                 \<and> length (entityStore db') = length (entityStore db)
                 \<and> (\<forall>r < length (entityStore db).
                      entityStore db' ! r = (entityStore db ! r)
                        \<lparr>e_constraints := e_constraints (entityStore db ! r)
                            @ (if r = t then [newForeignKey row t i cols] else []),
                         e_foreignKeysToThis := e_foreignKeysToThis (entityStore db ! r)
                            @ (if r = i_parent i then [newForeignKey row t i cols] else [])\<rparr>)"
      by (simp add: addConstraints_row_def Let_def addForeignKey_def pushConstraint_def
          pushForeignKeysToThis_def updEntity_def nth_list_update)
    with own show ?case by (intro conjI) simp_all
  qed
qed

theorem addConstraints_foreignKey_row_witness:
  "kr_kind orderAccountFkeyRow = CHR ''f''
   \<and> duringConstraints exampleIndexesDb
   \<and> tables_getMaybe exampleIndexesDb (kr_tableOid orderAccountFkeyRow) = Some 1
   \<and> (\<exists>i cols. indexes_getMaybe exampleIndexesDb (kr_indexOid orderAccountFkeyRow) = Some i
        \<and> constrainedColumns (e_columns (entityStore exampleIndexesDb ! 1))
              (kr_constrainedColumnPositions orderAccountFkeyRow) = Inr cols
        \<and> i_parent i = 0
        \<and> e_kind (entityStore exampleIndexesDb ! i_parent i) = Table
        \<and> (\<exists>db'. addConstraints_row exampleIndexesDb orderAccountFkeyRow = Inr db'
              \<and> e_constraints (entityStore db' ! 1)
                  = e_constraints (entityStore exampleIndexesDb ! 1)
                    @ [newForeignKey orderAccountFkeyRow 1 i cols]
              \<and> e_constraints (entityStore db' ! 0) = e_constraints (entityStore exampleIndexesDb ! 0)
              \<and> e_foreignKeysToThis (entityStore db' ! 0)
                  = e_foreignKeysToThis (entityStore exampleIndexesDb ! 0)
                    @ [newForeignKey orderAccountFkeyRow 1 i cols]
              \<and> e_foreignKeysToThis (entityStore db' ! 1)
                  = e_foreignKeysToThis (entityStore exampleIndexesDb ! 1)))
   \<and> kr_kind (orderAccountFkeyRow\<lparr>kr_indexOid := 9999\<rparr>) = CHR ''f''
   \<and> indexes_getMaybe exampleIndexesDb (kr_indexOid (orderAccountFkeyRow\<lparr>kr_indexOid := 9999\<rparr>))
       = None
   \<and> addConstraints_row exampleIndexesDb (orderAccountFkeyRow\<lparr>kr_indexOid := 9999\<rparr>)
       = Inr exampleIndexesDb
   \<and> kr_kind (orderAccountFkeyRow\<lparr>kr_indexOid := 210\<rparr>) = CHR ''f''
   \<and> indexes_getMaybe exampleMaterializedViewDb
        (kr_indexOid (orderAccountFkeyRow\<lparr>kr_indexOid := 210\<rparr>)) = None
   \<and> addConstraints_row exampleMaterializedViewDb (orderAccountFkeyRow\<lparr>kr_indexOid := 210\<rparr>)
       = Inr exampleMaterializedViewDb"
proof -
  have k: "kr_kind orderAccountFkeyRow = CHR ''f''"
    by code_simp
  have run: "succeeds (addObjects_untilIndexes exampleNew exampleResults)"
    by code_simp
  have during: "duringConstraints exampleIndexesDb"
    using succeeds_orElse [OF run, of exampleNew]
    unfolding exampleIndexesDb_def exampleNew_def
    by (rule duringConstraints.afterIndexes)
  have t: "tables_getMaybe exampleIndexesDb (kr_tableOid orderAccountFkeyRow) = Some 1"
    by code_simp
  have "map_option i_parent (indexes_getMaybe exampleIndexesDb (kr_indexOid orderAccountFkeyRow))
      = Some 0"
    by code_simp
  then obtain i where
    i: "indexes_getMaybe exampleIndexesDb (kr_indexOid orderAccountFkeyRow) = Some i"
    and p: "i_parent i = 0"
    by auto
  have "succeeds (constrainedColumns (e_columns (entityStore exampleIndexesDb ! 1))
              (kr_constrainedColumnPositions orderAccountFkeyRow))"
    by code_simp
  then obtain cols where
    cols: "constrainedColumns (e_columns (entityStore exampleIndexesDb ! 1))
              (kr_constrainedColumnPositions orderAccountFkeyRow) = Inr cols"
    by (auto simp: succeeds_def split: sum.splits)
  have len: "length (entityStore exampleIndexesDb) = 2"
    by code_simp
  from addConstraints_foreignKey_row [OF k, of exampleIndexesDb, THEN conjunct2, rule_format,
      of 1 i cols] during t i cols
  obtain db' where tab: "e_kind (entityStore exampleIndexesDb ! i_parent i) = Table"
    and db': "addConstraints_row exampleIndexesDb orderAccountFkeyRow = Inr db'"
    and eff: "\<forall>r < length (entityStore exampleIndexesDb).
                entityStore db' ! r = (entityStore exampleIndexesDb ! r)
                  \<lparr>e_constraints := e_constraints (entityStore exampleIndexesDb ! r)
                      @ (if r = 1 then [newForeignKey orderAccountFkeyRow 1 i cols] else []),
                   e_foreignKeysToThis := e_foreignKeysToThis (entityStore exampleIndexesDb ! r)
                      @ (if r = i_parent i then [newForeignKey orderAccountFkeyRow 1 i cols]
                         else [])\<rparr>"
    by auto
  from eff [rule_format, of 0] eff [rule_format, of 1] len p
  have e: "e_constraints (entityStore db' ! 1)
                  = e_constraints (entityStore exampleIndexesDb ! 1)
                    @ [newForeignKey orderAccountFkeyRow 1 i cols]
      \<and> e_constraints (entityStore db' ! 0) = e_constraints (entityStore exampleIndexesDb ! 0)
      \<and> e_foreignKeysToThis (entityStore db' ! 0)
                  = e_foreignKeysToThis (entityStore exampleIndexesDb ! 0)
                    @ [newForeignKey orderAccountFkeyRow 1 i cols]
      \<and> e_foreignKeysToThis (entityStore db' ! 1)
                  = e_foreignKeysToThis (entityStore exampleIndexesDb ! 1)"
    by simp
  have k2: "kr_kind (orderAccountFkeyRow\<lparr>kr_indexOid := 9999\<rparr>) = CHR ''f''"
    using k by simp
  have n2: "indexes_getMaybe exampleIndexesDb
      (kr_indexOid (orderAccountFkeyRow\<lparr>kr_indexOid := 9999\<rparr>)) = None"
    by code_simp
  from addConstraints_foreignKey_row [OF k2, of exampleIndexesDb, THEN conjunct1] n2
  have r2: "addConstraints_row exampleIndexesDb (orderAccountFkeyRow\<lparr>kr_indexOid := 9999\<rparr>)
       = Inr exampleIndexesDb"
    by blast
  have k3: "kr_kind (orderAccountFkeyRow\<lparr>kr_indexOid := 210\<rparr>) = CHR ''f''"
    using k by simp
  have n3: "indexes_getMaybe exampleMaterializedViewDb
      (kr_indexOid (orderAccountFkeyRow\<lparr>kr_indexOid := 210\<rparr>)) = None"
    by code_simp
  from addConstraints_foreignKey_row [OF k3, of exampleMaterializedViewDb, THEN conjunct1] n3
  have r3: "addConstraints_row exampleMaterializedViewDb (orderAccountFkeyRow\<lparr>kr_indexOid := 210\<rparr>)
       = Inr exampleMaterializedViewDb"
    by blast
  from i cols p tab db' e
  have "\<exists>i cols. indexes_getMaybe exampleIndexesDb (kr_indexOid orderAccountFkeyRow) = Some i
        \<and> constrainedColumns (e_columns (entityStore exampleIndexesDb ! 1))
              (kr_constrainedColumnPositions orderAccountFkeyRow) = Inr cols
        \<and> i_parent i = 0
        \<and> e_kind (entityStore exampleIndexesDb ! i_parent i) = Table
        \<and> (\<exists>db'. addConstraints_row exampleIndexesDb orderAccountFkeyRow = Inr db'
              \<and> e_constraints (entityStore db' ! 1)
                  = e_constraints (entityStore exampleIndexesDb ! 1)
                    @ [newForeignKey orderAccountFkeyRow 1 i cols]
              \<and> e_constraints (entityStore db' ! 0) = e_constraints (entityStore exampleIndexesDb ! 0)
              \<and> e_foreignKeysToThis (entityStore db' ! 0)
                  = e_foreignKeysToThis (entityStore exampleIndexesDb ! 0)
                    @ [newForeignKey orderAccountFkeyRow 1 i cols]
              \<and> e_foreignKeysToThis (entityStore db' ! 1)
                  = e_foreignKeysToThis (entityStore exampleIndexesDb ! 1))"
    by (intro exI [of _ i] exI [of _ cols] exI [of _ db']) simp
  with k during t k2 n2 r2 k3 n3 r3 show ?thesis by (intro conjI)
qed

text \<open>
  C1 as stated fails. The row \<open>stray_account_id_fkey\<close> is a foreign-key row whose
  referenced index resolves (it is the primary-key index of \<open>account\<close>) and whose table
  is not loaded: in the state that the index phase leaves, \<open>addConstraints\<close> creates
  nothing for it. A foreign-key row of \<open>order\<close> whose index resolves and that names a
  column position that \<open>order\<close> does not have makes \<open>addConstraints\<close> throw.
\<close>

theorem addConstraints_foreignKey_unloaded_table:
  "addObjects_untilIndexes exampleNew exampleResults = Inr exampleIndexesDb
   \<and> kr_kind strayFkeyRow = CHR ''f''
   \<and> indexes_getMaybe exampleIndexesDb (kr_indexOid strayFkeyRow) \<noteq> None
   \<and> tables_getMaybe exampleIndexesDb (kr_tableOid strayFkeyRow) = None
   \<and> addConstraints_row exampleIndexesDb strayFkeyRow = Inr exampleIndexesDb
   \<and> kr_kind (orderAccountFkeyRow\<lparr>kr_constrainedColumnPositions := [7]\<rparr>) = CHR ''f''
   \<and> indexes_getMaybe exampleIndexesDb
        (kr_indexOid (orderAccountFkeyRow\<lparr>kr_constrainedColumnPositions := [7]\<rparr>)) \<noteq> None
   \<and> addConstraints_row exampleIndexesDb
        (orderAccountFkeyRow\<lparr>kr_constrainedColumnPositions := [7]\<rparr>) = Inl NotFound"
  by code_simp

section \<open>Closing the connection\<close>

text \<open>
  C7, as the code has it. When \<open>pgStructure\<close> creates the client itself (the connection
  input, given or read from the environment, is not a connected client of the
  caller's), \<open>keepConnection\<close> is not set and the call succeeds, \<open>client.end()\<close> is
  called before \<open>pgStructure\<close> returns. When the caller supplied a connected client,
  \<open>pgStructure\<close> never calls \<open>client.end()\<close>, whether it returns or throws.
\<close>

theorem pgStructure_closes_connection:
  "(succeeds (fst (pgStructure drv clientOrOptions maybeOptions))
      \<and> usedConnection drv clientOrOptions maybeOptions \<noteq> ConnectedClient
      \<and> o_keepConnection (usedOptions clientOrOptions maybeOptions) \<noteq> Some True
    \<longrightarrow> snd (pgStructure drv clientOrOptions maybeOptions))
   \<and> (usedConnection drv clientOrOptions maybeOptions = ConnectedClient
    \<longrightarrow> \<not> snd (pgStructure drv clientOrOptions maybeOptions))"
  by (auto simp: pgStructure_def Let_def getConnectedPgClient_def succeeds_def
      split: sum.splits pgClientOrConfig.splits option.splits)

theorem pgStructure_closes_connection_witness:
  "succeeds (fst (pgStructure exampleDriver shopConfig None))
   \<and> usedConnection exampleDriver shopConfig None \<noteq> ConnectedClient
   \<and> o_keepConnection (usedOptions shopConfig None) \<noteq> Some True
   \<and> snd (pgStructure exampleDriver shopConfig None)
   \<and> usedConnection exampleDriver (ConnectionArgument ConnectedClient) None = ConnectedClient
   \<and> succeeds (fst (pgStructure exampleDriver (ConnectionArgument ConnectedClient) None))
   \<and> \<not> snd (pgStructure exampleDriver (ConnectionArgument ConnectedClient) None)
   \<and> usedConnection rejectingDriver (ConnectionArgument ConnectedClient) None = ConnectedClient
   \<and> \<not> succeeds (fst (pgStructure rejectingDriver (ConnectionArgument ConnectedClient) None))
   \<and> \<not> snd (pgStructure rejectingDriver (ConnectionArgument ConnectedClient) None)"
proof -
  have a1: "succeeds (fst (pgStructure exampleDriver shopConfig None))"
    by code_simp
  have a2: "usedConnection exampleDriver shopConfig None \<noteq> ConnectedClient"
    by code_simp
  have a3: "o_keepConnection (usedOptions shopConfig None) \<noteq> Some True"
    by code_simp
  have b1: "usedConnection exampleDriver (ConnectionArgument ConnectedClient) None = ConnectedClient"
    by code_simp
  have b2: "succeeds (fst (pgStructure exampleDriver (ConnectionArgument ConnectedClient) None))"
    by code_simp
  have c1: "usedConnection rejectingDriver (ConnectionArgument ConnectedClient) None = ConnectedClient"
    by code_simp
  have c2: "\<not> succeeds (fst (pgStructure rejectingDriver (ConnectionArgument ConnectedClient) None))"
    by code_simp
  from pgStructure_closes_connection [of exampleDriver shopConfig None, THEN conjunct1] a1 a2 a3
  have r1: "snd (pgStructure exampleDriver shopConfig None)"
    by blast
  from pgStructure_closes_connection
    [of exampleDriver "ConnectionArgument ConnectedClient" None, THEN conjunct2] b1
  have r2: "\<not> snd (pgStructure exampleDriver (ConnectionArgument ConnectedClient) None)"
    by blast
  from pgStructure_closes_connection
    [of rejectingDriver "ConnectionArgument ConnectedClient" None, THEN conjunct2] c1
  have r3: "\<not> snd (pgStructure rejectingDriver (ConnectionArgument ConnectedClient) None)"
    by blast
  from a1 a2 a3 r1 b1 b2 r2 c1 c2 r3 show ?thesis by (intro conjI)
qed

text \<open>
  C7 as stated fails: with a client that \<open>pgStructure\<close> creates from a configuration and
  \<open>keepConnection\<close> not set, a rejected query and an exception of the assembly both
  leave \<open>pgStructure\<close> without a call of \<open>client.end()\<close>.
\<close>

theorem pgStructure_failure_leaves_connection_open:
  "usedConnection rejectingDriver shopConfig None = ClientConfig (Some ''shop'')
   \<and> o_keepConnection (usedOptions shopConfig None) = None
   \<and> pgStructure rejectingDriver shopConfig None
       = (Inl (DriverError ''connection terminated''), False)
   \<and> usedConnection orphanTypeDriver shopConfig None = ClientConfig (Some ''shop'')
   \<and> pgStructure orphanTypeDriver shopConfig None = (Inl NotFound, False)"
  by code_simp

section \<open>Reading back what was written\<close>

lemma those_map_Some:
  assumes "\<And>x. f (g x) = Some x"
  shows "those (map (\<lambda>x. f (g x)) xs) = Some xs"
  by (induction xs) (simp_all add: assms)

lemma asArray_ofArray:
  assumes "\<And>x. f (g x) = Some x"
  shows "asArray f (ofArray g xs) = Some xs"
  using those_map_Some [of f g xs, OF assms] by (simp add: asArray_def ofArray_def comp_def)

lemma asNat_ofNat: "asNat (ofNat n) = Some n"
  by (simp add: asNat_def ofNat_def)

lemma asChar_ofChar: "asChar (ofChar c) = Some c"
  by (simp add: asChar_def ofChar_def)

lemma asInt_JNumber: "asInt (JNumber i) = Some i"
  by (simp add: asInt_def)

lemma asString_JString: "asString (JString s) = Some s"
  by (simp add: asString_def)

lemma asBoolean_JBoolean: "asBoolean (JBoolean b) = Some b"
  by (simp add: asBoolean_def)

lemma asNullable_ofNullable: "asNullable asString (ofNullable JString v) = Some v"
  by (cases v) (simp_all add: asNullable_def ofNullable_def asString_def)

lemmas readers =
  asNat_ofNat asChar_ofChar asInt_JNumber asString_JString asBoolean_JBoolean
  asNullable_ofNullable asArray_ofArray readProperty_def property_def

lemma schema_row_of_json: "schema_row_of_json (json_of_schema_row r) = Some r"
  by (simp add: schema_row_of_json_def json_of_schema_row_def readers)

lemma type_row_of_json: "type_row_of_json (json_of_type_row r) = Some r"
  by (simp add: type_row_of_json_def json_of_type_row_def readers)

lemma entity_row_of_json: "entity_row_of_json (json_of_entity_row r) = Some r"
  by (simp add: entity_row_of_json_def json_of_entity_row_def readers)

lemma column_row_of_json: "column_row_of_json (json_of_column_row r) = Some r"
  by (simp add: column_row_of_json_def json_of_column_row_def readers)

lemma index_row_of_json: "index_row_of_json (json_of_index_row r) = Some r"
  by (simp add: index_row_of_json_def json_of_index_row_def readers)

lemma constraint_row_of_json: "constraint_row_of_json (json_of_constraint_row r) = Some r"
  by (simp add: constraint_row_of_json_def json_of_constraint_row_def readers)

lemma function_row_of_json: "function_row_of_json (json_of_function_row r) = Some r"
  by (simp add: function_row_of_json_def json_of_function_row_def readers)

lemma trigger_row_of_json: "trigger_row_of_json (json_of_trigger_row r) = Some r"
  by (simp add: trigger_row_of_json_def json_of_trigger_row_def readers)

lemma queryResults_of_json: "queryResults_of_json (json_of_queryResults q) = Some q"
  by (simp add: queryResults_of_json_def json_of_queryResults_def asArray_ofArray
      schema_row_of_json type_row_of_json entity_row_of_json column_row_of_json
      index_row_of_json constraint_row_of_json function_row_of_json trigger_row_of_json)

lemma config_of_json: "config_of_json (json_of_config c) = Some (writtenConfig c)"
  by (cases "cfg_relationNameFunctions c")
    (simp_all add: config_of_json_def json_of_config_def readers writtenConfig_def
      asRelationNameFunctions_def json_of_relationNameFunctions_def)

lemma snapshot_of_json:
  "snapshot_of_json (json_of_snapshot s) = Some (s\<lparr>snap_config := writtenConfig (snap_config s)\<rparr>)"
  by (simp add: snapshot_of_json_def json_of_snapshot_def readers config_of_json
      queryResults_of_json)

section \<open>The rows of the graph\<close>

lemma map_list_update_same: "h y = h (xs ! r) \<Longrightarrow> map h (xs[r := y]) = map h xs"
proof (induction xs arbitrary: r)
  case Nil
  then show ?case by simp
next
  case (Cons x xs)
  then show ?case by (cases r) simp_all
qed

lemma UN_list_update:
  "r < length xs \<Longrightarrow> G y = insert a (G (xs ! r)) \<Longrightarrow>
   (\<Union>x\<in>set (xs[r := y]). G x) = insert a (\<Union>x\<in>set xs. G x)"
proof (induction xs arbitrary: r)
  case Nil
  then show ?case by simp
next
  case (Cons x xs)
  then show ?case by (cases r) auto
qed

subsection \<open>What each update of the graph does to its rows\<close>

lemma rowsOf_addSchemas:
  "rowsOf (addSchemas db rows) = (rowsOf db)\<lparr>rows_schemas := rows_schemas (rowsOf db) @ rows\<rparr>"
  unfolding addSchemas_def
proof (induction rows arbitrary: db)
  case Nil
  show ?case by simp
next
  case (Cons row rows)
  have "rowsOf (db\<lparr>db_schemas := db_schemas db @ [newSchema row]\<rparr>)
      = (rowsOf db)\<lparr>rows_schemas := rows_schemas (rowsOf db) @ [row]\<rparr>"
    by (simp add: rowsOf_def db_functions_def newSchema_def)
  with Cons.IH [of "db\<lparr>db_schemas := db_schemas db @ [newSchema row]\<rparr>"] show ?case by simp
qed

lemma rowsOf_addSystemSchemas:
  "rowsOf (addSystemSchemas db rows)
     = (rowsOf db)\<lparr>rows_systemSchemas := rows_systemSchemas (rowsOf db) @ rows\<rparr>"
  unfolding addSystemSchemas_def
proof (induction rows arbitrary: db)
  case Nil
  show ?case by simp
next
  case (Cons row rows)
  have "rowsOf (db\<lparr>db_systemSchemas := db_systemSchemas db @ [newSchema row]\<rparr>)
      = (rowsOf db)\<lparr>rows_systemSchemas := rows_systemSchemas (rowsOf db) @ [row]\<rparr>"
    by (simp add: rowsOf_def db_functions_def newSchema_def)
  with Cons.IH [of "db\<lparr>db_systemSchemas := db_systemSchemas db @ [newSchema row]\<rparr>"] show ?case
    by simp
qed

lemma rowsOf_updSchema:
  assumes "\<And>s. s_row (f s) = s_row s"
      and "\<And>s. s_normalFunctions (f s) = s_normalFunctions s"
      and "\<And>s. s_procedures (f s) = s_procedures s"
      and "\<And>s. s_aggregateFunctions (f s) = s_aggregateFunctions s"
      and "\<And>s. s_windowFunctions (f s) = s_windowFunctions s"
  shows "rowsOf (updSchema i f db) = rowsOf db"
  by (simp add: rowsOf_def updSchema_def db_functions_def map_list_update_same assms)

lemma rowsOf_updSystemSchema:
  assumes "\<And>s. s_row (f s) = s_row s"
  shows "rowsOf (updSystemSchema i f db) = rowsOf db"
  by (simp add: rowsOf_def updSystemSchema_def db_functions_def map_list_update_same assms)

lemma rowsOf_pushTypesIncludingEntities:
  "rowsOf (updSchema i (pushTypesIncludingEntities r) db) = rowsOf db"
  "rowsOf (updSystemSchema i (pushTypesIncludingEntities r) db) = rowsOf db"
  by (simp_all add: rowsOf_updSchema rowsOf_updSystemSchema pushTypesIncludingEntities_def)

lemma rowsOf_newType:
  assumes "t_columns t = []" and "t_checkConstraints t = []"
  shows "rowsOf (db\<lparr>typeStore := typeStore db @ [t]\<rparr>)
       = (rowsOf db)\<lparr>rows_types := rows_types (rowsOf db) @ [t_row t]\<rparr>"
  by (simp add: rowsOf_def db_functions_def assms)

lemma rowsOf_createEntity:
  "rowsOf (createEntity k si row db)
     = (rowsOf db)\<lparr>rows_entities := rows_entities (rowsOf db) @ [(k, row)]\<rparr>"
proof -
  have "rowsOf (db\<lparr>entityStore := entityStore db @ [newEntity row k si]\<rparr>)
     = (rowsOf db)\<lparr>rows_entities := rows_entities (rowsOf db) @ [(k, row)]\<rparr>"
    by (simp add: rowsOf_def db_functions_def newEntity_def)
  moreover have "rowsOf (createEntity k si row db)
      = rowsOf (db\<lparr>entityStore := entityStore db @ [newEntity row k si]\<rparr>)"
    unfolding createEntity_def
    by (rule rowsOf_updSchema) (cases k; simp add: pushEntity_def)+
  ultimately show ?thesis by simp
qed

lemma rowsOf_pushColumn:
  assumes "r < length (entityStore db)"
  shows "rowsOf (pushColumn r c db)
       = (rowsOf db)\<lparr>rows_columns := insert (c_row c) (rows_columns (rowsOf db))\<rparr>"
  using assms
  by (simp add: rowsOf_def pushColumn_def updEntity_def db_functions_def map_list_update_same
      UN_list_update [where a = "c_row c"])

lemma rowsOf_pushTypeColumn:
  assumes "r < length (typeStore db)"
  shows "rowsOf (pushTypeColumn r c db)
       = (rowsOf db)\<lparr>rows_columns := insert (c_row c) (rows_columns (rowsOf db))\<rparr>"
  using assms
  by (simp add: rowsOf_def pushTypeColumn_def updType_def db_functions_def map_list_update_same
      UN_list_update [where a = "c_row c"])

lemma rowsOf_pushIndex:
  assumes "r < length (entityStore db)"
  shows "rowsOf (pushIndex r i db)
       = (rowsOf db)\<lparr>rows_indexes := insert (i_row i) (rows_indexes (rowsOf db))\<rparr>"
  using assms
  by (simp add: rowsOf_def pushIndex_def updEntity_def db_functions_def map_list_update_same
      UN_list_update [where a = "i_row i"])

lemma rowsOf_pushConstraint:
  assumes "r < length (entityStore db)"
  shows "rowsOf (pushConstraint r c db)
       = (rowsOf db)\<lparr>rows_constraints := insert (constraintRow c) (rows_constraints (rowsOf db))\<rparr>"
  using assms
  by (simp add: rowsOf_def pushConstraint_def updEntity_def db_functions_def map_list_update_same
      UN_list_update [where a = "constraintRow c"])

lemma rowsOf_pushForeignKeysToThis: "rowsOf (pushForeignKeysToThis r c db) = rowsOf db"
  by (simp add: rowsOf_def pushForeignKeysToThis_def updEntity_def db_functions_def
      map_list_update_same)

lemma rowsOf_pushCheckConstraint:
  assumes "r < length (typeStore db)"
  shows "rowsOf (pushCheckConstraint r c db)
       = (rowsOf db)\<lparr>rows_constraints := insert (constraintRow c) (rows_constraints (rowsOf db))\<rparr>"
  using assms
  by (simp add: rowsOf_def pushCheckConstraint_def updType_def db_functions_def
      map_list_update_same UN_list_update [where a = "constraintRow c"])

lemma rowsOf_pushTrigger:
  assumes "r < length (entityStore db)"
  shows "rowsOf (pushTrigger r g db)
       = (rowsOf db)\<lparr>rows_triggers := insert (g_row g) (rows_triggers (rowsOf db))\<rparr>"
  using assms
  by (simp add: rowsOf_def pushTrigger_def updEntity_def db_functions_def map_list_update_same
      UN_list_update [where a = "g_row g"])

lemma rowsOf_createFunction:
  assumes "si < length (db_schemas db)"
  shows "rowsOf (createFunction k si row db)
       = (rowsOf db)\<lparr>rows_functions := insert (k, row) (rows_functions (rowsOf db))\<rparr>"
proof -
  let ?h = "\<lambda>f. (f_kind f, f_row f)"
  let ?G = "\<lambda>s. ?h ` (set (s_normalFunctions s) \<union> set (s_procedures s)
                    \<union> set (s_aggregateFunctions s) \<union> set (s_windowFunctions s))"
  let ?y = "pushFunction \<lparr>f_row = row, f_kind = k, f_schema = si\<rparr> (db_schemas db ! si)"
  have alt: "\<And>d. ?h ` set (db_functions d) = (\<Union>s\<in>set (db_schemas d). ?G s)"
    by (auto simp: db_functions_def)
  have y: "?G ?y = insert (k, row) (?G (db_schemas db ! si))"
    by (cases k) (auto simp: pushFunction_def)
  have r: "s_row ?y = s_row (db_schemas db ! si)"
    by (cases k) (simp_all add: pushFunction_def)
  have "(\<Union>s\<in>set ((db_schemas db)[si := ?y]). ?G s)
      = insert (k, row) (\<Union>s\<in>set (db_schemas db). ?G s)"
    using assms y by (rule UN_list_update)
  then have fn: "?h ` set (db_functions (db\<lparr>db_schemas := (db_schemas db)[si := ?y]\<rparr>))
      = insert (k, row) (?h ` set (db_functions db))"
    unfolding alt by simp
  show ?thesis
    unfolding createFunction_def
    by (simp add: rowsOf_def updSchema_def fn map_list_update_same r)
qed

subsection \<open>What each row of each phase does to the rows of the graph\<close>

lemma rowsOf_addTypes_row:
  assumes "addTypes_row db row = Inr db'"
  shows "rowsOf db' = (rowsOf db)\<lparr>rows_types := rows_types (rowsOf db) @ [row]\<rparr>"
proof -
  from addTypes_row_cases [OF assms] obtain t i where
    t: "t_row t = row" "t_columns t = []" "t_checkConstraints t = []"
    and db': "db' = updSystemSchema i (pushTypesIncludingEntities (length (typeStore db)))
                       (db\<lparr>typeStore := typeStore db @ [t]\<rparr>)
             \<or> db' = updSchema i (pushTypesIncludingEntities (length (typeStore db)))
                       (db\<lparr>typeStore := typeStore db @ [t]\<rparr>)"
    by blast
  from db' have "rowsOf db' = rowsOf (db\<lparr>typeStore := typeStore db @ [t]\<rparr>)"
    by (auto simp: rowsOf_pushTypesIncludingEntities)
  with rowsOf_newType [OF t(2) t(3), of db] t(1) show ?thesis by simp
qed

lemma rowsOf_addEntities_row:
  assumes "addEntities_row db row = Inr db'"
  shows "rowsOf db' = (rowsOf db)\<lparr>rows_entities := rows_entities (rowsOf db)
           @ (case entityKindOf (er_kind row) of None \<Rightarrow> [] | Some k \<Rightarrow> [(k, row)])\<rparr>"
  using addEntities_row_cases [OF assms] by (auto simp: rowsOf_createEntity)

lemma rowsOf_addColumns_row:
  assumes "addColumns_row db row = Inr db'"
  shows "rowsOf db' = (rowsOf db)\<lparr>rows_columns := insert row (rows_columns (rowsOf db))\<rparr>"
  using addColumns_row_cases [OF assms] by (auto simp: rowsOf_pushColumn rowsOf_pushTypeColumn)

lemma rowsOf_addIndexes_row:
  assumes "addIndexes_row db row = Inr db'"
  shows "rowsOf db' = (rowsOf db)\<lparr>rows_indexes := insert row (rows_indexes (rowsOf db))\<rparr>"
  using addIndexes_row_cases [OF assms] by (auto simp: rowsOf_pushIndex buildIndex_def)

lemma rowsOf_addConstraints_row:
  assumes "addConstraints_row db row = Inr db'"
  shows "rowsOf db' = rowsOf db
       \<or> rowsOf db' = (rowsOf db)\<lparr>rows_constraints := insert row (rows_constraints (rowsOf db))\<rparr>"
  using addConstraints_row_cases [OF assms]
  by (auto simp: rowsOf_pushConstraint rowsOf_pushForeignKeysToThis rowsOf_pushCheckConstraint)

lemma rowsOf_addFunctions_row:
  assumes "addFunctions_row db row = Inr db'"
  shows "rowsOf db' = (rowsOf db)\<lparr>rows_functions :=
           (case functionKindOf (fr_kind row) of None \<Rightarrow> {} | Some k \<Rightarrow> {(k, row)})
           \<union> rows_functions (rowsOf db)\<rparr>"
  using addFunctions_row_cases [OF assms] by (auto simp: rowsOf_createFunction)

lemma rowsOf_addTriggers_row:
  assumes "addTriggers_row db row = Inr db'"
  shows "rowsOf db' = (rowsOf db)\<lparr>rows_triggers := insert row (rows_triggers (rowsOf db))\<rparr>"
  using addTriggers_row_cases [OF assms] by (auto simp: rowsOf_pushTrigger)

text \<open>A table row of a loaded table is given a constraint.\<close>

lemma tableLoaded_tables_getMaybe: "tableLoaded db k \<longleftrightarrow> tables_getMaybe db k \<noteq> None"
proof
  assume "tableLoaded db k"
  then obtain e where "e \<in> set (entityStore db)" "e_kind e = Table" "er_oid (e_row e) = k"
    by (auto simp: tableLoaded_def)
  then have "\<not> (\<forall>x\<in>set (entityStore db). \<not> (e_kind x = Table \<and> er_oid (e_row x) = k))"
    by blast
  then show "tables_getMaybe db k \<noteq> None"
    by (simp only: tables_getMaybe_def findRef_None not_False_eq_True)
next
  assume "tables_getMaybe db k \<noteq> None"
  then obtain e where "e \<in> set (entityStore db)" "e_kind e = Table" "er_oid (e_row e) = k"
    by (auto simp: tables_getMaybe_def findRef_None)
  then have "(Table, k) = (e_kind e, er_oid (e_row e))" by simp
  from this \<open>e \<in> set (entityStore db)\<close> show "tableLoaded db k"
    unfolding tableLoaded_def set_map by (rule image_eqI)
qed

lemma tableLoaded_rowsOf:
  "rows_entities (rowsOf db') = rows_entities (rowsOf db) \<Longrightarrow> tableLoaded db' k = tableLoaded db k"
proof -
  assume "rows_entities (rowsOf db') = rows_entities (rowsOf db)"
  then have "map (\<lambda>p. (fst p, er_oid (snd p))) (rows_entities (rowsOf db'))
      = map (\<lambda>p. (fst p, er_oid (snd p))) (rows_entities (rowsOf db))"
    by simp
  then show ?thesis by (simp add: tableLoaded_def rowsOf_def comp_def)
qed

lemma rowsOf_addConstraints_row_table:
  assumes "addConstraints_row db row = Inr db'"
      and "tableLoaded db (kr_tableOid row)"
      and "kr_kind row \<in> {CHR ''p'', CHR ''u'', CHR ''x'', CHR ''c''}"
  shows "row \<in> rows_constraints (rowsOf db')"
proof -
  from assms(2) obtain t where t: "tables_getMaybe db (kr_tableOid row) = Some t"
    by (auto simp: tableLoaded_tables_getMaybe)
  then have lt: "t < length (entityStore db)" using tables_getMaybe_Some by blast
  from assms(1) assms(3) t
  have "db' = pushConstraint t (PrimaryKey row (indexes_getMaybe db (kr_indexOid row)) t) db
      \<or> db' = pushConstraint t (UniqueConstraint
                 (newUniqueConstraint row (indexes_getMaybe db (kr_indexOid row)) t)) db
      \<or> db' = pushConstraint t (ExclusionConstraint row (indexes_getMaybe db (kr_indexOid row)) t) db
      \<or> db' = pushConstraint t (CheckConstraint row (OfTable t) (kr_checkConstraintExpression row)) db"
    by (auto simp: addConstraints_row_def Let_def split: if_splits)
  then show ?thesis
    by (auto simp: rowsOf_pushConstraint [OF lt] newUniqueConstraint_def)
qed

subsection \<open>What each phase does to the rows of the graph\<close>

lemma forEach_rows:
  assumes step: "\<And>s x s'. f s x = Inr s' \<Longrightarrow> V s' = u x (V s)"
  shows "forEach f s xs = Inr s' \<Longrightarrow> V s' = foldl (\<lambda>v x. u x v) (V s) xs"
proof (induction xs arbitrary: s)
  case Nil
  then show ?case by simp
next
  case (Cons x xs)
  from Cons.prems obtain s1 where s1: "f s x = Inr s1" "forEach f s1 xs = Inr s'"
    by (auto split: sum.splits)
  from Cons.IH [OF s1(2)] step [OF s1(1)] show ?case by simp
qed

lemma foldl_rows_types:
  "foldl (\<lambda>v x. v\<lparr>rows_types := rows_types v @ [x]\<rparr>) v xs = v\<lparr>rows_types := rows_types v @ xs\<rparr>"
  by (induction xs arbitrary: v) simp_all

lemma foldl_rows_entities:
  "foldl (\<lambda>v x. v\<lparr>rows_entities := rows_entities v
            @ (case entityKindOf (er_kind x) of None \<Rightarrow> [] | Some k \<Rightarrow> [(k, x)])\<rparr>) v xs
     = v\<lparr>rows_entities := rows_entities v
          @ List.map_filter (\<lambda>r. map_option (\<lambda>k. (k, r)) (entityKindOf (er_kind r))) xs\<rparr>"
  by (induction xs arbitrary: v) (simp_all add: List.map_filter_simps split: option.splits)

lemma foldl_rows_columns:
  "foldl (\<lambda>v x. v\<lparr>rows_columns := insert x (rows_columns v)\<rparr>) v xs
     = v\<lparr>rows_columns := set xs \<union> rows_columns v\<rparr>"
  by (induction xs arbitrary: v) simp_all

lemma foldl_rows_indexes:
  "foldl (\<lambda>v x. v\<lparr>rows_indexes := insert x (rows_indexes v)\<rparr>) v xs
     = v\<lparr>rows_indexes := set xs \<union> rows_indexes v\<rparr>"
  by (induction xs arbitrary: v) simp_all

lemma foldl_rows_functions:
  "foldl (\<lambda>v x. v\<lparr>rows_functions :=
             (case functionKindOf (fr_kind x) of None \<Rightarrow> {} | Some k \<Rightarrow> {(k, x)})
             \<union> rows_functions v\<rparr>) v xs
     = v\<lparr>rows_functions :=
          set (List.map_filter (\<lambda>r. map_option (\<lambda>k. (k, r)) (functionKindOf (fr_kind r))) xs)
          \<union> rows_functions v\<rparr>"
  by (induction xs arbitrary: v) (auto simp: List.map_filter_simps split: option.splits)

lemma foldl_rows_triggers:
  "foldl (\<lambda>v x. v\<lparr>rows_triggers := insert x (rows_triggers v)\<rparr>) v xs
     = v\<lparr>rows_triggers := set xs \<union> rows_triggers v\<rparr>"
  by (induction xs arbitrary: v) simp_all

lemma rowsOf_addTypes:
  "addTypes db rows = Inr db' \<Longrightarrow>
   rowsOf db' = (rowsOf db)\<lparr>rows_types := rows_types (rowsOf db) @ rows\<rparr>"
  unfolding addTypes_def
  using forEach_rows [where f = addTypes_row and V = rowsOf
      and u = "\<lambda>x v. v\<lparr>rows_types := rows_types v @ [x]\<rparr>",
      OF rowsOf_addTypes_row]
  by (simp add: foldl_rows_types)

lemma rowsOf_addEntities:
  "addEntities db rows = Inr db' \<Longrightarrow>
   rowsOf db' = (rowsOf db)\<lparr>rows_entities := rows_entities (rowsOf db)
      @ List.map_filter (\<lambda>r. map_option (\<lambda>k. (k, r)) (entityKindOf (er_kind r))) rows\<rparr>"
  unfolding addEntities_def
  using forEach_rows [where f = addEntities_row and V = rowsOf
      and u = "\<lambda>x v. v\<lparr>rows_entities := rows_entities v
            @ (case entityKindOf (er_kind x) of None \<Rightarrow> [] | Some k \<Rightarrow> [(k, x)])\<rparr>",
      OF rowsOf_addEntities_row]
  by (simp add: foldl_rows_entities)

lemma rowsOf_addColumns:
  "addColumns db rows = Inr db' \<Longrightarrow>
   rowsOf db' = (rowsOf db)\<lparr>rows_columns := set rows \<union> rows_columns (rowsOf db)\<rparr>"
  unfolding addColumns_def
  using forEach_rows [where f = addColumns_row and V = rowsOf
      and u = "\<lambda>x v. v\<lparr>rows_columns := insert x (rows_columns v)\<rparr>",
      OF rowsOf_addColumns_row]
  by (simp add: foldl_rows_columns)

lemma rowsOf_addIndexes:
  "addIndexes db rows = Inr db' \<Longrightarrow>
   rowsOf db' = (rowsOf db)\<lparr>rows_indexes := set rows \<union> rows_indexes (rowsOf db)\<rparr>"
  unfolding addIndexes_def
  using forEach_rows [where f = addIndexes_row and V = rowsOf
      and u = "\<lambda>x v. v\<lparr>rows_indexes := insert x (rows_indexes v)\<rparr>",
      OF rowsOf_addIndexes_row]
  by (simp add: foldl_rows_indexes)

lemma rowsOf_addFunctions:
  "addFunctions db rows = Inr db' \<Longrightarrow>
   rowsOf db' = (rowsOf db)\<lparr>rows_functions :=
      set (List.map_filter (\<lambda>r. map_option (\<lambda>k. (k, r)) (functionKindOf (fr_kind r))) rows)
      \<union> rows_functions (rowsOf db)\<rparr>"
  unfolding addFunctions_def
  using forEach_rows [where f = addFunctions_row and V = rowsOf
      and u = "\<lambda>x v. v\<lparr>rows_functions :=
             (case functionKindOf (fr_kind x) of None \<Rightarrow> {} | Some k \<Rightarrow> {(k, x)})
             \<union> rows_functions v\<rparr>",
      OF rowsOf_addFunctions_row]
  by (simp add: foldl_rows_functions)

lemma rowsOf_addTriggers:
  "addTriggers db rows = Inr db' \<Longrightarrow>
   rowsOf db' = (rowsOf db)\<lparr>rows_triggers := set rows \<union> rows_triggers (rowsOf db)\<rparr>"
  unfolding addTriggers_def
  using forEach_rows [where f = addTriggers_row and V = rowsOf
      and u = "\<lambda>x v. v\<lparr>rows_triggers := insert x (rows_triggers v)\<rparr>",
      OF rowsOf_addTriggers_row]
  by (simp add: foldl_rows_triggers)

text \<open>
  The constraint phase adds rows of its list to the constraint rows of the graph and
  changes no other row; it adds every primary-key, unique, exclusion and check row of
  a loaded table.
\<close>

lemma rowsOf_addConstraints:
  "addConstraints db rows = Inr db' \<Longrightarrow>
   (\<exists>A. A \<subseteq> set rows
      \<and> rowsOf db' = (rowsOf db)\<lparr>rows_constraints := A \<union> rows_constraints (rowsOf db)\<rparr>)
   \<and> (\<forall>row \<in> set rows. tableLoaded db (kr_tableOid row)
            \<and> kr_kind row \<in> {CHR ''p'', CHR ''u'', CHR ''x'', CHR ''c''}
          \<longrightarrow> row \<in> rows_constraints (rowsOf db'))"
  unfolding addConstraints_def
proof (induction rows arbitrary: db)
  case Nil
  then show ?case by simp
next
  case (Cons x xs)
  from Cons.prems obtain d1 where d1: "addConstraints_row db x = Inr d1"
    "forEach addConstraints_row d1 xs = Inr db'"
    by (auto split: sum.splits)
  from rowsOf_addConstraints_row [OF d1(1)] obtain B where B: "B \<subseteq> {x}"
    "rowsOf d1 = (rowsOf db)\<lparr>rows_constraints := B \<union> rows_constraints (rowsOf db)\<rparr>"
  proof
    assume "rowsOf d1 = rowsOf db"
    then have "rowsOf d1 = (rowsOf db)\<lparr>rows_constraints := {} \<union> rows_constraints (rowsOf db)\<rparr>"
      by simp
    then show ?thesis using that [of "{}"] by blast
  next
    assume "rowsOf d1 = (rowsOf db)\<lparr>rows_constraints := insert x (rows_constraints (rowsOf db))\<rparr>"
    then have "rowsOf d1 = (rowsOf db)\<lparr>rows_constraints := {x} \<union> rows_constraints (rowsOf db)\<rparr>"
      by simp
    then show ?thesis using that [of "{x}"] by blast
  qed
  from B(2) have ents: "rows_entities (rowsOf d1) = rows_entities (rowsOf db)" by simp
  have loaded: "\<And>k. tableLoaded d1 k = tableLoaded db k"
    by (rule tableLoaded_rowsOf [OF ents])
  from Cons.IH [OF d1(2)] obtain A where A: "A \<subseteq> set xs"
    "rowsOf db' = (rowsOf d1)\<lparr>rows_constraints := A \<union> rows_constraints (rowsOf d1)\<rparr>"
    and rest: "\<forall>row \<in> set xs. tableLoaded d1 (kr_tableOid row)
            \<and> kr_kind row \<in> {CHR ''p'', CHR ''u'', CHR ''x'', CHR ''c''}
          \<longrightarrow> row \<in> rows_constraints (rowsOf db')"
    by blast
  from A(2) have keep: "rows_constraints (rowsOf d1) \<subseteq> rows_constraints (rowsOf db')" by simp
  have first: "tableLoaded db (kr_tableOid x)
      \<and> kr_kind x \<in> {CHR ''p'', CHR ''u'', CHR ''x'', CHR ''c''}
      \<longrightarrow> x \<in> rows_constraints (rowsOf db')"
  proof
    assume "tableLoaded db (kr_tableOid x)
      \<and> kr_kind x \<in> {CHR ''p'', CHR ''u'', CHR ''x'', CHR ''c''}"
    with rowsOf_addConstraints_row_table [OF d1(1)] have "x \<in> rows_constraints (rowsOf d1)"
      by blast
    with keep show "x \<in> rows_constraints (rowsOf db')" by blast
  qed
  have "A \<union> B \<subseteq> set (x # xs)" using A(1) B(1) by auto
  moreover have "rowsOf db'
      = (rowsOf db)\<lparr>rows_constraints := (A \<union> B) \<union> rows_constraints (rowsOf db)\<rparr>"
    using A(2) B(2) by (simp add: Un_assoc)
  ultimately have ex: "\<exists>A. A \<subseteq> set (x # xs)
      \<and> rowsOf db' = (rowsOf db)\<lparr>rows_constraints := A \<union> rows_constraints (rowsOf db)\<rparr>"
    by blast
  have "\<forall>row \<in> set (x # xs). tableLoaded db (kr_tableOid row)
            \<and> kr_kind row \<in> {CHR ''p'', CHR ''u'', CHR ''x'', CHR ''c''}
          \<longrightarrow> row \<in> rows_constraints (rowsOf db')"
    using rest first loaded by simp
  with ex show ?case by (rule conjI)
qed

subsection \<open>The rows of an assembled graph\<close>

lemma rowsOf_newDb:
  "rowsOf (newDb nm ver cfg qr naming) =
     \<lparr>rows_schemas = [], rows_systemSchemas = [], rows_types = [], rows_entities = [],
      rows_columns = {}, rows_indexes = {}, rows_constraints = {}, rows_functions = {},
      rows_triggers = {}\<rparr>"
  by (simp add: rowsOf_def newDb_def db_functions_def)

lemma rowsOf_addObjects:
  assumes "addObjects (newDb nm ver cfg qr0 naming) qr = Inr D"
  shows "rows_schemas (rowsOf D) = qr_schemas qr
       \<and> rows_systemSchemas (rowsOf D) = qr_systemSchemas qr
       \<and> rows_types (rowsOf D) = qr_types qr
       \<and> rows_entities (rowsOf D)
           = List.map_filter (\<lambda>r. map_option (\<lambda>k. (k, r)) (entityKindOf (er_kind r))) (qr_entities qr)
       \<and> rows_columns (rowsOf D) = set (qr_columns qr)
       \<and> rows_indexes (rowsOf D) = set (qr_indexes qr)
       \<and> rows_constraints (rowsOf D) \<subseteq> set (qr_constraints qr)
       \<and> (\<forall>row \<in> set (qr_constraints qr). tableLoaded D (kr_tableOid row)
              \<and> kr_kind row \<in> {CHR ''p'', CHR ''u'', CHR ''x'', CHR ''c''}
            \<longrightarrow> row \<in> rows_constraints (rowsOf D))
       \<and> rows_functions (rowsOf D)
           = set (List.map_filter (\<lambda>r. map_option (\<lambda>k. (k, r)) (functionKindOf (fr_kind r)))
                    (qr_functions qr))
       \<and> rows_triggers (rowsOf D) = set (qr_triggers qr)"
proof -
  let ?new = "newDb nm ver cfg qr0 naming"
  let ?d0 = "addSystemSchemas (addSchemas ?new (qr_schemas qr)) (qr_systemSchemas qr)"
  from addObjects_Inr [OF assms] obtain d4 d5 d6 where
    u: "addObjects_untilIndexes ?new qr = Inr d4"
    and 5: "addConstraints d4 (qr_constraints qr) = Inr d5"
    and 6: "addFunctions d5 (qr_functions qr) = Inr d6"
    and 7: "addTriggers d6 (qr_triggers qr) = Inr D"
    by blast
  from addObjects_untilIndexes_Inr [OF u] obtain d1 d2 d3 where
    1: "addTypes ?d0 (qr_types qr) = Inr d1"
    and 2: "addEntities d1 (qr_entities qr) = Inr d2"
    and 3: "addColumns d2 (qr_columns qr) = Inr d3"
    and 4: "addIndexes d3 (qr_indexes qr) = Inr d4"
    by blast
  have r0: "rowsOf ?d0 =
     \<lparr>rows_schemas = qr_schemas qr, rows_systemSchemas = qr_systemSchemas qr, rows_types = [],
      rows_entities = [], rows_columns = {}, rows_indexes = {}, rows_constraints = {},
      rows_functions = {}, rows_triggers = {}\<rparr>"
    by (simp add: rowsOf_addSystemSchemas rowsOf_addSchemas rowsOf_newDb)
  have r4: "rowsOf d4 =
     \<lparr>rows_schemas = qr_schemas qr, rows_systemSchemas = qr_systemSchemas qr,
      rows_types = qr_types qr,
      rows_entities =
        List.map_filter (\<lambda>r. map_option (\<lambda>k. (k, r)) (entityKindOf (er_kind r))) (qr_entities qr),
      rows_columns = set (qr_columns qr), rows_indexes = set (qr_indexes qr),
      rows_constraints = {}, rows_functions = {}, rows_triggers = {}\<rparr>"
    by (simp add: rowsOf_addIndexes [OF 4] rowsOf_addColumns [OF 3] rowsOf_addEntities [OF 2]
        rowsOf_addTypes [OF 1] r0)
  from rowsOf_addConstraints [OF 5] obtain A where A: "A \<subseteq> set (qr_constraints qr)"
    "rowsOf d5 = (rowsOf d4)\<lparr>rows_constraints := A \<union> rows_constraints (rowsOf d4)\<rparr>"
    and good: "\<forall>row \<in> set (qr_constraints qr). tableLoaded d4 (kr_tableOid row)
              \<and> kr_kind row \<in> {CHR ''p'', CHR ''u'', CHR ''x'', CHR ''c''}
            \<longrightarrow> row \<in> rows_constraints (rowsOf d5)"
    by blast
  have rD: "rowsOf D =
     \<lparr>rows_schemas = qr_schemas qr, rows_systemSchemas = qr_systemSchemas qr,
      rows_types = qr_types qr,
      rows_entities =
        List.map_filter (\<lambda>r. map_option (\<lambda>k. (k, r)) (entityKindOf (er_kind r))) (qr_entities qr),
      rows_columns = set (qr_columns qr), rows_indexes = set (qr_indexes qr),
      rows_constraints = A,
      rows_functions =
        set (List.map_filter (\<lambda>r. map_option (\<lambda>k. (k, r)) (functionKindOf (fr_kind r)))
               (qr_functions qr)),
      rows_triggers = set (qr_triggers qr)\<rparr>"
    by (simp add: rowsOf_addTriggers [OF 7] rowsOf_addFunctions [OF 6] A(2) r4)
  have c5: "rows_constraints (rowsOf d5) = A" by (simp add: A(2) r4)
  have "rows_entities (rowsOf D) = rows_entities (rowsOf d4)" by (simp add: rD r4)
  from tableLoaded_rowsOf [OF this] have loaded: "\<And>k. tableLoaded D k = tableLoaded d4 k" .
  from good have "\<forall>row \<in> set (qr_constraints qr). tableLoaded D (kr_tableOid row)
              \<and> kr_kind row \<in> {CHR ''p'', CHR ''u'', CHR ''x'', CHR ''c''}
            \<longrightarrow> row \<in> rows_constraints (rowsOf D)"
    by (simp add: loaded c5 rD)
  with A(1) show ?thesis by (simp add: rD)
qed

section \<open>The round trip of serialization\<close>

lemma pgStructure_Inr:
  assumes "fst (pgStructure drv clientOrOptions maybeOptions) = Inr D"
  shows "\<exists>nm ver opts qr naming.
      getRelationNameFunctions (cfg_relationNameFunctions (optionsConfig opts)) = Inr naming
    \<and> addObjects (newDb nm ver (optionsConfig opts) qr naming) qr = Inr D"
proof -
  from assms obtain c opts where b: "buildDb drv c opts = Inr D"
    by (auto simp: pgStructure_def Let_def split: sum.splits)
  from b [unfolded buildDb_def] obtain ver where
    r1: "andThen (getQueryResultsFromDb drv ver (arrify (o_includeSchemas opts))
                     (arrify (o_excludeSchemas opts))
                     (case o_includeSystemSchemas opts of Some b \<Rightarrow> b | None \<Rightarrow> False))
       (\<lambda>queryResults.
          andThen (getRelationNameFunctions
                     (case o_relationNameFunctions opts of Some x \<Rightarrow> x | None \<Rightarrow> Named ''short''))
       (\<lambda>relationNameFunctions.
          addObjects
            (newDb (optionsName opts c) ver (optionsConfig opts)
               queryResults relationNameFunctions)
            queryResults)) = Inr D"
    by (rule andThen_Inr [THEN exE]) blast
  from r1 obtain qr where
    r2: "andThen (getRelationNameFunctions
                     (case o_relationNameFunctions opts of Some x \<Rightarrow> x | None \<Rightarrow> Named ''short''))
       (\<lambda>relationNameFunctions.
          addObjects
            (newDb (optionsName opts c) ver (optionsConfig opts) qr relationNameFunctions)
            qr) = Inr D"
    by (rule andThen_Inr [THEN exE]) blast
  from r2 obtain naming where
    n: "getRelationNameFunctions
          (case o_relationNameFunctions opts of Some x \<Rightarrow> x | None \<Rightarrow> Named ''short'') = Inr naming"
    and a: "addObjects (newDb (optionsName opts c) ver (optionsConfig opts) qr naming) qr = Inr D"
    by (rule andThen_Inr [THEN exE]) blast
  from n have "getRelationNameFunctions (cfg_relationNameFunctions (optionsConfig opts)) = Inr naming"
    by (simp add: optionsConfig_def)
  with a show ?thesis by blast
qed

text \<open>
  C2, as the code has it. Let \<open>D\<close> be a Db that \<open>pgStructure\<close> returned, read with a
  naming strategy given by name. Then \<open>deserialize(serialize(D))\<close> returns \<open>D\<close>: the same name, server version, configuration and query results, the
  naming strategy bound by the name in the stored configuration, and the same graph,
  which is what \<open>addObjects\<close> assembles from a new \<open>Db\<close> of the stored values and the
  stored rows. That graph holds the stored rows, phase by phase: its schemas, system
  schemas and types are those of the stored rows, in their order; its entities are those
  of the stored entity rows of a known kind, in their order and of the class of their
  kind; the rows of its columns, indexes and triggers are the stored ones; the rows of
  its functions are the stored ones of a known kind; the rows of its constraints are
  among the stored ones, and every stored primary-key, unique, exclusion and check row
  of a loaded table is among them.
\<close>

theorem deserialize_serialize:
  assumes built: "fst (pgStructure drv clientOrOptions maybeOptions) = Inr D"
      and named: "cfg_relationNameFunctions (db_config D) = Named s"
  shows "deserialize (serialize D) = Inr D
       \<and> db_relationNameFunctions D = ModuleStrategy s
       \<and> addObjects (newDb (db_name D) (db_serverVersion D) (db_config D) (db_queryResults D)
                      (ModuleStrategy s)) (db_queryResults D) = Inr D
       \<and> rows_schemas (rowsOf D) = qr_schemas (db_queryResults D)
       \<and> rows_systemSchemas (rowsOf D) = qr_systemSchemas (db_queryResults D)
       \<and> rows_types (rowsOf D) = qr_types (db_queryResults D)
       \<and> rows_entities (rowsOf D)
           = List.map_filter (\<lambda>r. map_option (\<lambda>k. (k, r)) (entityKindOf (er_kind r)))
               (qr_entities (db_queryResults D))
       \<and> rows_columns (rowsOf D) = set (qr_columns (db_queryResults D))
       \<and> rows_indexes (rowsOf D) = set (qr_indexes (db_queryResults D))
       \<and> rows_constraints (rowsOf D) \<subseteq> set (qr_constraints (db_queryResults D))
       \<and> (\<forall>row \<in> set (qr_constraints (db_queryResults D)). tableLoaded D (kr_tableOid row)
              \<and> kr_kind row \<in> {CHR ''p'', CHR ''u'', CHR ''x'', CHR ''c''}
            \<longrightarrow> row \<in> rows_constraints (rowsOf D))
       \<and> rows_functions (rowsOf D)
           = set (List.map_filter (\<lambda>r. map_option (\<lambda>k. (k, r)) (functionKindOf (fr_kind r)))
                    (qr_functions (db_queryResults D)))
       \<and> rows_triggers (rowsOf D) = set (qr_triggers (db_queryResults D))"
proof -
  from pgStructure_Inr [OF built] obtain nm ver opts qr naming where
    n: "getRelationNameFunctions (cfg_relationNameFunctions (optionsConfig opts)) = Inr naming"
    and a: "addObjects (newDb nm ver (optionsConfig opts) qr naming) qr = Inr D"
    by blast
  from constructorArguments_addObjects [OF a] have
    snap: "snapshotOf D = \<lparr>snap_name = nm, snap_serverVersion = ver,
        snap_config = optionsConfig opts, snap_queryResults = qr\<rparr>"
    and nam: "db_relationNameFunctions D = naming"
    by (simp_all add: constructorArguments_def snapshotOf_def newDb_def)
  from snap have fields: "db_name D = nm" "db_serverVersion D = ver"
    "db_config D = optionsConfig opts" "db_queryResults D = qr"
    by (simp_all add: snapshotOf_def)
  from named fields(3) have cfg: "cfg_relationNameFunctions (optionsConfig opts) = Named s"
    by simp
  with n have naming: "naming = ModuleStrategy s"
    by (simp add: getRelationNameFunctions_def)
  from cfg have written: "writtenConfig (optionsConfig opts) = optionsConfig opts"
    by (simp add: writtenConfig_def)
  have "snapshot_of_json (json_of_snapshot (snapshotOf D)) = Some (snapshotOf D)"
    by (simp add: snapshot_of_json snap written)
  then have trip: "deserialize (serialize D) = Inr D"
    using a n
    by (simp add: deserialize_def serialize_def JSON_parse_def JSON_stringify_def andThen_def
        snap)
  from a naming fields
  have again: "addObjects (newDb (db_name D) (db_serverVersion D) (db_config D) (db_queryResults D)
                      (ModuleStrategy s)) (db_queryResults D) = Inr D"
    by simp
  from rowsOf_addObjects [OF a] fields(4) trip nam naming again show ?thesis by simp
qed

theorem deserialize_serialize_witness:
  "fst (pgStructure exampleDriver shopConfig None) = Inr exampleDb
   \<and> cfg_relationNameFunctions (db_config exampleDb) = Named ''short''
   \<and> db_queryResults exampleDb = exampleResults
   \<and> deserialize (serialize exampleDb) = Inr exampleDb
   \<and> db_relationNameFunctions exampleDb = ModuleStrategy ''short''
   \<and> rows_types (rowsOf exampleDb) = [int4Row, emailRow]
   \<and> map (\<lambda>p. (fst p, er_name (snd p))) (rows_entities (rowsOf exampleDb))
       = [(Table, ''account''), (Table, ''order'')]
   \<and> rows_indexes (rowsOf exampleDb) = set (qr_indexes exampleResults)
   \<and> tableLoaded exampleDb (kr_tableOid accountPkeyRow)
   \<and> accountPkeyRow \<in> rows_constraints (rowsOf exampleDb)"
proof -
  have "succeeds (fst (pgStructure exampleDriver shopConfig None))"
    by code_simp
  from succeeds_orElse [OF this, of exampleNew]
  have built: "fst (pgStructure exampleDriver shopConfig None) = Inr exampleDb"
    by (simp add: exampleDb_def)
  have named: "cfg_relationNameFunctions (db_config exampleDb) = Named ''short''"
    by code_simp
  have qr: "db_queryResults exampleDb = exampleResults"
    by code_simp
  have types: "qr_types exampleResults = [int4Row, emailRow]"
    by (simp add: exampleResults_def)
  have ents: "map (\<lambda>p. (fst p, er_name (snd p)))
      (List.map_filter (\<lambda>r. map_option (\<lambda>k. (k, r)) (entityKindOf (er_kind r)))
         (qr_entities exampleResults)) = [(Table, ''account''), (Table, ''order'')]"
    by code_simp
  have loaded: "tableLoaded exampleDb (kr_tableOid accountPkeyRow)"
    by code_simp
  have pkey: "accountPkeyRow \<in> set (qr_constraints exampleResults)
      \<and> kr_kind accountPkeyRow \<in> {CHR ''p'', CHR ''u'', CHR ''x'', CHR ''c''}"
    by (simp add: exampleResults_def accountPkeyRow_def)
  note inst = deserialize_serialize [OF built named, unfolded qr]
  from inst have trip: "deserialize (serialize exampleDb) = Inr exampleDb"
    and nam: "db_relationNameFunctions exampleDb = ModuleStrategy ''short''"
    and t: "rows_types (rowsOf exampleDb) = qr_types exampleResults"
    and e: "rows_entities (rowsOf exampleDb)
           = List.map_filter (\<lambda>r. map_option (\<lambda>k. (k, r)) (entityKindOf (er_kind r)))
               (qr_entities exampleResults)"
    and i: "rows_indexes (rowsOf exampleDb) = set (qr_indexes exampleResults)"
    and c: "\<forall>row \<in> set (qr_constraints exampleResults). tableLoaded exampleDb (kr_tableOid row)
              \<and> kr_kind row \<in> {CHR ''p'', CHR ''u'', CHR ''x'', CHR ''c''}
            \<longrightarrow> row \<in> rows_constraints (rowsOf exampleDb)"
    by blast+
  from c pkey loaded have in_c: "accountPkeyRow \<in> rows_constraints (rowsOf exampleDb)"
    by blast
  from built named qr trip nam t types e ents i loaded in_c show ?thesis
    by (intro conjI) simp_all
qed

text \<open>
  C2 as stated fails for a Db read with naming functions that the caller supplied:
  \<open>pgStructure\<close> returns the Db, and \<open>deserialize\<close> of its serialized form produces no
  Db but throws. Of the functions the JSON text keeps an object without them, which is
  no naming strategy.
\<close>

theorem deserialize_custom_functions_throws:
  "fst (pgStructure exampleDriver shopConfig (Some customOptions)) = Inr customDb
   \<and> cfg_relationNameFunctions (db_config customDb) = CustomFunctions 0
   \<and> db_relationNameFunctions customDb = SuppliedStrategy 0
   \<and> deserialize (serialize customDb) = Inl NamingError"
  by code_simp

end
